theory Spec2Isabelle
  imports Complex_Main
begin

section \<open>Python strings and POSIX paths\<close>

text \<open>
  Python \<open>str\<close> values are modelled as HOL strings.  Case conversion and the
  whitespace test are the ASCII ones (the registry keys, the accepted extensions
  and every literal of the program are ASCII).
\<close>

definition is_upper :: "char \<Rightarrow> bool" where
  "is_upper c = (c \<in> set ''ABCDEFGHIJKLMNOPQRSTUVWXYZ'')"

definition is_lower :: "char \<Rightarrow> bool" where
  "is_lower c = (c \<in> set ''abcdefghijklmnopqrstuvwxyz'')"

definition lower_char :: "char \<Rightarrow> char" where
  "lower_char c =
     (case map_of (zip ''ABCDEFGHIJKLMNOPQRSTUVWXYZ'' ''abcdefghijklmnopqrstuvwxyz'') c of
        None \<Rightarrow> c | Some d \<Rightarrow> d)"

definition upper_char :: "char \<Rightarrow> char" where
  "upper_char c =
     (case map_of (zip ''abcdefghijklmnopqrstuvwxyz'' ''ABCDEFGHIJKLMNOPQRSTUVWXYZ'') c of
        None \<Rightarrow> c | Some d \<Rightarrow> d)"

text \<open>\<open>s.lower()\<close>\<close>

definition lower :: "string \<Rightarrow> string" where
  "lower s = map lower_char s"

text \<open>\<open>s.replace(a, b)\<close> for single characters \<open>a\<close>, \<open>b\<close>.\<close>

definition replace_char :: "char \<Rightarrow> char \<Rightarrow> string \<Rightarrow> string" where
  "replace_char a b s = map (\<lambda>c. if c = a then b else c) s"

text \<open>
  \<open>s.title()\<close>: a cased character is upper-cased when the character before it is
  not cased, and lower-cased otherwise.
\<close>

fun title_from :: "bool \<Rightarrow> string \<Rightarrow> string" where
  "title_from prev [] = []"
| "title_from prev (c # cs) =
     (if is_lower c then (if prev then c else upper_char c) # title_from True cs
      else if is_upper c then (if prev then lower_char c else c) # title_from True cs
      else c # title_from False cs)"

definition title :: "string \<Rightarrow> string" where
  "title s = title_from False s"

text \<open>\<open>s.endswith(suffix)\<close>\<close>

definition endswith :: "string \<Rightarrow> string \<Rightarrow> bool" where
  "endswith s suffix = (length suffix \<le> length s \<and> drop (length s - length suffix) s = suffix)"

text \<open>\<open>s.rsplit(sep, 1)[1]\<close> when \<open>sep\<close> occurs in \<open>s\<close>: the part after its last occurrence.\<close>

definition after_last :: "char \<Rightarrow> string \<Rightarrow> string" where
  "after_last sep s = rev (takeWhile (\<lambda>c. c \<noteq> sep) (rev s))"

text \<open>\<open>s.rfind(c)\<close>: the index of the last occurrence, \<open>-1\<close> when there is none.\<close>

definition rfind :: "string \<Rightarrow> char \<Rightarrow> int" where
  "rfind s c = int (length s) - int (length (takeWhile (\<lambda>d. d \<noteq> c) (rev s))) - 1"

text \<open>\<open>os.path.basename\<close>, \<open>os.path.splitext\<close> and \<open>os.path.join\<close> (posixpath).\<close>

definition basename :: "string \<Rightarrow> string" where
  "basename p = drop (nat (rfind p (CHR ''/'') + 1)) p"

definition splitext :: "string \<Rightarrow> string \<times> string" where
  "splitext p =
     (let sepIndex = rfind p (CHR ''/'');
          dotIndex = rfind p (CHR ''.'')
      in if dotIndex > sepIndex \<and>
            list_ex (\<lambda>c. c \<noteq> CHR ''.'') (take (nat (dotIndex - (sepIndex + 1))) (drop (nat (sepIndex + 1)) p))
         then (take (nat dotIndex) p, drop (nat dotIndex) p)
         else (p, []))"

definition path_join :: "string \<Rightarrow> string \<Rightarrow> string" where
  "path_join a b =
     (if b \<noteq> [] \<and> hd b = CHR ''/'' then b
      else if a = [] \<or> last a = CHR ''/'' then a @ b
      else a @ ''/'' @ b)"

text \<open>The expression \<open>os.path.splitext(os.path.basename(input_path))[0]\<close> of every converter.\<close>

definition base_name_of :: "string \<Rightarrow> string" where
  "base_name_of input_path = fst (splitext (basename input_path))"

text \<open>Decimal rendering of a number, and the format specs \<open>:02d\<close> and \<open>:03d\<close>.\<close>

definition digit_char :: "nat \<Rightarrow> char" where
  "digit_char d = ''0123456789'' ! d"

fun str_nat :: "nat \<Rightarrow> string" where
  "str_nat n = (if n < 10 then [digit_char n] else str_nat (n div 10) @ [digit_char (n mod 10)])"

declare str_nat.simps [simp del]

definition zero_pad :: "nat \<Rightarrow> nat \<Rightarrow> string" where
  "zero_pad w n = replicate (w - length (str_nat n)) (CHR ''0'') @ str_nat n"

section \<open>The format registry (app.py)\<close>

text \<open>One constructor per converter class of converters.py.\<close>

datatype converter =
    PDFToPNGConverter | PNGToJPGConverter | MP4ToMP3Converter | DOCXToPDFConverter
  | DOCToPDFConverter | EPUBToPDFConverter | JPGToPDFConverter | PDFToDOCXConverter
  | XLSXToPDFConverter | PPTXToPDFConverter | PDFToTXTConverter | XLSXToCSVConverter
  | CSVToXLSXConverter | CSVToPDFConverter | HTMLToPDFConverter | PDFToHTMLConverter
  | MP3ToWAVConverter | WAVToMP3Converter | MP4ToAVIConverter | AVIToMP4Converter
  | WEBPToJPGConverter | BMPToPNGConverter | CompressPDFConverter | JPGToWEBPConverter
  | JPGToPNGConverter | MKVToMP4Converter | MP4ToWEBMConverter | OGGToMP3Converter
  | MergePDFsConverter | MergeImagesConverter | TXTToPDFConverter

text \<open>The \<open>output_mimetype\<close> property of each class.\<close>

fun output_mimetype :: "converter \<Rightarrow> string" where
  "output_mimetype PDFToPNGConverter = ''application/zip''"
| "output_mimetype PNGToJPGConverter = ''image/jpeg''"
| "output_mimetype MP4ToMP3Converter = ''audio/mpeg''"
| "output_mimetype DOCXToPDFConverter = ''application/pdf''"
| "output_mimetype DOCToPDFConverter = ''application/pdf''"
| "output_mimetype EPUBToPDFConverter = ''application/pdf''"
| "output_mimetype JPGToPDFConverter = ''application/pdf''"
| "output_mimetype PDFToDOCXConverter =
     ''application/vnd.openxmlformats-officedocument.wordprocessingml.document''"
| "output_mimetype XLSXToPDFConverter = ''application/pdf''"
| "output_mimetype PPTXToPDFConverter = ''application/pdf''"
| "output_mimetype PDFToTXTConverter = ''text/plain''"
| "output_mimetype XLSXToCSVConverter = ''text/csv''"
| "output_mimetype CSVToXLSXConverter =
     ''application/vnd.openxmlformats-officedocument.spreadsheetml.sheet''"
| "output_mimetype CSVToPDFConverter = ''application/pdf''"
| "output_mimetype HTMLToPDFConverter = ''application/pdf''"
| "output_mimetype PDFToHTMLConverter = ''text/html''"
| "output_mimetype MP3ToWAVConverter = ''audio/wav''"
| "output_mimetype WAVToMP3Converter = ''audio/mpeg''"
| "output_mimetype MP4ToAVIConverter = ''video/x-msvideo''"
| "output_mimetype AVIToMP4Converter = ''video/mp4''"
| "output_mimetype WEBPToJPGConverter = ''image/jpeg''"
| "output_mimetype BMPToPNGConverter = ''image/png''"
| "output_mimetype CompressPDFConverter = ''application/pdf''"
| "output_mimetype JPGToWEBPConverter = ''image/webp''"
| "output_mimetype JPGToPNGConverter = ''image/png''"
| "output_mimetype MKVToMP4Converter = ''video/mp4''"
| "output_mimetype MP4ToWEBMConverter = ''video/webm''"
| "output_mimetype OGGToMP3Converter = ''audio/mpeg''"
| "output_mimetype MergePDFsConverter = ''application/pdf''"
| "output_mimetype MergeImagesConverter = ''application/pdf''"
| "output_mimetype TXTToPDFConverter = ''application/pdf''"

text \<open>
  The two dict literals of app.py, as the lists of their items in source order; the
  dicts themselves are the maps these lists denote.
\<close>

definition ALLOWED_EXTENSIONS_items :: "(string \<times> string set) list" where
  "ALLOWED_EXTENSIONS_items =
    [(''pdf_to_docx'', {''pdf''}),
     (''docx_to_pdf'', {''docx''}),
     (''doc_to_pdf'', {''doc''}),
     (''pptx_to_pdf'', {''pptx''}),
     (''pdf_to_txt'', {''pdf''}),
     (''txt_to_pdf'', {''txt''}),
     (''xlsx_to_csv'', {''xlsx'', ''xls''}),
     (''csv_to_xlsx'', {''csv''}),
     (''xlsx_to_pdf'', {''xlsx'', ''xls''}),
     (''csv_to_pdf'', {''csv''}),
     (''html_to_pdf'', {''html'', ''htm''}),
     (''epub_to_pdf'', {''epub''}),
     (''pdf_to_html'', {''pdf''}),
     (''jpg_to_png'', {''jpg'', ''jpeg''}),
     (''png_to_jpg'', {''png''}),
     (''webp_to_jpg'', {''webp''}),
     (''jpg_to_webp'', {''jpg'', ''jpeg''}),
     (''image_to_pdf'', {''jpg'', ''jpeg'', ''png'', ''webp'', ''bmp''}),
     (''pdf_to_png'', {''pdf''}),
     (''bmp_to_png'', {''bmp''}),
     (''mp3_to_wav'', {''mp3''}),
     (''wav_to_mp3'', {''wav''}),
     (''mp4_to_mp3'', {''mp4''}),
     (''mp4_to_avi'', {''mp4''}),
     (''avi_to_mp4'', {''avi''}),
     (''mkv_to_mp4'', {''mkv''}),
     (''mp4_to_webm'', {''mp4''}),
     (''ogg_to_mp3'', {''ogg''}),
     (''compress_pdf'', {''pdf''}),
     (''merge_pdfs'', {''pdf''}),
     (''merge_images'', {''jpg'', ''jpeg'', ''png'', ''webp'', ''bmp''})]"

definition ALLOWED_EXTENSIONS :: "string \<rightharpoonup> string set" where
  "ALLOWED_EXTENSIONS = map_of ALLOWED_EXTENSIONS_items"

definition converters_items :: "(string \<times> converter) list" where
  "converters_items =
    [(''pdf_to_docx'', PDFToDOCXConverter),
     (''docx_to_pdf'', DOCXToPDFConverter),
     (''doc_to_pdf'', DOCToPDFConverter),
     (''pptx_to_pdf'', PPTXToPDFConverter),
     (''pdf_to_txt'', PDFToTXTConverter),
     (''txt_to_pdf'', TXTToPDFConverter),
     (''xlsx_to_csv'', XLSXToCSVConverter),
     (''csv_to_xlsx'', CSVToXLSXConverter),
     (''xlsx_to_pdf'', XLSXToPDFConverter),
     (''csv_to_pdf'', CSVToPDFConverter),
     (''html_to_pdf'', HTMLToPDFConverter),
     (''epub_to_pdf'', EPUBToPDFConverter),
     (''pdf_to_html'', PDFToHTMLConverter),
     (''jpg_to_png'', JPGToPNGConverter),
     (''png_to_jpg'', PNGToJPGConverter),
     (''webp_to_jpg'', WEBPToJPGConverter),
     (''jpg_to_webp'', JPGToWEBPConverter),
     (''image_to_pdf'', JPGToPDFConverter),
     (''pdf_to_png'', PDFToPNGConverter),
     (''bmp_to_png'', BMPToPNGConverter),
     (''mp3_to_wav'', MP3ToWAVConverter),
     (''wav_to_mp3'', WAVToMP3Converter),
     (''mp4_to_mp3'', MP4ToMP3Converter),
     (''ogg_to_mp3'', OGGToMP3Converter),
     (''mp4_to_avi'', MP4ToAVIConverter),
     (''avi_to_mp4'', AVIToMP4Converter),
     (''mkv_to_mp4'', MKVToMP4Converter),
     (''mp4_to_webm'', MP4ToWEBMConverter),
     (''compress_pdf'', CompressPDFConverter),
     (''merge_pdfs'', MergePDFsConverter),
     (''merge_images'', MergeImagesConverter)]"

definition converters :: "string \<rightharpoonup> converter" where
  "converters = map_of converters_items"

text \<open>\<open>allowed_file(filename, conversion_type)\<close>\<close>

definition allowed_file :: "string \<Rightarrow> string \<Rightarrow> bool" where
  "allowed_file filename conversion_type =
     (if CHR ''.'' \<notin> set filename then False
      else let extension = lower (after_last (CHR ''.'') filename)
           in extension \<in> (case ALLOWED_EXTENSIONS conversion_type of None \<Rightarrow> {} | Some s \<Rightarrow> s))"

section \<open>Exceptions, files and the environment (converters.py)\<close>

text \<open>
  The exception classes the handlers of the program tell apart.  \<open>OtherError\<close> is an
  exception of any other class raised inside a library.  Every class is a subclass of
  \<open>Exception\<close>; \<open>FileNotFoundError\<close> is a subclass of \<open>OSError\<close>.
\<close>

datatype exn =
    Exception string
  | TimeoutExpired string
  | FileNotFoundError string
  | ImportError string
  | OSError string
  | ZeroDivisionError string
  | OtherError string

text \<open>\<open>str(e)\<close>\<close>

fun str_exn :: "exn \<Rightarrow> string" where
  "str_exn (Exception m) = m"
| "str_exn (TimeoutExpired m) = m"
| "str_exn (FileNotFoundError m) = m"
| "str_exn (ImportError m) = m"
| "str_exn (OSError m) = m"
| "str_exn (ZeroDivisionError m) = m"
| "str_exn (OtherError m) = m"

text \<open>
  Pillow images as the values the program builds from them: the pixels decoded from a
  file, and the results of \<open>convert\<close>, \<open>Image.new\<close>, \<open>paste\<close> (the background after
  pasting), \<open>split()[-1]\<close> and the resize that \<open>thumbnail\<close> performs.
\<close>

datatype image =
    Decoded string nat nat
  | Convert image string
  | New_image string "nat \<times> nat" "nat \<times> nat \<times> nat"
  | Paste image image "image option"
  | Last_band image
  | Resized image "nat \<times> nat"

fun img_mode :: "image \<Rightarrow> string" where
  "img_mode (Decoded m w h) = m"
| "img_mode (Convert i m) = m"
| "img_mode (New_image m sz colour) = m"
| "img_mode (Paste background i msk) = img_mode background"
| "img_mode (Last_band i) = ''L''"
| "img_mode (Resized i sz) = img_mode i"

fun img_size :: "image \<Rightarrow> nat \<times> nat" where
  "img_size (Decoded m w h) = (w, h)"
| "img_size (Convert i m) = img_size i"
| "img_size (New_image m sz colour) = sz"
| "img_size (Paste background i msk) = img_size background"
| "img_size (Last_band i) = img_size i"
| "img_size (Resized i sz) = sz"

definition img_width :: "image \<Rightarrow> nat" where
  "img_width i = fst (img_size i)"

definition img_height :: "image \<Rightarrow> nat" where
  "img_height i = snd (img_size i)"

text \<open>The flowables handed to reportlab, and document pages.\<close>

datatype flowable = Paragraph string | Spacer nat nat | Preformatted string

datatype page = Page string | ImagePage image

text \<open>
  What a file holds.  \<open>PDF\<close> is a page container; \<open>TypesetPDF\<close> the document reportlab
  builds from a story; \<open>RenderedPDF\<close> the one wkhtmltopdf renders from HTML;
  \<open>ImageFile\<close> an encoded image with its format; \<open>PagePNG\<close> the pixmap of a page saved
  as PNG; \<open>Blob\<close> any other bytes.
\<close>

datatype content =
    PDF "page list"
  | TypesetPDF "flowable list"
  | RenderedPDF string
  | ImageFile string image
  | PagePNG page
  | Text string
  | DOCX "string list"
  | ZIP "(string \<times> content) list"
  | Blob string

type_synonym fs = "string \<rightharpoonup> content"

datatype level = INFO | WARNING | ERROR

text \<open>
  The state the program acts on: the file system, the records written by \<open>logging\<close>,
  and, for the web layer, the messages flashed and the calls made to converters.
\<close>

record state =
  files :: fs
  logged :: "(level \<times> string) list"
  flashed :: "(string \<times> string) list"
  invoked :: "(converter \<times> string list \<times> string) list"

definition logging_info :: "state \<Rightarrow> string \<Rightarrow> state" where
  "logging_info st m = st\<lparr>logged := logged st @ [(INFO, m)]\<rparr>"

definition logging_error :: "state \<Rightarrow> string \<Rightarrow> state" where
  "logging_error st m = st\<lparr>logged := logged st @ [(ERROR, m)]\<rparr>"

definition logging_warning :: "state \<Rightarrow> string \<Rightarrow> state" where
  "logging_warning st m = st\<lparr>logged := logged st @ [(WARNING, m)]\<rparr>"

definition write_file :: "state \<Rightarrow> string \<Rightarrow> content \<Rightarrow> state" where
  "write_file st p c = st\<lparr>files := (files st)(p \<mapsto> c)\<rparr>"

text \<open>\<open>os.path.exists(p)\<close>\<close>

definition path_exists :: "state \<Rightarrow> string \<Rightarrow> bool" where
  "path_exists st p = (files st p \<noteq> None)"

text \<open>\<open>shutil.rmtree(d)\<close>: the directory and everything below it goes.\<close>

definition path_under :: "string \<Rightarrow> string \<Rightarrow> bool" where
  "path_under d p =
     (p = d \<or> take (length d + 1) p = d @ ''/'' \<or>
      (d \<noteq> [] \<and> last d = CHR ''/'' \<and> take (length d) p = d))"

definition rmtree :: "state \<Rightarrow> string \<Rightarrow> state" where
  "rmtree st d = st\<lparr>files := (\<lambda>p. if path_under d p then None else files st p)\<rparr>"

text \<open>
  What the program takes from outside itself: the external tools run by
  \<open>subprocess.run(cmd, capture_output=True, text=True, timeout=t)\<close> (the files they
  leave behind and either the exception raised or the return code and stderr), the
  text of a library's exception on an unreadable file, whether reportlab can be
  imported, whether building a story or rendering HTML raises, the format work of the
  spreadsheet, e-book and HTML libraries (its effect on the files and its exception, if
  any), werkzeug's \<open>secure_filename\<close> and \<open>tempfile.mkdtemp\<close>.
\<close>

record world =
  subprocess_run :: "string list \<Rightarrow> nat \<Rightarrow> fs \<Rightarrow> fs \<times> (exn + int \<times> string)"
  error_text :: "string \<Rightarrow> string"
  reportlab_importable :: bool
  reportlab_build :: "flowable list \<Rightarrow> exn option"
  pdfkit_from_string :: "string \<Rightarrow> exn option"
  library_work :: "converter \<Rightarrow> string \<Rightarrow> string \<Rightarrow> fs \<Rightarrow> fs \<times> exn option"
  secure_filename :: "string \<Rightarrow> string"
  mkdtemp :: "fs \<Rightarrow> string"

text \<open>Opening a file with PyMuPDF, Pillow, python-docx and the built-in \<open>open\<close>.\<close>

definition fitz_open :: "world \<Rightarrow> state \<Rightarrow> string \<Rightarrow> exn + page list" where
  "fitz_open w st p =
     (case files st p of Some (PDF pages) \<Rightarrow> Inr pages | _ \<Rightarrow> Inl (OtherError (error_text w p)))"

definition Image_open :: "world \<Rightarrow> state \<Rightarrow> string \<Rightarrow> exn + image" where
  "Image_open w st p =
     (case files st p of Some (ImageFile fmt img) \<Rightarrow> Inr img | _ \<Rightarrow> Inl (OtherError (error_text w p)))"

definition Document_open :: "world \<Rightarrow> state \<Rightarrow> string \<Rightarrow> exn + string list" where
  "Document_open w st p =
     (case files st p of Some (DOCX paragraphs) \<Rightarrow> Inr paragraphs | _ \<Rightarrow> Inl (OtherError (error_text w p)))"

definition read_text :: "world \<Rightarrow> state \<Rightarrow> string \<Rightarrow> exn + string" where
  "read_text w st p =
     (case files st p of Some (Text s) \<Rightarrow> Inr s | _ \<Rightarrow> Inl (OtherError (error_text w p)))"

text \<open>
  The handler \<open>except Exception as e\<close> that closes every \<open>convert\<close>: it logs
  \<open>"<what> failed: " + str(e)\<close> and raises \<open>Exception("<kind> failed: " + str(e))\<close>.
\<close>

definition failed :: "string \<Rightarrow> string \<Rightarrow> state \<Rightarrow> exn \<Rightarrow> state \<times> (exn + string)" where
  "failed what kind st e =
     (logging_error st (what @ str_exn e), Inl (Exception (kind @ str_exn e)))"

section \<open>Converters working inside the process\<close>

type_synonym convert_result = "state \<times> (exn + string)"

subsection \<open>PDFToPNGConverter\<close>

text \<open>The loop \<open>for page_num in range(pdf_document.page_count)\<close>.\<close>

fun save_pages :: "string \<Rightarrow> string \<Rightarrow> page list \<Rightarrow> nat \<Rightarrow> state \<Rightarrow> string list \<Rightarrow> state \<times> string list" where
  "save_pages base_name png_dir [] page_num st png_files = (st, png_files)"
| "save_pages base_name png_dir (page # rest) page_num st png_files =
     (let page_filename = base_name @ ''_page_'' @ zero_pad 3 (page_num + 1) @ ''.png'';
          page_output_path = path_join png_dir page_filename;
          st1 = write_file st page_output_path (PagePNG page);
          st2 = logging_info st1
                  (''Converted page '' @ str_nat (page_num + 1) @ '' to PNG: '' @ page_output_path)
      in save_pages base_name png_dir rest (page_num + 1) st2 (png_files @ [page_output_path]))"

text \<open>
  The loop \<open>for png_file in png_files: zipf.write(png_file, os.path.basename(png_file))\<close>:
  the entries written, and the exception of a file that is not there.
\<close>

fun zip_write_all :: "state \<Rightarrow> string list \<Rightarrow> (string \<times> content) list \<Rightarrow> (string \<times> content) list \<times> exn option" where
  "zip_write_all st [] entries = (entries, None)"
| "zip_write_all st (png_file # rest) entries =
     (case files st png_file of
        None \<Rightarrow> (entries, Some (FileNotFoundError png_file))
      | Some c \<Rightarrow> zip_write_all st rest (entries @ [(basename png_file, c)]))"

definition PDFToPNGConverter_convert :: "world \<Rightarrow> state \<Rightarrow> string \<Rightarrow> string \<Rightarrow> convert_result" where
  "PDFToPNGConverter_convert w st input_path output_dir =
     (case fitz_open w st input_path of
        Inl e \<Rightarrow> failed ''PDF to PNG conversion failed: '' ''PDF conversion failed: '' st e
      | Inr pdf_document \<Rightarrow>
          let base_name = base_name_of input_path;
              png_dir = path_join output_dir (base_name @ ''_pages'')
          in (case save_pages base_name png_dir pdf_document 0 st [] of
                (st1, png_files) \<Rightarrow>
                  let zip_output_path = path_join output_dir (base_name @ ''_pages.zip'')
                  in (case zip_write_all st1 png_files [] of
                        (entries, Some e) \<Rightarrow>
                          failed ''PDF to PNG conversion failed: '' ''PDF conversion failed: ''
                            (write_file st1 zip_output_path (ZIP entries)) e
                      | (entries, None) \<Rightarrow>
                          let st2 = write_file st1 zip_output_path (ZIP entries);
                              st3 = rmtree st2 png_dir;
                              st4 = logging_info st3
                                      (''Successfully converted PDF to PNG files (ZIP): '' @ zip_output_path);
                              st5 = logging_info st4
                                      (''Total pages converted: '' @ str_nat (length png_files))
                          in (st5, Inr zip_output_path))))"

subsection \<open>Image converters\<close>

text \<open>
  \<open>img.save(path, format, ...)\<close> writes the image in the given format; the quality
  and optimisation arguments are left out.  Saving as PDF gives a document of one page.
\<close>

definition PNGToJPGConverter_convert :: "world \<Rightarrow> state \<Rightarrow> string \<Rightarrow> string \<Rightarrow> convert_result" where
  "PNGToJPGConverter_convert w st input_path output_dir =
     (case Image_open w st input_path of
        Inl e \<Rightarrow> failed ''PNG to JPG conversion failed: '' ''Image conversion failed: '' st e
      | Inr img0 \<Rightarrow>
          let img =
                (if img_mode img0 \<in> {''RGBA'', ''LA'', ''P''} then
                   let background = New_image ''RGB'' (img_size img0) (255, 255, 255);
                       img1 = (if img_mode img0 = ''P'' then Convert img0 ''RGBA'' else img0)
                   in Paste background img1
                        (if img_mode img1 \<in> {''RGBA'', ''LA''} then Some (Last_band img1) else None)
                 else if img_mode img0 \<noteq> ''RGB'' then Convert img0 ''RGB''
                 else img0);
              base_name = base_name_of input_path;
              output_path = path_join output_dir (base_name @ ''.jpg'');
              st1 = write_file st output_path (ImageFile ''JPEG'' img)
          in (logging_info st1 (''Successfully converted PNG to JPG: '' @ output_path), Inr output_path))"

definition WEBPToJPGConverter_convert :: "world \<Rightarrow> state \<Rightarrow> string \<Rightarrow> string \<Rightarrow> convert_result" where
  "WEBPToJPGConverter_convert w st input_path output_dir =
     (case Image_open w st input_path of
        Inl e \<Rightarrow> failed ''WEBP to JPG conversion failed: '' ''Image conversion failed: '' st e
      | Inr img0 \<Rightarrow>
          let img =
                (if img_mode img0 \<in> {''RGBA'', ''LA'', ''P''} then
                   let background = New_image ''RGB'' (img_size img0) (255, 255, 255);
                       img1 = (if img_mode img0 = ''P'' then Convert img0 ''RGBA'' else img0)
                   in Paste background img1
                        (if img_mode img1 \<in> {''RGBA'', ''LA''} then Some (Last_band img1) else None)
                 else if img_mode img0 \<noteq> ''RGB'' then Convert img0 ''RGB''
                 else img0);
              base_name = base_name_of input_path;
              output_path = path_join output_dir (base_name @ ''.jpg'');
              st1 = write_file st output_path (ImageFile ''JPEG'' img)
          in (logging_info st1 (''Successfully converted WEBP to JPG: '' @ output_path), Inr output_path))"

definition BMPToPNGConverter_convert :: "world \<Rightarrow> state \<Rightarrow> string \<Rightarrow> string \<Rightarrow> convert_result" where
  "BMPToPNGConverter_convert w st input_path output_dir =
     (case Image_open w st input_path of
        Inl e \<Rightarrow> failed ''BMP to PNG conversion failed: '' ''Image conversion failed: '' st e
      | Inr img \<Rightarrow>
          let base_name = base_name_of input_path;
              output_path = path_join output_dir (base_name @ ''.png'');
              st1 = write_file st output_path (ImageFile ''PNG'' img)
          in (logging_info st1 (''Successfully converted BMP to PNG: '' @ output_path), Inr output_path))"

definition JPGToPNGConverter_convert :: "world \<Rightarrow> state \<Rightarrow> string \<Rightarrow> string \<Rightarrow> convert_result" where
  "JPGToPNGConverter_convert w st input_path output_dir =
     (case Image_open w st input_path of
        Inl e \<Rightarrow> failed ''JPG to PNG conversion failed: '' ''Image conversion failed: '' st e
      | Inr img \<Rightarrow>
          let base_name = base_name_of input_path;
              output_path = path_join output_dir (base_name @ ''.png'');
              st1 = write_file st output_path (ImageFile ''PNG'' img)
          in (logging_info st1 (''Successfully converted JPG to PNG: '' @ output_path), Inr output_path))"

definition JPGToWEBPConverter_convert :: "world \<Rightarrow> state \<Rightarrow> string \<Rightarrow> string \<Rightarrow> convert_result" where
  "JPGToWEBPConverter_convert w st input_path output_dir =
     (case Image_open w st input_path of
        Inl e \<Rightarrow> failed ''JPG to WEBP conversion failed: '' ''Image conversion failed: '' st e
      | Inr img0 \<Rightarrow>
          let img = (if img_mode img0 \<noteq> ''RGB'' then Convert img0 ''RGB'' else img0);
              base_name = base_name_of input_path;
              output_path = path_join output_dir (base_name @ ''.webp'');
              st1 = write_file st output_path (ImageFile ''WEBP'' img)
          in (logging_info st1 (''Successfully converted JPG to WEBP: '' @ output_path), Inr output_path))"

definition JPGToPDFConverter_convert :: "world \<Rightarrow> state \<Rightarrow> string \<Rightarrow> string \<Rightarrow> convert_result" where
  "JPGToPDFConverter_convert w st input_path output_dir =
     (case Image_open w st input_path of
        Inl e \<Rightarrow> failed ''JPG to PDF conversion failed: '' ''Image conversion failed: '' st e
      | Inr img0 \<Rightarrow>
          let img = (if img_mode img0 \<noteq> ''RGB'' then Convert img0 ''RGB'' else img0);
              base_name = base_name_of input_path;
              output_path = path_join output_dir (base_name @ ''.pdf'');
              st1 = write_file st output_path (PDF [ImagePage img])
          in (logging_info st1 (''Successfully converted JPG to PDF: '' @ output_path), Inr output_path))"

subsection \<open>CompressPDFConverter\<close>

definition CompressPDFConverter_convert :: "world \<Rightarrow> state \<Rightarrow> string \<Rightarrow> string \<Rightarrow> convert_result" where
  "CompressPDFConverter_convert w st input_path output_dir =
     (let base_name = base_name_of input_path;
          output_path = path_join output_dir (base_name @ ''_compressed.pdf'')
      in case fitz_open w st input_path of
           Inl e \<Rightarrow> failed ''PDF compression failed: '' ''PDF compression failed: '' st e
         | Inr pdf_document \<Rightarrow>
             let st1 = write_file st output_path (PDF pdf_document)
             in (logging_info st1 (''Successfully compressed PDF: '' @ output_path), Inr output_path))"

subsection \<open>MergePDFsConverter\<close>

text \<open>
  The loop \<open>for i, pdf_path in enumerate(input_paths)\<close>: \<open>merged_pdf\<close> is the list of
  pages inserted so far, and an input whose \<open>try\<close> block raises is logged and passed over.
\<close>

fun merge_pdf_loop :: "world \<Rightarrow> string list \<Rightarrow> nat \<Rightarrow> state \<Rightarrow> page list \<Rightarrow> state \<times> page list" where
  "merge_pdf_loop w [] i st merged_pdf = (st, merged_pdf)"
| "merge_pdf_loop w (pdf_path # rest) i st merged_pdf =
     (case fitz_open w st pdf_path of
        Inl e \<Rightarrow>
          merge_pdf_loop w rest (i + 1)
            (logging_error st (''Failed to process PDF '' @ pdf_path @ '': '' @ str_exn e)) merged_pdf
      | Inr source_pdf \<Rightarrow>
          merge_pdf_loop w rest (i + 1)
            (logging_info st (''Added PDF '' @ str_nat (i + 1) @ '': '' @ basename pdf_path @
                              '' ('' @ str_nat (length source_pdf) @ '' pages)''))
            (merged_pdf @ source_pdf))"

definition MergePDFsConverter_convert :: "world \<Rightarrow> state \<Rightarrow> string list \<Rightarrow> string \<Rightarrow> convert_result" where
  "MergePDFsConverter_convert w st input_paths output_dir =
     (case merge_pdf_loop w input_paths 0 st [] of
        (st1, merged_pdf) \<Rightarrow>
          if length merged_pdf = 0
          then failed ''PDF merge failed: '' ''PDF merge failed: '' st1
                 (Exception ''No valid PDF pages found to merge'')
          else
            let output_path = path_join output_dir ''merged_document.pdf'';
                st2 = write_file st1 output_path (PDF merged_pdf);
                final_page_count = length merged_pdf;
                st3 = logging_info st2
                        (''Successfully merged '' @ str_nat (length input_paths) @ '' PDFs into: '' @ output_path);
                st4 = logging_info st3 (''Total pages in merged PDF: '' @ str_nat final_page_count)
            in (st4, Inr output_path))"

subsection \<open>MergeImagesConverter\<close>

text \<open>
  The size computation of Pillow's \<open>Image.thumbnail\<close> (\<open>preserve_aspect_ratio\<close> in
  PIL/Image.py), with exact rationals where Pillow computes in floating point.
  \<open>min(a, b, key=key)\<close> is \<open>a\<close> unless \<open>b\<close> has the smaller key.
\<close>

definition round_aspect :: "rat \<Rightarrow> (int \<Rightarrow> rat) \<Rightarrow> int" where
  "round_aspect number key =
     max (if key \<lfloor>number\<rfloor> \<le> key \<lceil>number\<rceil> then \<lfloor>number\<rfloor> else \<lceil>number\<rceil>) 1"

definition thumbnail :: "image \<Rightarrow> nat \<times> nat \<Rightarrow> exn + image" where
  "thumbnail img sz =
     (let x = fst sz; y = snd sz in
      if x \<ge> img_width img \<and> y \<ge> img_height img then Inr img
      else if img_height img = 0 \<or> y = 0 then Inl (ZeroDivisionError ''division by zero'')
      else
        let aspect = (of_nat (img_width img) / of_nat (img_height img) :: rat);
            final_size =
              (if of_nat x / of_nat y \<ge> aspect
               then (nat (round_aspect (of_nat y * aspect) (\<lambda>n. \<bar>aspect - of_int n / of_nat y\<bar>)), y)
               else (x, nat (round_aspect (of_nat x / aspect)
                              (\<lambda>n. if n = 0 then 0 else \<bar>aspect - of_nat x / of_int n\<bar>))))
        in if img_size img \<noteq> final_size then Inr (Resized img final_size) else Inr img)"

text \<open>The body of the \<open>try\<close> block of the loop, for one input.\<close>

definition merge_image_step :: "world \<Rightarrow> state \<Rightarrow> string \<Rightarrow> exn + image" where
  "merge_image_step w st img_path =
     (case Image_open w st img_path of
        Inl e \<Rightarrow> Inl e
      | Inr img0 \<Rightarrow>
          let img = (if img_mode img0 \<noteq> ''RGB'' then Convert img0 ''RGB'' else img0);
              max_size = 2000
          in if img_width img > max_size \<or> img_height img > max_size
             then thumbnail img (max_size, max_size)
             else Inr img)"

fun merge_image_loop :: "world \<Rightarrow> string list \<Rightarrow> nat \<Rightarrow> state \<Rightarrow> image list \<Rightarrow> state \<times> image list" where
  "merge_image_loop w [] i st images = (st, images)"
| "merge_image_loop w (img_path # rest) i st images =
     (case merge_image_step w st img_path of
        Inl e \<Rightarrow>
          merge_image_loop w rest (i + 1)
            (logging_error st (''Failed to process image '' @ img_path @ '': '' @ str_exn e)) images
      | Inr img \<Rightarrow>
          merge_image_loop w rest (i + 1)
            (logging_info st (''Added image '' @ str_nat (i + 1) @ '': '' @ basename img_path @
                              '' ('' @ str_nat (img_width img) @ ''x'' @ str_nat (img_height img) @ '')''))
            (images @ [img]))"

definition MergeImagesConverter_convert :: "world \<Rightarrow> state \<Rightarrow> string list \<Rightarrow> string \<Rightarrow> convert_result" where
  "MergeImagesConverter_convert w st input_paths output_dir =
     (case merge_image_loop w input_paths 0 st [] of
        (st1, images) \<Rightarrow>
          if images = []
          then failed ''Image merge failed: '' ''Image merge failed: '' st1
                 (Exception ''No valid images found to merge'')
          else
            let output_path = path_join output_dir ''merged_images.pdf'';
                st2 = (if length images = 1
                       then write_file st1 output_path (PDF [ImagePage (hd images)])
                       else write_file st1 output_path
                              (PDF (ImagePage (hd images) # map ImagePage (tl images))));
                st3 = logging_info st2
                        (''Successfully merged '' @ str_nat (length images) @ '' images into: '' @ output_path)
            in (st3, Inr output_path))"

section \<open>Converters that run an external tool\<close>

text \<open>\<open>subprocess.run(cmd, capture_output=True, text=True, timeout=t)\<close> in state \<open>st\<close>.\<close>

definition run_tool :: "world \<Rightarrow> state \<Rightarrow> string list \<Rightarrow> nat \<Rightarrow> state \<times> (exn + int \<times> string)" where
  "run_tool w st cmd t =
     (case subprocess_run w cmd t (files st) of (fs1, r) \<Rightarrow> (st\<lparr>files := fs1\<rparr>, r))"

definition MP4ToMP3Converter_convert :: "world \<Rightarrow> state \<Rightarrow> string \<Rightarrow> string \<Rightarrow> convert_result" where
  "MP4ToMP3Converter_convert w st input_path output_dir =
     (let base_name = base_name_of input_path;
          output_path = path_join output_dir (base_name @ ''.mp3'');
          cmd = [''ffmpeg'', ''-i'', input_path, ''-vn'', ''-acodec'', ''mp3'', ''-ab'', ''192k'',
                 ''-ar'', ''44100'', ''-y'', output_path]
      in case run_tool w st cmd 300 of
           (st1, Inl e) \<Rightarrow>
             (case e of
                TimeoutExpired m \<Rightarrow>
                  (logging_error st1 ''MP4 to MP3 conversion timed out'',
                   Inl (Exception ''Conversion timed out. File may be too large.''))
              | _ \<Rightarrow> failed ''MP4 to MP3 conversion failed: '' ''Audio conversion failed: '' st1 e)
         | (st1, Inr (returncode, stderr)) \<Rightarrow>
             if returncode \<noteq> 0
             then failed ''MP4 to MP3 conversion failed: '' ''Audio conversion failed: ''
                    (logging_error st1 (''FFmpeg error: '' @ stderr))
                    (Exception (''Audio conversion failed: '' @ stderr))
             else if \<not> path_exists st1 output_path
             then failed ''MP4 to MP3 conversion failed: '' ''Audio conversion failed: '' st1
                    (Exception ''Converted file was not created'')
             else (logging_info st1 (''Successfully converted MP4 to MP3: '' @ output_path),
                   Inr output_path))"

definition MP3ToWAVConverter_convert :: "world \<Rightarrow> state \<Rightarrow> string \<Rightarrow> string \<Rightarrow> convert_result" where
  "MP3ToWAVConverter_convert w st input_path output_dir =
     (let base_name = base_name_of input_path;
          output_path = path_join output_dir (base_name @ ''.wav'');
          cmd = [''ffmpeg'', ''-i'', input_path, ''-y'', output_path]
      in case run_tool w st cmd 300 of
           (st1, Inl e) \<Rightarrow>
             failed ''MP3 to WAV conversion failed: '' ''Audio conversion failed: '' st1 e
         | (st1, Inr (returncode, stderr)) \<Rightarrow>
             if returncode \<noteq> 0
             then failed ''MP3 to WAV conversion failed: '' ''Audio conversion failed: '' st1
                    (Exception (''FFmpeg error: '' @ stderr))
             else (logging_info st1 (''Successfully converted MP3 to WAV: '' @ output_path),
                   Inr output_path))"

definition WAVToMP3Converter_convert :: "world \<Rightarrow> state \<Rightarrow> string \<Rightarrow> string \<Rightarrow> convert_result" where
  "WAVToMP3Converter_convert w st input_path output_dir =
     (let base_name = base_name_of input_path;
          output_path = path_join output_dir (base_name @ ''.mp3'');
          cmd = [''ffmpeg'', ''-i'', input_path, ''-acodec'', ''mp3'', ''-ab'', ''192k'', ''-y'', output_path]
      in case run_tool w st cmd 300 of
           (st1, Inl e) \<Rightarrow>
             failed ''WAV to MP3 conversion failed: '' ''Audio conversion failed: '' st1 e
         | (st1, Inr (returncode, stderr)) \<Rightarrow>
             if returncode \<noteq> 0
             then failed ''WAV to MP3 conversion failed: '' ''Audio conversion failed: '' st1
                    (Exception (''FFmpeg error: '' @ stderr))
             else (logging_info st1 (''Successfully converted WAV to MP3: '' @ output_path),
                   Inr output_path))"

definition OGGToMP3Converter_convert :: "world \<Rightarrow> state \<Rightarrow> string \<Rightarrow> string \<Rightarrow> convert_result" where
  "OGGToMP3Converter_convert w st input_path output_dir =
     (let base_name = base_name_of input_path;
          output_path = path_join output_dir (base_name @ ''.mp3'');
          cmd = [''ffmpeg'', ''-i'', input_path, ''-acodec'', ''mp3'', ''-ab'', ''192k'', ''-y'', output_path]
      in case run_tool w st cmd 300 of
           (st1, Inl e) \<Rightarrow>
             failed ''OGG to MP3 conversion failed: '' ''Audio conversion failed: '' st1 e
         | (st1, Inr (returncode, stderr)) \<Rightarrow>
             if returncode \<noteq> 0
             then failed ''OGG to MP3 conversion failed: '' ''Audio conversion failed: '' st1
                    (Exception (''FFmpeg error: '' @ stderr))
             else (logging_info st1 (''Successfully converted OGG to MP3: '' @ output_path),
                   Inr output_path))"

definition MP4ToAVIConverter_convert :: "world \<Rightarrow> state \<Rightarrow> string \<Rightarrow> string \<Rightarrow> convert_result" where
  "MP4ToAVIConverter_convert w st input_path output_dir =
     (let base_name = base_name_of input_path;
          output_path = path_join output_dir (base_name @ ''.avi'');
          cmd = [''ffmpeg'', ''-i'', input_path, ''-c:v'', ''libx264'', ''-c:a'', ''aac'', ''-y'', output_path]
      in case run_tool w st cmd 600 of
           (st1, Inl e) \<Rightarrow>
             failed ''MP4 to AVI conversion failed: '' ''Video conversion failed: '' st1 e
         | (st1, Inr (returncode, stderr)) \<Rightarrow>
             if returncode \<noteq> 0
             then failed ''MP4 to AVI conversion failed: '' ''Video conversion failed: '' st1
                    (Exception (''FFmpeg error: '' @ stderr))
             else (logging_info st1 (''Successfully converted MP4 to AVI: '' @ output_path),
                   Inr output_path))"

definition AVIToMP4Converter_convert :: "world \<Rightarrow> state \<Rightarrow> string \<Rightarrow> string \<Rightarrow> convert_result" where
  "AVIToMP4Converter_convert w st input_path output_dir =
     (let base_name = base_name_of input_path;
          output_path = path_join output_dir (base_name @ ''.mp4'');
          cmd = [''ffmpeg'', ''-i'', input_path, ''-c:v'', ''libx264'', ''-c:a'', ''aac'', ''-y'', output_path]
      in case run_tool w st cmd 600 of
           (st1, Inl e) \<Rightarrow>
             failed ''AVI to MP4 conversion failed: '' ''Video conversion failed: '' st1 e
         | (st1, Inr (returncode, stderr)) \<Rightarrow>
             if returncode \<noteq> 0
             then failed ''AVI to MP4 conversion failed: '' ''Video conversion failed: '' st1
                    (Exception (''FFmpeg error: '' @ stderr))
             else (logging_info st1 (''Successfully converted AVI to MP4: '' @ output_path),
                   Inr output_path))"

definition MKVToMP4Converter_convert :: "world \<Rightarrow> state \<Rightarrow> string \<Rightarrow> string \<Rightarrow> convert_result" where
  "MKVToMP4Converter_convert w st input_path output_dir =
     (let base_name = base_name_of input_path;
          output_path = path_join output_dir (base_name @ ''.mp4'');
          cmd = [''ffmpeg'', ''-i'', input_path, ''-c:v'', ''libx264'', ''-c:a'', ''aac'', ''-y'', output_path]
      in case run_tool w st cmd 600 of
           (st1, Inl e) \<Rightarrow>
             failed ''MKV to MP4 conversion failed: '' ''Video conversion failed: '' st1 e
         | (st1, Inr (returncode, stderr)) \<Rightarrow>
             if returncode \<noteq> 0
             then failed ''MKV to MP4 conversion failed: '' ''Video conversion failed: '' st1
                    (Exception (''FFmpeg error: '' @ stderr))
             else (logging_info st1 (''Successfully converted MKV to MP4: '' @ output_path),
                   Inr output_path))"

definition MP4ToWEBMConverter_convert :: "world \<Rightarrow> state \<Rightarrow> string \<Rightarrow> string \<Rightarrow> convert_result" where
  "MP4ToWEBMConverter_convert w st input_path output_dir =
     (let base_name = base_name_of input_path;
          output_path = path_join output_dir (base_name @ ''.webm'');
          cmd = [''ffmpeg'', ''-i'', input_path, ''-c:v'', ''libvpx-vp9'', ''-c:a'', ''libopus'', ''-y'', output_path]
      in case run_tool w st cmd 600 of
           (st1, Inl e) \<Rightarrow>
             failed ''MP4 to WebM conversion failed: '' ''Video conversion failed: '' st1 e
         | (st1, Inr (returncode, stderr)) \<Rightarrow>
             if returncode \<noteq> 0
             then failed ''MP4 to WebM conversion failed: '' ''Video conversion failed: '' st1
                    (Exception (''FFmpeg error: '' @ stderr))
             else (logging_info st1 (''Successfully converted MP4 to WebM: '' @ output_path),
                   Inr output_path))"

definition PPTXToPDFConverter_convert :: "world \<Rightarrow> state \<Rightarrow> string \<Rightarrow> string \<Rightarrow> convert_result" where
  "PPTXToPDFConverter_convert w st input_path output_dir =
     (let base_name = base_name_of input_path;
          output_path = path_join output_dir (base_name @ ''.pdf'');
          cmd = [''libreoffice'', ''--headless'', ''--convert-to'', ''pdf'', ''--outdir'', output_dir,
                 input_path]
      in case run_tool w st cmd 60 of
           (st1, Inl e) \<Rightarrow>
             failed ''PPTX to PDF conversion failed: '' ''Presentation conversion failed: '' st1 e
         | (st1, Inr (returncode, stderr)) \<Rightarrow>
             if returncode \<noteq> 0 \<or> \<not> path_exists st1 output_path
             then failed ''PPTX to PDF conversion failed: '' ''Presentation conversion failed: '' st1
                    (Exception ''LibreOffice conversion failed'')
             else (logging_info st1 (''Successfully converted PPTX to PDF: '' @ output_path),
                   Inr output_path))"

section \<open>Text and document converters\<close>

text \<open>
  \<open>c.isspace()\<close>, \<open>s.strip()\<close>, \<open>sep.join(xs)\<close> and \<open>s.split(c)\<close>.  A character
  is a code point below 256; the ones that \<open>str.isspace\<close> accepts there, and that
  \<open>str.strip\<close> removes, are the tab to the carriage return, the four separators
  0x1C to 0x1F, the space, the next-line control 0x85 and the no-break space 0xA0.
\<close>

definition isspace :: "char \<Rightarrow> bool" where
  "isspace c = (c \<in> set [CHR 0x09, CHR 0x0A, CHR 0x0B, CHR 0x0C, CHR 0x0D,
                          CHR 0x1C, CHR 0x1D, CHR 0x1E, CHR 0x1F, CHR 0x20,
                          CHR 0x85, CHR 0xA0])"

definition strip :: "string \<Rightarrow> string" where
  "strip s = rev (dropWhile isspace (rev (dropWhile isspace s)))"

fun join_with :: "string \<Rightarrow> string list \<Rightarrow> string" where
  "join_with sep [] = []"
| "join_with sep [x] = x"
| "join_with sep (x # y # ys) = x @ sep @ join_with sep (y # ys)"

fun split_on :: "char \<Rightarrow> string \<Rightarrow> string list" where
  "split_on c [] = [[]]"
| "split_on c (x # xs) =
     (if x = c then [] # split_on c xs
      else case split_on c xs of [] \<Rightarrow> [[x]] | y # ys \<Rightarrow> (x # y) # ys)"

text \<open>\<open>needle in haystack\<close> for strings.\<close>

fun contains :: "string \<Rightarrow> string \<Rightarrow> bool" where
  "contains needle [] = (needle = [])"
| "contains needle (c # cs) = (take (length needle) (c # cs) = needle \<or> contains needle cs)"

text \<open>
  The story both document converters build:
  a \<open>Paragraph\<close> and a \<open>Spacer(1, 12)\<close> for every line of \<open>content.split('\n')\<close> that
  is not blank.
\<close>

definition paragraph_story :: "string \<Rightarrow> flowable list" where
  "paragraph_story content =
     concat (map (\<lambda>line. if strip line \<noteq> [] then [Paragraph line, Spacer 1 12] else [])
                 (split_on (CHR 0x0A) content))"

text \<open>
  DOCXToPDFConverter.  The HTML handed to pdfkit is the paragraphs markup inside a
  fixed page template; the template is left out.  A document that is built is written
  to \<open>output_path\<close>.
\<close>

definition DOCXToPDFConverter_convert :: "world \<Rightarrow> state \<Rightarrow> string \<Rightarrow> string \<Rightarrow> convert_result" where
  "DOCXToPDFConverter_convert w st input_path output_dir =
     (case Document_open w st input_path of
        Inl e \<Rightarrow> failed ''DOCX to PDF conversion failed: '' ''Document conversion failed: '' st e
      | Inr full_text \<Rightarrow>
          let content = join_with [CHR 0x0A] full_text in
          if strip content = []
          then failed ''DOCX to PDF conversion failed: '' ''Document conversion failed: '' st
                 (Exception ''Document appears to be empty'')
          else
            let content_paragraphs =
                  ''<p>'' @ join_with ''</p><p>'' (split_on (CHR 0x0A) content) @ ''</p>'';
                base_name = base_name_of input_path;
                output_path = path_join output_dir (base_name @ ''.pdf'');
                story = paragraph_story content;
                built =
                  (case (if reportlab_importable w then reportlab_build w story
                         else Some (ImportError ''No module named reportlab'')) of
                     None \<Rightarrow> (write_file st output_path (TypesetPDF story), None)
                   | Some (ImportError m) \<Rightarrow>
                       (case pdfkit_from_string w content_paragraphs of
                          None \<Rightarrow> (write_file st output_path (RenderedPDF content_paragraphs), None)
                        | Some e \<Rightarrow>
                            (st, Some (if (case e of OSError m' \<Rightarrow> True | FileNotFoundError m' \<Rightarrow> True | _ \<Rightarrow> False)
                                          \<and> contains ''wkhtmltopdf'' (str_exn e)
                                       then Exception ''Neither reportlab nor wkhtmltopdf available for PDF conversion. Please install one of them.''
                                       else e)))
                   | Some e \<Rightarrow> (st, Some e))
            in (case built of
                  (st1, Some e) \<Rightarrow>
                    failed ''DOCX to PDF conversion failed: '' ''Document conversion failed: '' st1 e
                | (st1, None) \<Rightarrow>
                    if \<not> path_exists st1 output_path
                    then failed ''DOCX to PDF conversion failed: '' ''Document conversion failed: '' st1
                           (Exception ''PDF file was not created'')
                    else (logging_info st1 (''Successfully converted DOCX to PDF: '' @ output_path),
                          Inr output_path)))"

text \<open>
  DOCToPDFConverter: LibreOffice first; when it raises, exits with a non-zero code or
  leaves no output, python-docx and reportlab.
\<close>

definition DOCToPDFConverter_convert :: "world \<Rightarrow> state \<Rightarrow> string \<Rightarrow> string \<Rightarrow> convert_result" where
  "DOCToPDFConverter_convert w st input_path output_dir =
     (let base_name = base_name_of input_path;
          output_path = path_join output_dir (base_name @ ''.pdf'');
          cmd = [''libreoffice'', ''--headless'', ''--convert-to'', ''pdf'', ''--outdir'', output_dir,
                 input_path]
      in case run_tool w st cmd 60 of
           (st1, r) \<Rightarrow>
             if (case r of Inl e \<Rightarrow> False
                 | Inr (returncode, stderr) \<Rightarrow> returncode = 0 \<and> path_exists st1 output_path)
             then (logging_info st1 (''Successfully converted DOC to PDF: '' @ output_path),
                   Inr output_path)
             else
               (case Document_open w st1 input_path of
                  Inl e \<Rightarrow>
                    failed ''DOC to PDF conversion failed: '' ''Document conversion failed: '' st1 e
                | Inr full_text \<Rightarrow>
                    let content = join_with [CHR 0x0A] full_text in
                    if strip content = []
                    then failed ''DOC to PDF conversion failed: '' ''Document conversion failed: '' st1
                           (Exception ''Document appears to be empty'')
                    else
                      let story = paragraph_story content in
                      (case (if reportlab_importable w then reportlab_build w story
                             else Some (ImportError ''No module named reportlab'')) of
                        Some e \<Rightarrow>
                          failed ''DOC to PDF conversion failed: '' ''Document conversion failed: '' st1
                            (case e of
                               ImportError m \<Rightarrow>
                                 Exception ''Neither LibreOffice nor required Python libraries available for DOC conversion.''
                             | _ \<Rightarrow> e)
                      | None \<Rightarrow>
                          let st2 = write_file st1 output_path (TypesetPDF story) in
                          if \<not> path_exists st2 output_path
                          then failed ''DOC to PDF conversion failed: '' ''Document conversion failed: '' st2
                                 (Exception ''PDF file was not created'')
                          else (logging_info st2 (''Successfully converted DOC to PDF: '' @ output_path),
                                Inr output_path))))"

definition TXTToPDFConverter_convert :: "world \<Rightarrow> state \<Rightarrow> string \<Rightarrow> string \<Rightarrow> convert_result" where
  "TXTToPDFConverter_convert w st input_path output_dir =
     (case read_text w st input_path of
        Inl e \<Rightarrow> failed ''TXT to PDF conversion failed: '' ''Text conversion failed: '' st e
      | Inr content \<Rightarrow>
          if strip content = []
          then failed ''TXT to PDF conversion failed: '' ''Text conversion failed: '' st
                 (Exception ''Text file appears to be empty'')
          else
            let base_name = base_name_of input_path;
                output_path = path_join output_dir (base_name @ ''.pdf'');
                story = [Preformatted content]
            in (case (if reportlab_importable w then reportlab_build w story
                      else Some (ImportError ''No module named reportlab'')) of
                 Some e \<Rightarrow>
                   failed ''TXT to PDF conversion failed: '' ''Text conversion failed: '' st
                     (case e of
                        ImportError m \<Rightarrow> Exception ''reportlab not available for TXT to PDF conversion.''
                      | _ \<Rightarrow> e)
               | None \<Rightarrow>
                   let st1 = write_file st output_path (TypesetPDF story) in
                   if \<not> path_exists st1 output_path
                   then failed ''TXT to PDF conversion failed: '' ''Text conversion failed: '' st1
                          (Exception ''PDF file was not created'')
                   else (logging_info st1 (''Successfully converted TXT to PDF: '' @ output_path),
                         Inr output_path)))"

section \<open>Converters whose format work is a library's\<close>

text \<open>
  For these converters everything between the computation of \<open>output_path\<close> and the
  final check is the work of pdf2docx, openpyxl, csv, zipfile, pdfkit and reportlab on
  formats the model does not describe; it is taken from the environment as a whole,
  exceptions raised on its way included.
\<close>

definition run_library :: "world \<Rightarrow> state \<Rightarrow> converter \<Rightarrow> string \<Rightarrow> string \<Rightarrow> state \<times> exn option" where
  "run_library w st c input_path output_path =
     (case library_work w c input_path output_path (files st) of
        (fs1, r) \<Rightarrow> (st\<lparr>files := fs1\<rparr>, r))"

definition EPUBToPDFConverter_convert :: "world \<Rightarrow> state \<Rightarrow> string \<Rightarrow> string \<Rightarrow> convert_result" where
  "EPUBToPDFConverter_convert w st input_path output_dir =
     (let base_name = base_name_of input_path;
          output_path = path_join output_dir (base_name @ ''.pdf'')
      in case run_library w st EPUBToPDFConverter input_path output_path of
           (st1, Some e) \<Rightarrow> failed ''EPUB to PDF conversion failed: '' ''EPUB conversion failed: '' st1 e
         | (st1, None) \<Rightarrow>
             if \<not> path_exists st1 output_path
               then failed ''EPUB to PDF conversion failed: '' ''EPUB conversion failed: '' st1 (Exception ''PDF file was not created'')
               else (logging_info st1 (''Successfully converted EPUB to PDF: '' @ output_path), Inr output_path))"

definition PDFToDOCXConverter_convert :: "world \<Rightarrow> state \<Rightarrow> string \<Rightarrow> string \<Rightarrow> convert_result" where
  "PDFToDOCXConverter_convert w st input_path output_dir =
     (let base_name = base_name_of input_path;
          output_path = path_join output_dir (base_name @ ''.docx'')
      in case run_library w st PDFToDOCXConverter input_path output_path of
           (st1, Some e) \<Rightarrow> failed ''PDF to DOCX conversion failed: '' ''PDF conversion failed: '' st1 e
         | (st1, None) \<Rightarrow>
             if \<not> path_exists st1 output_path
               then failed ''PDF to DOCX conversion failed: '' ''PDF conversion failed: '' st1 (Exception ''DOCX file was not created'')
               else (logging_info st1 (''Successfully converted PDF to DOCX: '' @ output_path), Inr output_path))"

definition XLSXToPDFConverter_convert :: "world \<Rightarrow> state \<Rightarrow> string \<Rightarrow> string \<Rightarrow> convert_result" where
  "XLSXToPDFConverter_convert w st input_path output_dir =
     (let base_name = base_name_of input_path;
          output_path = path_join output_dir (base_name @ ''.pdf'')
      in case run_library w st XLSXToPDFConverter input_path output_path of
           (st1, Some e) \<Rightarrow> failed ''XLSX to PDF conversion failed: '' ''Excel conversion failed: '' st1 e
         | (st1, None) \<Rightarrow>
             if \<not> path_exists st1 output_path
               then failed ''XLSX to PDF conversion failed: '' ''Excel conversion failed: '' st1 (Exception ''PDF file was not created'')
               else (logging_info st1 (''Successfully converted XLSX to PDF: '' @ output_path), Inr output_path))"

definition PDFToTXTConverter_convert :: "world \<Rightarrow> state \<Rightarrow> string \<Rightarrow> string \<Rightarrow> convert_result" where
  "PDFToTXTConverter_convert w st input_path output_dir =
     (let base_name = base_name_of input_path;
          output_path = path_join output_dir (base_name @ ''.txt'')
      in case run_library w st PDFToTXTConverter input_path output_path of
           (st1, Some e) \<Rightarrow> failed ''PDF to TXT conversion failed: '' ''PDF text extraction failed: '' st1 e
         | (st1, None) \<Rightarrow>
             (logging_info st1 (''Successfully converted PDF to TXT: '' @ output_path), Inr output_path))"

definition XLSXToCSVConverter_convert :: "world \<Rightarrow> state \<Rightarrow> string \<Rightarrow> string \<Rightarrow> convert_result" where
  "XLSXToCSVConverter_convert w st input_path output_dir =
     (let base_name = base_name_of input_path;
          output_path = path_join output_dir (base_name @ ''.csv'')
      in case run_library w st XLSXToCSVConverter input_path output_path of
           (st1, Some e) \<Rightarrow> failed ''XLSX to CSV conversion failed: '' ''Excel to CSV conversion failed: '' st1 e
         | (st1, None) \<Rightarrow>
             (logging_info st1 (''Successfully converted XLSX to CSV: '' @ output_path), Inr output_path))"

definition CSVToXLSXConverter_convert :: "world \<Rightarrow> state \<Rightarrow> string \<Rightarrow> string \<Rightarrow> convert_result" where
  "CSVToXLSXConverter_convert w st input_path output_dir =
     (let base_name = base_name_of input_path;
          output_path = path_join output_dir (base_name @ ''.xlsx'')
      in case run_library w st CSVToXLSXConverter input_path output_path of
           (st1, Some e) \<Rightarrow> failed ''CSV to XLSX conversion failed: '' ''CSV to Excel conversion failed: '' st1 e
         | (st1, None) \<Rightarrow>
             (logging_info st1 (''Successfully converted CSV to XLSX: '' @ output_path), Inr output_path))"

definition CSVToPDFConverter_convert :: "world \<Rightarrow> state \<Rightarrow> string \<Rightarrow> string \<Rightarrow> convert_result" where
  "CSVToPDFConverter_convert w st input_path output_dir =
     (let base_name = base_name_of input_path;
          output_path = path_join output_dir (base_name @ ''.pdf'')
      in case run_library w st CSVToPDFConverter input_path output_path of
           (st1, Some e) \<Rightarrow> failed ''CSV to PDF conversion failed: '' ''CSV conversion failed: '' st1 e
         | (st1, None) \<Rightarrow>
             (logging_info st1 (''Successfully converted CSV to PDF: '' @ output_path), Inr output_path))"

definition HTMLToPDFConverter_convert :: "world \<Rightarrow> state \<Rightarrow> string \<Rightarrow> string \<Rightarrow> convert_result" where
  "HTMLToPDFConverter_convert w st input_path output_dir =
     (let base_name = base_name_of input_path;
          output_path = path_join output_dir (base_name @ ''.pdf'')
      in case run_library w st HTMLToPDFConverter input_path output_path of
           (st1, Some e) \<Rightarrow> failed ''HTML to PDF conversion failed: '' ''HTML conversion failed: '' st1 e
         | (st1, None) \<Rightarrow>
             (logging_info st1 (''Successfully converted HTML to PDF: '' @ output_path), Inr output_path))"

definition PDFToHTMLConverter_convert :: "world \<Rightarrow> state \<Rightarrow> string \<Rightarrow> string \<Rightarrow> convert_result" where
  "PDFToHTMLConverter_convert w st input_path output_dir =
     (let base_name = base_name_of input_path;
          output_path = path_join output_dir (base_name @ ''.html'')
      in case run_library w st PDFToHTMLConverter input_path output_path of
           (st1, Some e) \<Rightarrow> failed ''PDF to HTML conversion failed: '' ''PDF to HTML conversion failed: '' st1 e
         | (st1, None) \<Rightarrow>
             (logging_info st1 (''Successfully converted PDF to HTML: '' @ output_path), Inr output_path))"

section \<open>Calling a converter\<close>

text \<open>
  \<open>converter.convert(input_path, output_dir)\<close> on a registry entry.  The two merge
  converters iterate over their first argument; given one path they iterate over its
  characters.
\<close>

fun convert :: "converter \<Rightarrow> world \<Rightarrow> state \<Rightarrow> string \<Rightarrow> string \<Rightarrow> convert_result" where
  "convert PDFToPNGConverter = PDFToPNGConverter_convert"
| "convert PNGToJPGConverter = PNGToJPGConverter_convert"
| "convert MP4ToMP3Converter = MP4ToMP3Converter_convert"
| "convert DOCXToPDFConverter = DOCXToPDFConverter_convert"
| "convert DOCToPDFConverter = DOCToPDFConverter_convert"
| "convert EPUBToPDFConverter = EPUBToPDFConverter_convert"
| "convert JPGToPDFConverter = JPGToPDFConverter_convert"
| "convert PDFToDOCXConverter = PDFToDOCXConverter_convert"
| "convert XLSXToPDFConverter = XLSXToPDFConverter_convert"
| "convert PPTXToPDFConverter = PPTXToPDFConverter_convert"
| "convert PDFToTXTConverter = PDFToTXTConverter_convert"
| "convert XLSXToCSVConverter = XLSXToCSVConverter_convert"
| "convert CSVToXLSXConverter = CSVToXLSXConverter_convert"
| "convert CSVToPDFConverter = CSVToPDFConverter_convert"
| "convert HTMLToPDFConverter = HTMLToPDFConverter_convert"
| "convert PDFToHTMLConverter = PDFToHTMLConverter_convert"
| "convert MP3ToWAVConverter = MP3ToWAVConverter_convert"
| "convert WAVToMP3Converter = WAVToMP3Converter_convert"
| "convert MP4ToAVIConverter = MP4ToAVIConverter_convert"
| "convert AVIToMP4Converter = AVIToMP4Converter_convert"
| "convert WEBPToJPGConverter = WEBPToJPGConverter_convert"
| "convert BMPToPNGConverter = BMPToPNGConverter_convert"
| "convert CompressPDFConverter = CompressPDFConverter_convert"
| "convert JPGToWEBPConverter = JPGToWEBPConverter_convert"
| "convert JPGToPNGConverter = JPGToPNGConverter_convert"
| "convert MKVToMP4Converter = MKVToMP4Converter_convert"
| "convert MP4ToWEBMConverter = MP4ToWEBMConverter_convert"
| "convert OGGToMP3Converter = OGGToMP3Converter_convert"
| "convert TXTToPDFConverter = TXTToPDFConverter_convert"
| "convert MergePDFsConverter =
     (\<lambda>w st input_path output_dir.
        MergePDFsConverter_convert w st (map (\<lambda>c. [c]) input_path) output_dir)"
| "convert MergeImagesConverter =
     (\<lambda>w st input_path output_dir.
        MergeImagesConverter_convert w st (map (\<lambda>c. [c]) input_path) output_dir)"

section \<open>The web layer (app.py)\<close>

text \<open>
  An uploaded file (its client-side name and its bytes) and the parts of a request the
  handlers read: the form field \<open>conversion_type\<close>, the upload named \<open>file\<close>, the
  uploads named \<open>files\<close>, and whether the body exceeds \<open>MAX_CONTENT_LENGTH\<close>, in which
  case the first access to the form raises \<open>RequestEntityTooLarge\<close>.
\<close>

record upload =
  filename :: string
  data :: content

record request =
  form_conversion_type :: "string option"
  files_file :: "upload option"
  files_list :: "upload list"
  too_large :: bool

text \<open>
  A response is the redirect to the index page or \<open>send_file\<close> of an output: its
  path, what it holds, the download name and the MIME type.
\<close>

datatype response =
    Redirect_index
  | Send_file string "content option" string string

definition flash :: "state \<Rightarrow> string \<Rightarrow> string \<Rightarrow> state" where
  "flash st message category = st\<lparr>flashed := flashed st @ [(message, category)]\<rparr>"

text \<open>The validation loops of the two merge handlers: the offending upload, or the uploads kept.\<close>

fun validate_pdfs :: "upload list \<Rightarrow> upload list \<Rightarrow> upload + upload list" where
  "validate_pdfs [] pdf_files = Inr pdf_files"
| "validate_pdfs (file # rest) pdf_files =
     (if filename file = [] then validate_pdfs rest pdf_files
      else if \<not> endswith (lower (filename file)) ''.pdf'' then Inl file
      else validate_pdfs rest (pdf_files @ [file]))"

fun validate_images :: "upload list \<Rightarrow> upload list \<Rightarrow> upload + upload list" where
  "validate_images [] image_files = Inr image_files"
| "validate_images (file # rest) image_files =
     (if filename file = [] then validate_images rest image_files
      else
        let file_ext = snd (splitext (lower (filename file)));
            allowed_extensions = {''.jpg'', ''.jpeg'', ''.png'', ''.webp'', ''.bmp''}
        in if file_ext \<notin> allowed_extensions then Inl file
           else validate_images rest (image_files @ [file]))"

text \<open>The loops that save the uploads under numbered names.\<close>

fun save_pdfs :: "world \<Rightarrow> string \<Rightarrow> upload list \<Rightarrow> nat \<Rightarrow> state \<Rightarrow> string list \<Rightarrow> state \<times> string list" where
  "save_pdfs w temp_dir [] i st input_paths = (st, input_paths)"
| "save_pdfs w temp_dir (file # rest) i st input_paths =
     (let name = secure_filename w (''input_'' @ zero_pad 2 (i + 1) @ ''_'' @ filename file);
          input_path = path_join temp_dir name
      in save_pdfs w temp_dir rest (i + 1) (write_file st input_path (data file))
           (input_paths @ [input_path]))"

fun save_images :: "world \<Rightarrow> string \<Rightarrow> upload list \<Rightarrow> nat \<Rightarrow> state \<Rightarrow> string list \<Rightarrow> state \<times> string list" where
  "save_images w temp_dir [] i st input_paths = (st, input_paths)"
| "save_images w temp_dir (file # rest) i st input_paths =
     (let name = secure_filename w (''image_'' @ zero_pad 2 (i + 1) @ ''_'' @ filename file);
          input_path = path_join temp_dir name
      in save_images w temp_dir rest (i + 1) (write_file st input_path (data file))
           (input_paths @ [input_path]))"

definition handle_pdf_merge :: "world \<Rightarrow> request \<Rightarrow> state \<Rightarrow> state \<times> response" where
  "handle_pdf_merge w req st =
     (let uploaded_files = files_list req in
      if uploaded_files = [] \<or> length uploaded_files < 2
      then (flash st ''Please select at least 2 PDF files to merge'' ''error'', Redirect_index)
      else
        case validate_pdfs uploaded_files [] of
          Inl file \<Rightarrow>
            (flash st (''All files must be PDF format. Invalid file: '' @ filename file) ''error'',
             Redirect_index)
        | Inr pdf_files \<Rightarrow>
            if length pdf_files < 2
            then (flash st ''Please select at least 2 valid PDF files to merge'' ''error'', Redirect_index)
            else
              let temp_dir = mkdtemp w (files st) in
              case save_pdfs w temp_dir pdf_files 0 st [] of
                (st1, input_paths) \<Rightarrow>
                  (case MergePDFsConverter_convert w
                          (st1\<lparr>invoked := invoked st1 @ [(MergePDFsConverter, input_paths, temp_dir)]\<rparr>)
                          input_paths temp_dir of
                     (st2, Inl e) \<Rightarrow>
                       (rmtree (flash (logging_error st2 (''PDF merge error: '' @ str_exn e))
                                  (''PDF merge failed: '' @ str_exn e) ''error'') temp_dir,
                        Redirect_index)
                   | (st2, Inr output_path) \<Rightarrow>
                       if output_path = [] \<or> \<not> path_exists st2 output_path
                       then (rmtree (flash st2 ''PDF merge failed. Please try again.'' ''error'') temp_dir,
                             Redirect_index)
                       else (rmtree st2 temp_dir,
                             Send_file output_path (files st2 output_path)
                               (''merged_'' @ str_nat (length pdf_files) @ ''_pdfs.pdf'')
                               ''application/pdf'')))"

definition handle_image_merge :: "world \<Rightarrow> request \<Rightarrow> state \<Rightarrow> state \<times> response" where
  "handle_image_merge w req st =
     (let uploaded_files = files_list req in
      if uploaded_files = [] \<or> length uploaded_files < 2
      then (flash st ''Please select at least 2 image files to merge'' ''error'', Redirect_index)
      else
        case validate_images uploaded_files [] of
          Inl file \<Rightarrow>
            (flash st (''Invalid file type: '' @ filename file @
                       ''. Only JPG, PNG, WEBP, BMP images are supported.'') ''error'',
             Redirect_index)
        | Inr image_files \<Rightarrow>
            if length image_files < 2
            then (flash st ''Please select at least 2 valid image files to merge'' ''error'', Redirect_index)
            else
              let temp_dir = mkdtemp w (files st) in
              case save_images w temp_dir image_files 0 st [] of
                (st1, input_paths) \<Rightarrow>
                  (case MergeImagesConverter_convert w
                          (st1\<lparr>invoked := invoked st1 @ [(MergeImagesConverter, input_paths, temp_dir)]\<rparr>)
                          input_paths temp_dir of
                     (st2, Inl e) \<Rightarrow>
                       (rmtree (flash (logging_error st2 (''Image merge error: '' @ str_exn e))
                                  (''Image merge failed: '' @ str_exn e) ''error'') temp_dir,
                        Redirect_index)
                   | (st2, Inr output_path) \<Rightarrow>
                       if output_path = [] \<or> \<not> path_exists st2 output_path
                       then (rmtree (flash st2 ''Image merge failed. Please try again.'' ''error'') temp_dir,
                             Redirect_index)
                       else (rmtree st2 temp_dir,
                             Send_file output_path (files st2 output_path)
                               (''merged_'' @ str_nat (length image_files) @ ''_images.pdf'')
                               ''application/pdf'')))"

text \<open>
  \<open>convert_file\<close>, the handler of \<open>POST /convert\<close>.  Each call of a converter's
  \<open>convert\<close> is recorded in \<open>invoked\<close> with its arguments.
\<close>

definition convert_file :: "world \<Rightarrow> request \<Rightarrow> state \<Rightarrow> state \<times> response" where
  "convert_file w req st =
     (if too_large req
      then (flash st ''File too large. Maximum size is 50MB.'' ''error'', Redirect_index)
      else
        let conversion_type = form_conversion_type req in
        if conversion_type = Some ''merge_pdfs'' then handle_pdf_merge w req st
        else if conversion_type = Some ''merge_images'' then handle_image_merge w req st
        else
          (case files_file req of
            None \<Rightarrow> (flash st ''No file selected'' ''error'', Redirect_index)
          | Some file \<Rightarrow>
              if filename file = []
              then (flash st ''No file selected'' ''error'', Redirect_index)
              else
                (case (case conversion_type of
                        None \<Rightarrow> None
                      | Some ct \<Rightarrow> (if ct = [] then None
                                   else map_option (\<lambda>c. (ct, c)) (converters ct))) of
                  None \<Rightarrow> (flash st ''Invalid conversion type selected'' ''error'', Redirect_index)
                | Some (ct, converter) \<Rightarrow>
                    if \<not> allowed_file (filename file) ct
                    then (flash st (''Invalid file type for '' @
                                     title (replace_char (CHR ''_'') (CHR '' '') ct) @
                                     '' conversion'') ''error'',
                          Redirect_index)
                    else
                      let temp_dir = mkdtemp w (files st);
                          name = secure_filename w (filename file);
                          input_path = path_join temp_dir name;
                          st1 = write_file st input_path (data file)
                      in (case convert converter w
                                (st1\<lparr>invoked := invoked st1 @ [(converter, [input_path], temp_dir)]\<rparr>)
                                input_path temp_dir of
                           (st2, Inl e) \<Rightarrow>
                             (rmtree (flash (logging_error st2 (''Conversion error: '' @ str_exn e))
                                        (''Conversion failed: '' @ str_exn e) ''error'') temp_dir,
                              Redirect_index)
                         | (st2, Inr output_path) \<Rightarrow>
                             if output_path = [] \<or> \<not> path_exists st2 output_path
                             then (rmtree (flash st2 ''Conversion failed. Please try again.'' ''error'')
                                     temp_dir,
                                   Redirect_index)
                             else
                               let download_name =
                                     (if ct = ''pdf_to_png'' \<and> endswith output_path ''.zip''
                                      then base_name_of input_path @ ''_all_pages.zip''
                                      else basename output_path)
                               in (rmtree st2 temp_dir,
                                   Send_file output_path (files st2 output_path) download_name
                                     (output_mimetype converter))))))"

section \<open>A sample environment\<close>

text \<open>
  An environment in which every tool and library succeeds, used to instantiate the
  results below: tools exit with code 0 and touch no file, the libraries write a blob
  to the output path, reportlab is installed, file names are kept as they are and the
  temporary directory is \<open>/tmp/job\<close>.
\<close>

definition sample_world :: world where
  "sample_world =
     \<lparr>subprocess_run = (\<lambda>cmd t fs. (fs, Inr (0, []))),
      error_text = (\<lambda>p. ''cannot open '' @ p),
      reportlab_importable = True,
      reportlab_build = (\<lambda>story. None),
      pdfkit_from_string = (\<lambda>html. None),
      library_work = (\<lambda>c input_path output_path fs. (fs(output_path \<mapsto> Blob input_path), None)),
      secure_filename = (\<lambda>name. name),
      mkdtemp = (\<lambda>fs. ''/tmp/job'')\<rparr>"

definition empty_state :: state where
  "empty_state = \<lparr>files = Map.empty, logged = [], flashed = [], invoked = []\<rparr>"

text \<open>Three uploads saved for a merge: one that is no PDF, one of five pages, one of two.\<close>

definition merge_state :: state where
  "merge_state =
     \<lparr>files = [''/tmp/job/input_01_a.pdf'' \<mapsto> Text ''not a pdf'',
               ''/tmp/job/input_02_b.pdf'' \<mapsto> PDF [Page ''b1'', Page ''b2'', Page ''b3'', Page ''b4'', Page ''b5''],
               ''/tmp/job/input_03_c.pdf'' \<mapsto> PDF [Page ''c1'', Page ''c2'']],
      logged = [], flashed = [], invoked = []\<rparr>"

text \<open>Two requests for \<open>png_to_jpg\<close>: one uploads a GIF, the other a PNG with transparency.\<close>

definition gif_request :: request where
  "gif_request =
     \<lparr>form_conversion_type = Some ''png_to_jpg'',
      files_file = Some \<lparr>filename = ''photo.GIF'', data = ImageFile ''GIF'' (Decoded ''P'' 10 10)\<rparr>,
      files_list = [],
      too_large = False\<rparr>"

definition png_request :: request where
  "png_request =
     \<lparr>form_conversion_type = Some ''png_to_jpg'',
      files_file = Some \<lparr>filename = ''photo.PNG'', data = ImageFile ''PNG'' (Decoded ''RGBA'' 10 10)\<rparr>,
      files_list = [],
      too_large = False\<rparr>"

text \<open>Two merge requests: one with a single PDF, one with two.\<close>

definition single_upload_request :: request where
  "single_upload_request =
     \<lparr>form_conversion_type = Some ''merge_pdfs'',
      files_file = None,
      files_list = [\<lparr>filename = ''only.pdf'', data = PDF [Page ''p1'']\<rparr>],
      too_large = False\<rparr>"

definition two_pdfs_request :: request where
  "two_pdfs_request =
     \<lparr>form_conversion_type = Some ''merge_pdfs'',
      files_file = None,
      files_list = [\<lparr>filename = ''a.pdf'', data = PDF [Page ''a1'']\<rparr>,
                    \<lparr>filename = ''b.PDF'', data = PDF [Page ''b1'', Page ''b2'']\<rparr>],
      too_large = False\<rparr>"

text \<open>A text file of blanks (a no-break space and a next-line control among them), a DOCX
  whose paragraphs are blank, and a text file with a word.\<close>

definition blank_text_state :: state where
  "blank_text_state =
     \<lparr>files = [''/tmp/job/notes.txt'' \<mapsto> Text [CHR 0x20, CHR 0xA0, CHR 0x0A, CHR 0x85, CHR 0x09],
               ''/tmp/job/letter.docx'' \<mapsto> DOCX [[], [CHR 0x20, CHR 0xA0], [CHR 0x09]],
               ''/tmp/job/hello.txt'' \<mapsto> Text ''hello''],
      logged = [], flashed = [], invoked = []\<rparr>"

text \<open>
  Three images saved for a merge, the first larger than the cap, and a file that is no
  image.
\<close>

definition images_state :: state where
  "images_state =
     \<lparr>files = [''/tmp/job/image_01_a.jpg'' \<mapsto> ImageFile ''JPEG'' (Decoded ''RGB'' 4000 3000),
               ''/tmp/job/image_02_b.png'' \<mapsto> ImageFile ''PNG'' (Decoded ''RGBA'' 800 600),
               ''/tmp/job/image_03_c.bmp'' \<mapsto> ImageFile ''BMP'' (Decoded ''RGB'' 100 50),
               ''/tmp/job/image_04_d.png'' \<mapsto> Text ''not an image''],
      logged = [], flashed = [], invoked = []\<rparr>"

section \<open>Vocabulary of the properties\<close>

text \<open>The pages of the inputs that open, in the order of the input list.\<close>

definition opened_pages :: "world \<Rightarrow> state \<Rightarrow> string list \<Rightarrow> page list" where
  "opened_pages w st input_paths =
     concat (map (\<lambda>p. case fitz_open w st p of Inl e \<Rightarrow> [] | Inr pages \<Rightarrow> pages) input_paths)"

text \<open>The images that come out of the loop of the image merge, in the order of the input list.\<close>

definition surviving_images :: "world \<Rightarrow> state \<Rightarrow> string list \<Rightarrow> image list" where
  "surviving_images w st input_paths =
     concat (map (\<lambda>p. case merge_image_step w st p of Inl e \<Rightarrow> [] | Inr img \<Rightarrow> [img]) input_paths)"

text \<open>Reading a decimal numeral back, to tell the names of the page files apart.\<close>

definition digit_val :: "char \<Rightarrow> nat" where
  "digit_val c =
     (case map_of (zip ''0123456789'' [0, 1, 2, 3, 4, 5, 6, 7, 8, 9]) c of None \<Rightarrow> 0 | Some d \<Rightarrow> d)"

definition nat_of_digits :: "string \<Rightarrow> nat" where
  "nat_of_digits s = foldl (\<lambda>a c. 10 * a + digit_val c) 0 s"

text \<open>The path of the file written for the page with index \<open>i\<close> when the loop starts at \<open>k\<close>.\<close>

definition page_path :: "string \<Rightarrow> string \<Rightarrow> nat \<Rightarrow> nat \<Rightarrow> string" where
  "page_path base_name png_dir k i =
     path_join png_dir (base_name @ ''_page_'' @ zero_pad 3 (k + i + 1) @ ''.png'')"

text \<open>A PNG with an alpha channel, saved under \<open>/tmp/job\<close>.\<close>

definition alpha_state :: state where
  "alpha_state =
     \<lparr>files = [''/tmp/job/logo.png'' \<mapsto> ImageFile ''PNG'' (Decoded ''RGBA'' 64 64)],
      logged = [], flashed = [], invoked = []\<rparr>"

text \<open>
  The command line and the timeout that each converter running an external tool hands
  to \<open>subprocess.run\<close>; \<open>None\<close> for the converters that run none.
\<close>

fun tool_call :: "converter \<Rightarrow> string \<Rightarrow> string \<Rightarrow> (string list \<times> nat) option" where
  "tool_call MP4ToMP3Converter input_path output_dir =
     Some ([''ffmpeg'', ''-i'', input_path, ''-vn'', ''-acodec'', ''mp3'', ''-ab'', ''192k'',
            ''-ar'', ''44100'', ''-y'', path_join output_dir (base_name_of input_path @ ''.mp3'')], 300)"
| "tool_call MP3ToWAVConverter input_path output_dir =
     Some ([''ffmpeg'', ''-i'', input_path, ''-y'',
            path_join output_dir (base_name_of input_path @ ''.wav'')], 300)"
| "tool_call WAVToMP3Converter input_path output_dir =
     Some ([''ffmpeg'', ''-i'', input_path, ''-acodec'', ''mp3'', ''-ab'', ''192k'', ''-y'',
            path_join output_dir (base_name_of input_path @ ''.mp3'')], 300)"
| "tool_call OGGToMP3Converter input_path output_dir =
     Some ([''ffmpeg'', ''-i'', input_path, ''-acodec'', ''mp3'', ''-ab'', ''192k'', ''-y'',
            path_join output_dir (base_name_of input_path @ ''.mp3'')], 300)"
| "tool_call MP4ToAVIConverter input_path output_dir =
     Some ([''ffmpeg'', ''-i'', input_path, ''-c:v'', ''libx264'', ''-c:a'', ''aac'', ''-y'',
            path_join output_dir (base_name_of input_path @ ''.avi'')], 600)"
| "tool_call AVIToMP4Converter input_path output_dir =
     Some ([''ffmpeg'', ''-i'', input_path, ''-c:v'', ''libx264'', ''-c:a'', ''aac'', ''-y'',
            path_join output_dir (base_name_of input_path @ ''.mp4'')], 600)"
| "tool_call MKVToMP4Converter input_path output_dir =
     Some ([''ffmpeg'', ''-i'', input_path, ''-c:v'', ''libx264'', ''-c:a'', ''aac'', ''-y'',
            path_join output_dir (base_name_of input_path @ ''.mp4'')], 600)"
| "tool_call MP4ToWEBMConverter input_path output_dir =
     Some ([''ffmpeg'', ''-i'', input_path, ''-c:v'', ''libvpx-vp9'', ''-c:a'', ''libopus'', ''-y'',
            path_join output_dir (base_name_of input_path @ ''.webm'')], 600)"
| "tool_call PPTXToPDFConverter input_path output_dir =
     Some ([''libreoffice'', ''--headless'', ''--convert-to'', ''pdf'', ''--outdir'', output_dir,
            input_path], 60)"
| "tool_call DOCToPDFConverter input_path output_dir =
     Some ([''libreoffice'', ''--headless'', ''--convert-to'', ''pdf'', ''--outdir'', output_dir,
            input_path], 60)"
| "tool_call c input_path output_dir = None"

text \<open>
  Two environments like the sample one, except that in the first every tool exits with
  code 1 and a message on stderr, and in the second every tool runs into its timeout.
\<close>

definition failing_tool_world :: world where
  "failing_tool_world =
     sample_world\<lparr>subprocess_run := (\<lambda>cmd t fs. (fs, Inr (1, ''Invalid data found when processing input'')))\<rparr>"

definition timeout_world :: world where
  "timeout_world =
     sample_world\<lparr>subprocess_run := (\<lambda>cmd t fs. (fs, Inl (TimeoutExpired ''Command timed out'')))\<rparr>"

text \<open>A Word document saved with the extension \<open>.doc\<close>, beside an audio file.\<close>

definition doc_state :: state where
  "doc_state =
     \<lparr>files = [''/tmp/job/letter.doc'' \<mapsto> DOCX [''Dear reader''],
               ''/tmp/job/song.mp3'' \<mapsto> Blob ''mp3 data''],
      logged = [], flashed = [], invoked = []\<rparr>"

text \<open>A report of three pages, saved under \<open>/tmp/job\<close>.\<close>

definition report_state :: state where
  "report_state =
     \<lparr>files = [''/tmp/job/report.pdf'' \<mapsto> PDF [Page ''r1'', Page ''r2'', Page ''r3'']],
      logged = [], flashed = [], invoked = []\<rparr>"

section \<open>Basic facts about the state\<close>

lemma logging_info_simps [simp]:
  "files (logging_info st m) = files st"
  "logged (logging_info st m) = logged st @ [(INFO, m)]"
  "flashed (logging_info st m) = flashed st"
  "invoked (logging_info st m) = invoked st"
  by (simp_all add: logging_info_def)

lemma logging_error_simps [simp]:
  "files (logging_error st m) = files st"
  "logged (logging_error st m) = logged st @ [(ERROR, m)]"
  "flashed (logging_error st m) = flashed st"
  "invoked (logging_error st m) = invoked st"
  by (simp_all add: logging_error_def)

lemma logging_warning_simps [simp]:
  "files (logging_warning st m) = files st"
  "logged (logging_warning st m) = logged st @ [(WARNING, m)]"
  "flashed (logging_warning st m) = flashed st"
  "invoked (logging_warning st m) = invoked st"
  by (simp_all add: logging_warning_def)

lemma write_file_simps [simp]:
  "files (write_file st p c) = (files st)(p \<mapsto> c)"
  "logged (write_file st p c) = logged st"
  "flashed (write_file st p c) = flashed st"
  "invoked (write_file st p c) = invoked st"
  by (simp_all add: write_file_def)

lemma rmtree_simps [simp]:
  "files (rmtree st d) = (\<lambda>p. if path_under d p then None else files st p)"
  "logged (rmtree st d) = logged st"
  "flashed (rmtree st d) = flashed st"
  "invoked (rmtree st d) = invoked st"
  by (simp_all add: rmtree_def)

lemma flash_simps [simp]:
  "files (flash st m c) = files st"
  "logged (flash st m c) = logged st"
  "flashed (flash st m c) = flashed st @ [(m, c)]"
  "invoked (flash st m c) = invoked st"
  by (simp_all add: flash_def)

lemma fitz_open_logging [simp]:
  "fitz_open w (logging_info st m) p = fitz_open w st p"
  "fitz_open w (logging_error st m) p = fitz_open w st p"
  by (simp_all add: fitz_open_def)

lemma Image_open_logging [simp]:
  "Image_open w (logging_info st m) p = Image_open w st p"
  "Image_open w (logging_error st m) p = Image_open w st p"
  by (simp_all add: Image_open_def)

section \<open>The registry invariant\<close>

lemma converters_keys_distinct: "distinct (map fst converters_items)"
  by (simp add: converters_items_def)

lemma ALLOWED_EXTENSIONS_keys_distinct: "distinct (map fst ALLOWED_EXTENSIONS_items)"
  by (simp add: ALLOWED_EXTENSIONS_items_def)

lemma registry_same_keys: "set (map fst converters_items) = set (map fst ALLOWED_EXTENSIONS_items)"
  unfolding converters_items_def ALLOWED_EXTENSIONS_items_def by (simp add: insert_commute)

lemma registry_entries:
  "\<forall>ct \<in> set (map fst converters_items).
     \<exists>c exts. converters ct = Some c \<and> ALLOWED_EXTENSIONS ct = Some exts \<and> exts \<noteq> {}
              \<and> output_mimetype c \<noteq> []"
  unfolding converters_def ALLOWED_EXTENSIONS_def converters_items_def ALLOWED_EXTENSIONS_items_def
  by simp

text \<open>
  C8.  No key occurs twice in either dict literal, so a registered conversion type
  denotes exactly one converter; the two dicts have the same keys; and every
  registered type has a converter, a non-empty set of accepted extensions and a
  non-empty MIME type, which \<open>output_mimetype\<close> gives as a function of the converter
  alone.
\<close>

theorem registry_invariant:
  "distinct (map fst converters_items) \<and>
   distinct (map fst ALLOWED_EXTENSIONS_items) \<and>
   dom converters = dom ALLOWED_EXTENSIONS \<and>
   (\<forall>ct \<in> dom converters.
      \<exists>c exts. converters ct = Some c \<and> ALLOWED_EXTENSIONS ct = Some exts \<and> exts \<noteq> {}
               \<and> output_mimetype c \<noteq> [])"
proof -
  have dom_c: "dom converters = set (map fst converters_items)"
    by (simp add: converters_def dom_map_of_conv_image_fst)
  have dom_a: "dom ALLOWED_EXTENSIONS = set (map fst ALLOWED_EXTENSIONS_items)"
    by (simp add: ALLOWED_EXTENSIONS_def dom_map_of_conv_image_fst)
  show ?thesis
    using converters_keys_distinct ALLOWED_EXTENSIONS_keys_distinct registry_same_keys
      registry_entries
    unfolding dom_c dom_a by blast
qed

theorem registry_invariant_witness:
  "''png_to_jpg'' \<in> dom converters \<and>
   (\<exists>c exts. converters ''png_to_jpg'' = Some c \<and> ALLOWED_EXTENSIONS ''png_to_jpg'' = Some exts
             \<and> exts \<noteq> {} \<and> output_mimetype c \<noteq> [])"
proof -
  have registered: "''png_to_jpg'' \<in> dom converters"
    by (simp add: converters_def converters_items_def)
  from registry_invariant have
    "\<forall>ct \<in> dom converters.
      \<exists>c exts. converters ct = Some c \<and> ALLOWED_EXTENSIONS ct = Some exts \<and> exts \<noteq> {}
               \<and> output_mimetype c \<noteq> []"
    by blast
  with registered show ?thesis by blast
qed

section \<open>Dispatch of a single-input conversion\<close>

lemma converters_empty_key: "converters [] = None"
  by (simp add: converters_def converters_items_def)

text \<open>
  C1.  A request for a single-input type (any type but the two merge types) whose
  conversion type is missing or not registered, or whose uploaded file name is not
  allowed for the type (no dot, or the lower-cased part after the last dot is not in
  the type's accepted set), is answered by the redirect with one flashed message of
  category \<open>error\<close>; no converter is called and no file is written.  With an upload
  present the message is \<open>Invalid conversion type selected\<close> for an unregistered type
  and \<open>Invalid file type for ... conversion\<close> otherwise.
\<close>

theorem dispatch_rejects:
  assumes single: "form_conversion_type req \<noteq> Some ''merge_pdfs''"
                  "form_conversion_type req \<noteq> Some ''merge_images''"
      and bad: "case form_conversion_type req of
                  None \<Rightarrow> True
                | Some ct \<Rightarrow> converters ct = None \<or>
                            (\<forall>file. files_file req = Some file \<longrightarrow> \<not> allowed_file (filename file) ct)"
  shows "snd (convert_file w req st) = Redirect_index
       \<and> invoked (fst (convert_file w req st)) = invoked st
       \<and> files (fst (convert_file w req st)) = files st
       \<and> (\<exists>message. flashed (fst (convert_file w req st)) = flashed st @ [(message, ''error'')])
       \<and> (\<forall>file ct. \<not> too_large req \<and> files_file req = Some file \<and> filename file \<noteq> []
                     \<and> form_conversion_type req = Some ct \<longrightarrow>
            flashed (fst (convert_file w req st)) = flashed st @
              [(if converters ct = None then ''Invalid conversion type selected''
                else ''Invalid file type for '' @ title (replace_char (CHR ''_'') (CHR '' '') ct) @ '' conversion'',
                ''error'')])"
  using assms converters_empty_key
  by (auto simp: convert_file_def Let_def split: option.splits)

theorem dispatch_rejects_witness:
  "snd (convert_file sample_world gif_request empty_state) = Redirect_index
   \<and> invoked (fst (convert_file sample_world gif_request empty_state)) = []
   \<and> flashed (fst (convert_file sample_world gif_request empty_state))
       = [(''Invalid file type for Png To Jpg conversion'', ''error'')]"
proof -
  have single: "form_conversion_type gif_request \<noteq> Some ''merge_pdfs''"
               "form_conversion_type gif_request \<noteq> Some ''merge_images''"
    by (simp_all add: gif_request_def)
  have not_allowed: "\<not> allowed_file ''photo.GIF'' ''png_to_jpg''"
    by (simp add: allowed_file_def lower_def lower_char_def after_last_def
          ALLOWED_EXTENSIONS_def ALLOWED_EXTENSIONS_items_def)
  have bad: "case form_conversion_type gif_request of
                  None \<Rightarrow> True
                | Some ct \<Rightarrow> converters ct = None \<or>
                            (\<forall>file. files_file gif_request = Some file \<longrightarrow> \<not> allowed_file (filename file) ct)"
    using not_allowed by (simp add: gif_request_def)
  have registered: "converters ''png_to_jpg'' \<noteq> None"
    by (simp add: converters_def converters_items_def)
  have title: "title (replace_char (CHR ''_'') (CHR '' '') ''png_to_jpg'') = ''Png To Jpg''"
    by (simp add: title_def replace_char_def is_lower_def is_upper_def upper_char_def lower_char_def)
  from dispatch_rejects [OF single bad, of sample_world empty_state] registered title
  show ?thesis
    by (simp add: gif_request_def empty_state_def)
qed

text \<open>An allowed upload, for contrast, reaches the converter and is sent back.\<close>

lemma dispatch_accepts_example:
  "snd (convert_file sample_world png_request empty_state)
     = Send_file ''/tmp/job/photo.jpg''
         (Some (ImageFile ''JPEG''
            (Paste (New_image ''RGB'' (10, 10) (255, 255, 255)) (Decoded ''RGBA'' 10 10)
               (Some (Last_band (Decoded ''RGBA'' 10 10))))))
         ''photo.jpg'' ''image/jpeg''
   \<and> invoked (fst (convert_file sample_world png_request empty_state))
     = [(PNGToJPGConverter, [''/tmp/job/photo.PNG''], ''/tmp/job'')]"
proof -
  have allowed: "allowed_file ''photo.PNG'' ''png_to_jpg''"
    by (simp add: allowed_file_def lower_def lower_char_def after_last_def
          ALLOWED_EXTENSIONS_def ALLOWED_EXTENSIONS_items_def)
  have registered: "converters ''png_to_jpg'' = Some PNGToJPGConverter"
    by (simp add: converters_def converters_items_def)
  have base: "base_name_of ''/tmp/job/photo.PNG'' = ''photo''"
    by (simp add: base_name_of_def splitext_def basename_def rfind_def)
  have out: "path_join ''/tmp/job'' ''photo.jpg'' = ''/tmp/job/photo.jpg''"
            "path_join ''/tmp/job'' ''photo.PNG'' = ''/tmp/job/photo.PNG''"
    by (simp_all add: path_join_def)
  have bn: "basename ''/tmp/job/photo.jpg'' = ''photo.jpg''"
    by (simp add: basename_def rfind_def)
  show ?thesis
    by (simp add: convert_file_def png_request_def empty_state_def sample_world_def allowed registered
          PNGToJPGConverter_convert_def Image_open_def base out bn path_exists_def rmtree_def Let_def)
qed

section \<open>Merging PDFs\<close>

lemma opened_pages_logging [simp]:
  "opened_pages w (logging_info st m) ps = opened_pages w st ps"
  "opened_pages w (logging_error st m) ps = opened_pages w st ps"
  by (simp_all add: opened_pages_def)

lemma merge_pdf_loop_files: "files (fst (merge_pdf_loop w ps i st acc)) = files st"
  by (induction ps arbitrary: i st acc) (auto split: sum.splits)

lemma merge_pdf_loop_pages:
  "snd (merge_pdf_loop w ps i st acc) = acc @ opened_pages w st ps"
proof (induction ps arbitrary: i st acc)
  case Nil
  then show ?case by (simp add: opened_pages_def)
next
  case (Cons p ps)
  show ?case
    by (cases "fitz_open w st p") (simp_all add: Cons.IH, simp_all add: opened_pages_def)
qed

lemma merge_pdf_loop_log_mono:
  "set (logged st) \<subseteq> set (logged (fst (merge_pdf_loop w ps i st acc)))"
proof (induction ps arbitrary: i st acc)
  case Nil
  then show ?case by simp
next
  case (Cons p ps)
  show ?case
  proof (cases "fitz_open w st p")
    case (Inl e)
    let ?st = "logging_error st (''Failed to process PDF '' @ p @ '': '' @ str_exn e)"
    have "set (logged st) \<subseteq> set (logged ?st)" by auto
    also have "\<dots> \<subseteq> set (logged (fst (merge_pdf_loop w ps (i + 1) ?st acc)))"
      by (rule Cons.IH)
    finally show ?thesis using Inl by simp
  next
    case (Inr pages)
    let ?st = "logging_info st (''Added PDF '' @ str_nat (i + 1) @ '': '' @ basename p @
                              '' ('' @ str_nat (length pages) @ '' pages)'')"
    have "set (logged st) \<subseteq> set (logged ?st)" by auto
    also have "\<dots> \<subseteq> set (logged (fst (merge_pdf_loop w ps (i + 1) ?st (acc @ pages))))"
      by (rule Cons.IH)
    finally show ?thesis using Inr by simp
  qed
qed

lemma merge_pdf_loop_skipped:
  "p \<in> set ps \<Longrightarrow> fitz_open w st p = Inl e \<Longrightarrow>
   (ERROR, ''Failed to process PDF '' @ p @ '': '' @ str_exn e)
     \<in> set (logged (fst (merge_pdf_loop w ps i st acc)))"
proof (induction ps arbitrary: i st acc)
  case Nil
  then show ?case by simp
next
  case (Cons q ps)
  show ?case
  proof (cases "q = p")
    case True
    let ?st = "logging_error st (''Failed to process PDF '' @ p @ '': '' @ str_exn e)"
    have "(ERROR, ''Failed to process PDF '' @ p @ '': '' @ str_exn e) \<in> set (logged ?st)"
      by simp
    then have "(ERROR, ''Failed to process PDF '' @ p @ '': '' @ str_exn e)
                 \<in> set (logged (fst (merge_pdf_loop w ps (i + 1) ?st acc)))"
      using merge_pdf_loop_log_mono by blast
    then show ?thesis using True Cons.prems by simp
  next
    case False
    then have mem: "p \<in> set ps" using Cons.prems by simp
    show ?thesis
    proof (cases "fitz_open w st q")
      case (Inl e')
      have "fitz_open w (logging_error st (''Failed to process PDF '' @ q @ '': '' @ str_exn e')) p = Inl e"
        using Cons.prems(2) by simp
      from Cons.IH [OF mem this] show ?thesis using Inl by simp
    next
      case (Inr pages)
      have "fitz_open w (logging_info st (''Added PDF '' @ str_nat (i + 1) @ '': '' @ basename q @
                              '' ('' @ str_nat (length pages) @ '' pages)'')) p = Inl e"
        using Cons.prems(2) by simp
      from Cons.IH [OF mem this] show ?thesis using Inr by simp
    qed
  qed
qed

text \<open>
  C2.  PDF merge, for every list of input paths.  If the inputs that open hold at
  least one page, the merge returns \<open>merged_document.pdf\<close> in the output directory,
  that file holds exactly the pages of the inputs that open, document after document in
  list order, their number is the sum of the page counts of those inputs, and no other
  file changes.  If they hold no page, the merge raises
  \<open>PDF merge failed: No valid PDF pages found to merge\<close> and leaves the files as they
  were.  In both cases every input that fails to open has its error record in the log.
\<close>

theorem merge_pdfs_spec:
  "(opened_pages w st input_paths \<noteq> [] \<longrightarrow>
      snd (MergePDFsConverter_convert w st input_paths output_dir)
        = Inr (path_join output_dir ''merged_document.pdf'')
      \<and> files (fst (MergePDFsConverter_convert w st input_paths output_dir))
          = (files st)(path_join output_dir ''merged_document.pdf''
                        \<mapsto> PDF (opened_pages w st input_paths))
      \<and> length (opened_pages w st input_paths)
          = sum_list (map (\<lambda>p. case fitz_open w st p of Inl e \<Rightarrow> 0 | Inr pages \<Rightarrow> length pages)
                          input_paths))
 \<and> (opened_pages w st input_paths = [] \<longrightarrow>
      snd (MergePDFsConverter_convert w st input_paths output_dir)
        = Inl (Exception ''PDF merge failed: No valid PDF pages found to merge'')
      \<and> files (fst (MergePDFsConverter_convert w st input_paths output_dir)) = files st)
 \<and> (\<forall>p \<in> set input_paths. \<forall>e. fitz_open w st p = Inl e \<longrightarrow>
      (ERROR, ''Failed to process PDF '' @ p @ '': '' @ str_exn e)
        \<in> set (logged (fst (MergePDFsConverter_convert w st input_paths output_dir))))"
proof -
  obtain st1 merged where loop: "merge_pdf_loop w input_paths 0 st [] = (st1, merged)"
    by (cases "merge_pdf_loop w input_paths 0 st []")
  have merged: "merged = opened_pages w st input_paths"
    using merge_pdf_loop_pages [of w input_paths 0 st "[]"] loop by simp
  have files1: "files st1 = files st"
    using merge_pdf_loop_files [of w input_paths 0 st "[]"] loop by simp
  have count: "length (opened_pages w st input_paths)
          = sum_list (map (\<lambda>p. case fitz_open w st p of Inl e \<Rightarrow> 0 | Inr pages \<Rightarrow> length pages)
                          input_paths)"
    unfolding opened_pages_def length_concat map_map
    by (rule arg_cong [where f = sum_list], rule map_cong) (auto split: sum.splits)
  have skipped: "\<And>p e. p \<in> set input_paths \<Longrightarrow> fitz_open w st p = Inl e \<Longrightarrow>
      (ERROR, ''Failed to process PDF '' @ p @ '': '' @ str_exn e) \<in> set (logged st1)"
    using merge_pdf_loop_skipped [of _ input_paths w st _ 0 "[]"] loop by simp
  have log_kept: "set (logged st1)
      \<subseteq> set (logged (fst (MergePDFsConverter_convert w st input_paths output_dir)))"
    by (auto simp: MergePDFsConverter_convert_def loop failed_def Let_def)
  show ?thesis
    using merged files1 count skipped log_kept
    by (auto simp: MergePDFsConverter_convert_def loop failed_def Let_def)
qed

text \<open>
  The result at work: of three inputs with 3, 5 and 2 pages the first does not open and
  the output has the 7 pages of the other two; and a batch whose only input does not
  open raises.
\<close>

theorem merge_pdfs_spec_witness:
  "snd (MergePDFsConverter_convert sample_world merge_state
         [''/tmp/job/input_01_a.pdf'', ''/tmp/job/input_02_b.pdf'', ''/tmp/job/input_03_c.pdf'']
         ''/tmp/job'')
     = Inr ''/tmp/job/merged_document.pdf''
   \<and> files (fst (MergePDFsConverter_convert sample_world merge_state
         [''/tmp/job/input_01_a.pdf'', ''/tmp/job/input_02_b.pdf'', ''/tmp/job/input_03_c.pdf'']
         ''/tmp/job'')) ''/tmp/job/merged_document.pdf''
     = Some (PDF [Page ''b1'', Page ''b2'', Page ''b3'', Page ''b4'', Page ''b5'', Page ''c1'', Page ''c2''])
   \<and> (ERROR, ''Failed to process PDF /tmp/job/input_01_a.pdf: cannot open /tmp/job/input_01_a.pdf'')
        \<in> set (logged (fst (MergePDFsConverter_convert sample_world merge_state
         [''/tmp/job/input_01_a.pdf'', ''/tmp/job/input_02_b.pdf'', ''/tmp/job/input_03_c.pdf'']
         ''/tmp/job'')))
   \<and> snd (MergePDFsConverter_convert sample_world merge_state [''/tmp/job/input_01_a.pdf''] ''/tmp/job'')
     = Inl (Exception ''PDF merge failed: No valid PDF pages found to merge'')
   \<and> files (fst (MergePDFsConverter_convert sample_world merge_state [''/tmp/job/input_01_a.pdf''] ''/tmp/job''))
     = files merge_state"
proof -
  have opened: "opened_pages sample_world merge_state
         [''/tmp/job/input_01_a.pdf'', ''/tmp/job/input_02_b.pdf'', ''/tmp/job/input_03_c.pdf'']
       = [Page ''b1'', Page ''b2'', Page ''b3'', Page ''b4'', Page ''b5'', Page ''c1'', Page ''c2'']"
    by (simp add: opened_pages_def fitz_open_def merge_state_def)
  have unreadable: "fitz_open sample_world merge_state ''/tmp/job/input_01_a.pdf''
       = Inl (OtherError ''cannot open /tmp/job/input_01_a.pdf'')"
    by (simp add: fitz_open_def merge_state_def sample_world_def)
  have none: "opened_pages sample_world merge_state [''/tmp/job/input_01_a.pdf''] = []"
    by (simp add: opened_pages_def unreadable)
  have out: "path_join ''/tmp/job'' ''merged_document.pdf'' = ''/tmp/job/merged_document.pdf''"
    by (simp add: path_join_def)
  show ?thesis
    using merge_pdfs_spec [of sample_world merge_state
            "[''/tmp/job/input_01_a.pdf'', ''/tmp/job/input_02_b.pdf'', ''/tmp/job/input_03_c.pdf'']"
            "''/tmp/job''"]
          merge_pdfs_spec [of sample_world merge_state "[''/tmp/job/input_01_a.pdf'']" "''/tmp/job''"]
    by (simp add: opened unreadable none out)
qed

section \<open>Merging images\<close>

lemma round_aspect_cases:
  "round_aspect e key = max \<lfloor>e\<rfloor> 1 \<or> round_aspect e key = max \<lceil>e\<rceil> 1"
  by (simp add: round_aspect_def)

lemma round_aspect_bounds:
  assumes "0 < e" and "e \<le> of_int n"
  shows "1 \<le> round_aspect e key \<and> round_aspect e key \<le> n
         \<and> \<bar>of_int (round_aspect e key) - e\<bar> < 1"
proof -
  have f1: "of_int \<lfloor>e\<rfloor> \<le> e" "e < of_int \<lfloor>e\<rfloor> + 1" by linarith+
  have c1: "e \<le> of_int \<lceil>e\<rceil>" "of_int \<lceil>e\<rceil> < e + 1" by linarith+
  have "(0::rat) < of_int n" using assms by linarith
  then have n1: "1 \<le> n" by simp
  have "(of_int \<lfloor>e\<rfloor> :: rat) \<le> of_int n" using f1(1) assms(2) by linarith
  then have fl: "\<lfloor>e\<rfloor> \<le> n" by simp
  have ce: "\<lceil>e\<rceil> \<le> n" using assms(2) by (simp add: ceiling_le_iff)
  have "(-1 :: rat) < of_int \<lfloor>e\<rfloor>" using f1(2) assms(1) by linarith
  then have fl0: "0 \<le> \<lfloor>e\<rfloor>" by linarith
  have "(0::rat) < of_int \<lceil>e\<rceil>" using c1(1) assms(1) by linarith
  then have ce1: "1 \<le> \<lceil>e\<rceil>" by simp
  consider (f) "round_aspect e key = max \<lfloor>e\<rfloor> 1" | (c) "round_aspect e key = max \<lceil>e\<rceil> 1"
    using round_aspect_cases by blast
  then show ?thesis
  proof cases
    case f
    show ?thesis
    proof (cases "1 \<le> \<lfloor>e\<rfloor>")
      case True
      then have r: "round_aspect e key = \<lfloor>e\<rfloor>" using f by simp
      have "\<bar>of_int \<lfloor>e\<rfloor> - e\<bar> < 1" using f1 by linarith
      then show ?thesis using True fl r by simp
    next
      case False
      then have z: "\<lfloor>e\<rfloor> = 0" using fl0 by linarith
      then have r: "round_aspect e key = 1" using f by simp
      have "e < 1" using f1(2) z by simp
      then have "\<bar>1 - e\<bar> < 1" using assms(1) by linarith
      then show ?thesis using r n1 by simp
    qed
  next
    case c
    then have r: "round_aspect e key = \<lceil>e\<rceil>" using ce1 by simp
    have "\<bar>of_int \<lceil>e\<rceil> - e\<bar> < 1" using c1 by linarith
    then show ?thesis using ce1 ce r by simp
  qed
qed

text \<open>From the rational bound to the integers.\<close>

lemma cross_bound:
  fixes r :: int and a b :: nat
  assumes "0 < b" and "\<bar>of_int r - (of_nat a / of_nat b :: rat)\<bar> < 1"
  shows "\<bar>r * int b - int a\<bar> < int b"
proof -
  have b0: "(0::rat) < of_nat b" using assms(1) by simp
  have "\<bar>of_int r - (of_nat a / of_nat b :: rat)\<bar> * of_nat b < 1 * of_nat b"
    using assms(2) b0 by (rule mult_strict_right_mono)
  moreover have "\<bar>of_int r - (of_nat a / of_nat b :: rat)\<bar> * of_nat b
                 = \<bar>of_int r * of_nat b - of_nat a\<bar>"
  proof -
    have "\<bar>of_int r - (of_nat a / of_nat b :: rat)\<bar> * of_nat b
          = \<bar>(of_int r - (of_nat a / of_nat b :: rat)) * of_nat b\<bar>"
      using b0 by (simp add: abs_mult)
    also have "(of_int r - (of_nat a / of_nat b :: rat)) * of_nat b = of_int r * of_nat b - of_nat a"
      using b0 by (simp add: field_simps)
    finally show ?thesis .
  qed
  ultimately have lt: "\<bar>of_int r * of_nat b - of_nat a\<bar> < (of_nat b :: rat)" by simp
  have "(of_int \<bar>r * int b - int a\<bar> :: rat) = \<bar>of_int (r * int b - int a)\<bar>"
    by (rule of_int_abs)
  also have "(of_int (r * int b - int a) :: rat) = of_int r * of_nat b - of_nat a"
    by (simp only: of_int_diff of_int_mult of_int_of_nat_eq)
  finally have e: "(of_int \<bar>r * int b - int a\<bar> :: rat) = \<bar>of_int r * of_nat b - of_nat a\<bar>" .
  have "(of_int \<bar>r * int b - int a\<bar> :: rat) < of_int (int b)"
    unfolding e of_int_of_nat_eq by (rule lt)
  then show ?thesis by (simp only: of_int_less_iff)
qed

lemma thumbnail_eq:
  assumes "\<not> (x \<ge> img_width img \<and> y \<ge> img_height img)" and "img_height img \<noteq> 0" and "y \<noteq> 0"
  shows "thumbnail img (x, y) =
     (let aspect = (of_nat (img_width img) / of_nat (img_height img) :: rat);
          final_size =
              (if of_nat x / of_nat y \<ge> aspect
               then (nat (round_aspect (of_nat y * aspect) (\<lambda>n. \<bar>aspect - of_int n / of_nat y\<bar>)), y)
               else (x, nat (round_aspect (of_nat x / aspect)
                              (\<lambda>n. if n = 0 then 0 else \<bar>aspect - of_nat x / of_int n\<bar>))))
      in if img_size img \<noteq> final_size then Inr (Resized img final_size) else Inr img)"
  using assms unfolding thumbnail_def by (simp only: Let_def fst_conv snd_conv if_False simp_thms)

lemma thumbnail_landscape:
  assumes sz: "img_size img = (w, h)" and "h < w" "2000 < w" "0 < h"
  shows "\<exists>h'. thumbnail img (2000, 2000) = Inr (Resized img (2000, h'))
              \<and> 1 \<le> h' \<and> h' \<le> 2000 \<and> \<bar>int h' * int w - 2000 * int h\<bar> < int w"
proof -
  have wh: "img_width img = w" "img_height img = h"
    using sz by (simp_all add: img_width_def img_height_def)
  let ?aspect = "(of_nat (img_width img) / of_nat (img_height img) :: rat)"
  let ?e = "(of_nat 2000 / ?aspect :: rat)"
  let ?key = "\<lambda>n::int. if n = 0 then 0 else \<bar>?aspect - of_nat 2000 / of_int n\<bar>"
  let ?r = "round_aspect ?e ?key"
  have w0: "0 < w" using assms by simp
  have e_eq: "?e = of_nat (2000 * h) / of_nat w" by (simp add: wh)
  have e_pos: "0 < ?e" using assms w0 by (simp add: wh)
  have "2000 * h \<le> 2000 * w" using assms(2) by simp
  then have "of_nat (2000 * h) \<le> (of_nat (2000 * w) :: rat)" by (rule of_nat_mono)
  then have "?e \<le> 2000" using w0 unfolding e_eq by (simp add: field_simps)
  then have e_le: "?e \<le> of_int 2000" by simp
  from round_aspect_bounds [OF e_pos e_le, of ?key]
  have rb: "1 \<le> ?r" "?r \<le> 2000" "\<bar>of_int ?r - ?e\<bar> < 1" by auto
  have cb: "\<bar>?r * int w - int (2000 * h)\<bar> < int w"
    using cross_bound [OF w0, of ?r "2000 * h"] rb(3) unfolding e_eq by simp
  have c1: "\<not> (2000 \<ge> img_width img \<and> 2000 \<ge> img_height img)" using assms by (simp add: wh)
  have c2: "img_height img \<noteq> 0" using assms by (simp add: wh)
  have c3: "(2000::nat) \<noteq> 0" by simp
  have asp: "(of_nat 2000 / of_nat 2000 \<ge> ?aspect) = False"
    using assms by (simp add: wh field_simps)
  have ne: "(img_size img \<noteq> (2000, nat ?r)) = True" using assms by simp
  have th: "thumbnail img (2000, 2000) = Inr (Resized img (2000, nat ?r))"
    unfolding thumbnail_eq [OF c1 c2 c3] Let_def
    by (simp only: asp ne if_True if_False)
  show ?thesis
    using th rb cb by (intro exI [of _ "nat ?r"]) (simp add: nat_le_iff)
qed

lemma thumbnail_portrait:
  assumes sz: "img_size img = (w, h)" and "w \<le> h" "2000 < h" "0 < w"
  shows "\<exists>w'. thumbnail img (2000, 2000) = Inr (Resized img (w', 2000))
              \<and> 1 \<le> w' \<and> w' \<le> 2000 \<and> \<bar>int w' * int h - 2000 * int w\<bar> < int h"
proof -
  have wh: "img_width img = w" "img_height img = h"
    using sz by (simp_all add: img_width_def img_height_def)
  let ?aspect = "(of_nat (img_width img) / of_nat (img_height img) :: rat)"
  let ?e = "(of_nat 2000 * ?aspect :: rat)"
  let ?key = "\<lambda>n::int. \<bar>?aspect - of_int n / of_nat 2000\<bar>"
  let ?r = "round_aspect ?e ?key"
  have h0: "0 < h" using assms by simp
  have e_eq: "?e = of_nat (2000 * w) / of_nat h" by (simp add: wh)
  have e_pos: "0 < ?e" using assms h0 by (simp add: wh)
  have "2000 * w \<le> 2000 * h" using assms(2) by simp
  then have "of_nat (2000 * w) \<le> (of_nat (2000 * h) :: rat)" by (rule of_nat_mono)
  then have "?e \<le> 2000" using h0 unfolding e_eq by (simp add: field_simps)
  then have e_le: "?e \<le> of_int 2000" by simp
  from round_aspect_bounds [OF e_pos e_le, of ?key]
  have rb: "1 \<le> ?r" "?r \<le> 2000" "\<bar>of_int ?r - ?e\<bar> < 1" by auto
  have cb: "\<bar>?r * int h - int (2000 * w)\<bar> < int h"
    using cross_bound [OF h0, of ?r "2000 * w"] rb(3) unfolding e_eq by simp
  have c1: "\<not> (2000 \<ge> img_width img \<and> 2000 \<ge> img_height img)" using assms by (simp add: wh)
  have c2: "img_height img \<noteq> 0" using assms by (simp add: wh)
  have c3: "(2000::nat) \<noteq> 0" by simp
  have asp: "(of_nat 2000 / of_nat 2000 \<ge> ?aspect) = True"
    using assms h0 by (simp add: wh field_simps)
  have ne: "(img_size img \<noteq> (nat ?r, 2000)) = True" using assms by simp
  have th: "thumbnail img (2000, 2000) = Inr (Resized img (nat ?r, 2000))"
    unfolding thumbnail_eq [OF c1 c2 c3] Let_def
    by (simp only: asp ne if_True if_False)
  show ?thesis
    using th rb cb by (intro exI [of _ "nat ?r"]) (simp add: nat_le_iff)
qed

lemma merge_image_step_logging [simp]:
  "merge_image_step w (logging_info st m) p = merge_image_step w st p"
  "merge_image_step w (logging_error st m) p = merge_image_step w st p"
  by (simp_all add: merge_image_step_def)

lemma merge_image_step_sizes:
  assumes op: "Image_open w st p = Inr img0" and sz: "img_size img0 = (wd, ht)"
      and pos: "0 < wd" "0 < ht"
  shows "\<exists>img. merge_image_step w st p = Inr img
           \<and> (wd \<le> 2000 \<and> ht \<le> 2000 \<longrightarrow> img_size img = (wd, ht))
           \<and> (2000 < wd \<or> 2000 < ht \<longrightarrow>
                max (img_width img) (img_height img) = 2000
                \<and> 1 \<le> min (img_width img) (img_height img)
                \<and> \<bar>int (img_width img) * int ht - int (img_height img) * int wd\<bar> < int (max wd ht))"
proof -
  define img1 where "img1 = (if img_mode img0 \<noteq> ''RGB'' then Convert img0 ''RGB'' else img0)"
  have sz1: "img_size img1 = (wd, ht)" using sz by (simp add: img1_def)
  have step: "merge_image_step w st p =
               (if 2000 < wd \<or> 2000 < ht then thumbnail img1 (2000, 2000) else Inr img1)"
    using op sz1 by (simp add: merge_image_step_def img1_def [symmetric] Let_def img_width_def img_height_def)
  show ?thesis
  proof (cases "2000 < wd \<or> 2000 < ht")
    case False
    then show ?thesis using step sz1 by auto
  next
    case big: True
    show ?thesis
    proof (cases "ht < wd")
      case True
      then have wbig: "2000 < wd" using big by linarith
      from thumbnail_landscape [OF sz1 True this pos(2)]
      obtain h' where h': "thumbnail img1 (2000, 2000) = Inr (Resized img1 (2000, h'))"
        "1 \<le> h'" "h' \<le> 2000" "\<bar>int h' * int wd - 2000 * int ht\<bar> < int wd" by blast
      have "\<bar>2000 * int ht - int h' * int wd\<bar> < int wd" using h'(4) by linarith
      then show ?thesis
        using step big h' True wbig by (simp add: img_width_def img_height_def max_def min_def)
    next
      case False
      then have le: "wd \<le> ht" by simp
      then have hbig: "2000 < ht" using big by linarith
      from thumbnail_portrait [OF sz1 le this pos(1)]
      obtain w' where w': "thumbnail img1 (2000, 2000) = Inr (Resized img1 (w', 2000))"
        "1 \<le> w'" "w' \<le> 2000" "\<bar>int w' * int ht - 2000 * int wd\<bar> < int ht" by blast
      then show ?thesis
        using step big le hbig by (simp add: img_width_def img_height_def max_def min_def)
    qed
  qed
qed

lemma surviving_images_logging [simp]:
  "surviving_images w (logging_info st m) ps = surviving_images w st ps"
  "surviving_images w (logging_error st m) ps = surviving_images w st ps"
  by (simp_all add: surviving_images_def)

lemma merge_image_loop_files: "files (fst (merge_image_loop w ps i st acc)) = files st"
  by (induction ps arbitrary: i st acc) (auto split: sum.splits)

lemma merge_image_loop_images:
  "snd (merge_image_loop w ps i st acc) = acc @ surviving_images w st ps"
proof (induction ps arbitrary: i st acc)
  case Nil
  then show ?case by (simp add: surviving_images_def)
next
  case (Cons p ps)
  show ?case
    by (cases "merge_image_step w st p") (simp_all add: Cons.IH, simp_all add: surviving_images_def)
qed

text \<open>
  C3.  Image merge, for every list of input paths.  An input that opens as an image
  of positive width and height comes out of the loop: with its own size when neither
  side exceeds 2000, and otherwise with its longer side equal to 2000, its shorter
  side at least 1, and its proportions kept up to the rounding of the shorter side to a
  whole number.  An input that does not open is passed over.  If any image comes out,
  the merge returns \<open>merged_images.pdf\<close> in the output directory, holding these
  images as its pages in list order, and changes no other file; if none does, it
  raises \<open>Image merge failed: No valid images found to merge\<close> and leaves the files
  as they were.
\<close>

theorem merge_images_spec:
  "(\<forall>p img0. Image_open w st p = Inr img0 \<and> 0 < img_width img0 \<and> 0 < img_height img0 \<longrightarrow>
      (\<exists>img. merge_image_step w st p = Inr img
         \<and> (img_width img0 \<le> 2000 \<and> img_height img0 \<le> 2000 \<longrightarrow> img_size img = img_size img0)
         \<and> (2000 < img_width img0 \<or> 2000 < img_height img0 \<longrightarrow>
              max (img_width img) (img_height img) = 2000
              \<and> 1 \<le> min (img_width img) (img_height img)
              \<and> \<bar>int (img_width img) * int (img_height img0)
                   - int (img_height img) * int (img_width img0)\<bar>
                  < int (max (img_width img0) (img_height img0)))))
 \<and> (\<forall>p e. Image_open w st p = Inl e \<longrightarrow> merge_image_step w st p = Inl e)
 \<and> (surviving_images w st input_paths \<noteq> [] \<longrightarrow>
      snd (MergeImagesConverter_convert w st input_paths output_dir)
        = Inr (path_join output_dir ''merged_images.pdf'')
      \<and> files (fst (MergeImagesConverter_convert w st input_paths output_dir))
          = (files st)(path_join output_dir ''merged_images.pdf''
                        \<mapsto> PDF (map ImagePage (surviving_images w st input_paths))))
 \<and> (surviving_images w st input_paths = [] \<longrightarrow>
      snd (MergeImagesConverter_convert w st input_paths output_dir)
        = Inl (Exception ''Image merge failed: No valid images found to merge'')
      \<and> files (fst (MergeImagesConverter_convert w st input_paths output_dir)) = files st)"
proof -
  obtain st1 images where loop: "merge_image_loop w input_paths 0 st [] = (st1, images)"
    by (cases "merge_image_loop w input_paths 0 st []")
  have images: "images = surviving_images w st input_paths"
    using merge_image_loop_images [of w input_paths 0 st "[]"] loop by simp
  have files1: "files st1 = files st"
    using merge_image_loop_files [of w input_paths 0 st "[]"] loop by simp
  have pages: "images \<noteq> [] \<Longrightarrow>
      (if length images = 1 then PDF [ImagePage (hd images)]
       else PDF (ImagePage (hd images) # map ImagePage (tl images))) = PDF (map ImagePage images)"
    by (cases images) auto
  have sizes: "\<forall>p img0. Image_open w st p = Inr img0 \<and> 0 < img_width img0 \<and> 0 < img_height img0 \<longrightarrow>
      (\<exists>img. merge_image_step w st p = Inr img
         \<and> (img_width img0 \<le> 2000 \<and> img_height img0 \<le> 2000 \<longrightarrow> img_size img = img_size img0)
         \<and> (2000 < img_width img0 \<or> 2000 < img_height img0 \<longrightarrow>
              max (img_width img) (img_height img) = 2000
              \<and> 1 \<le> min (img_width img) (img_height img)
              \<and> \<bar>int (img_width img) * int (img_height img0)
                   - int (img_height img) * int (img_width img0)\<bar>
                  < int (max (img_width img0) (img_height img0))))"
  proof (intro allI impI)
    fix p img0
    assume a: "Image_open w st p = Inr img0 \<and> 0 < img_width img0 \<and> 0 < img_height img0"
    have sz: "img_size img0 = (img_width img0, img_height img0)"
      by (simp add: img_width_def img_height_def)
    from merge_image_step_sizes [OF _ sz, of w st p] a
    show "\<exists>img. merge_image_step w st p = Inr img
         \<and> (img_width img0 \<le> 2000 \<and> img_height img0 \<le> 2000 \<longrightarrow> img_size img = img_size img0)
         \<and> (2000 < img_width img0 \<or> 2000 < img_height img0 \<longrightarrow>
              max (img_width img) (img_height img) = 2000
              \<and> 1 \<le> min (img_width img) (img_height img)
              \<and> \<bar>int (img_width img) * int (img_height img0)
                   - int (img_height img) * int (img_width img0)\<bar>
                  < int (max (img_width img0) (img_height img0)))"
      using sz by simp
  qed
  have skipped: "\<forall>p e. Image_open w st p = Inl e \<longrightarrow> merge_image_step w st p = Inl e"
    by (simp add: merge_image_step_def)
  have ok: "surviving_images w st input_paths \<noteq> [] \<longrightarrow>
      snd (MergeImagesConverter_convert w st input_paths output_dir)
        = Inr (path_join output_dir ''merged_images.pdf'')
      \<and> files (fst (MergeImagesConverter_convert w st input_paths output_dir))
          = (files st)(path_join output_dir ''merged_images.pdf''
                        \<mapsto> PDF (map ImagePage (surviving_images w st input_paths)))"
    using images files1 pages
    by (auto simp: MergeImagesConverter_convert_def loop Let_def)
  have none: "surviving_images w st input_paths = [] \<longrightarrow>
      snd (MergeImagesConverter_convert w st input_paths output_dir)
        = Inl (Exception ''Image merge failed: No valid images found to merge'')
      \<and> files (fst (MergeImagesConverter_convert w st input_paths output_dir)) = files st"
    using images files1
    by (auto simp: MergeImagesConverter_convert_def loop failed_def)
  from sizes skipped ok none show ?thesis by blast
qed

lemma thumbnail_example:
  "thumbnail (Decoded ''RGB'' 4000 3000) (2000, 2000) = Inr (Resized (Decoded ''RGB'' 4000 3000) (2000, 1500))"
  by (simp add: thumbnail_def round_aspect_def img_width_def img_height_def Let_def)

text \<open>
  The result at work: of three images the first, 4000 by 3000, comes out as 2000 by
  1500, the other two keep their size, and the output has three pages; a batch whose
  only input is no image raises.
\<close>

theorem merge_images_spec_witness:
  "snd (MergeImagesConverter_convert sample_world images_state
         [''/tmp/job/image_01_a.jpg'', ''/tmp/job/image_02_b.png'', ''/tmp/job/image_03_c.bmp'']
         ''/tmp/job'')
     = Inr ''/tmp/job/merged_images.pdf''
   \<and> files (fst (MergeImagesConverter_convert sample_world images_state
         [''/tmp/job/image_01_a.jpg'', ''/tmp/job/image_02_b.png'', ''/tmp/job/image_03_c.bmp'']
         ''/tmp/job'')) ''/tmp/job/merged_images.pdf''
     = Some (PDF [ImagePage (Resized (Decoded ''RGB'' 4000 3000) (2000, 1500)),
                  ImagePage (Convert (Decoded ''RGBA'' 800 600) ''RGB''),
                  ImagePage (Decoded ''RGB'' 100 50)])
   \<and> (\<exists>img. merge_image_step sample_world images_state ''/tmp/job/image_01_a.jpg'' = Inr img
         \<and> max (img_width img) (img_height img) = 2000)
   \<and> merge_image_step sample_world images_state ''/tmp/job/image_04_d.png''
        = Inl (OtherError ''cannot open /tmp/job/image_04_d.png'')
   \<and> snd (MergeImagesConverter_convert sample_world images_state [''/tmp/job/image_04_d.png''] ''/tmp/job'')
     = Inl (Exception ''Image merge failed: No valid images found to merge'')"
proof -
  have o1: "Image_open sample_world images_state ''/tmp/job/image_01_a.jpg'' = Inr (Decoded ''RGB'' 4000 3000)"
    and o2: "Image_open sample_world images_state ''/tmp/job/image_02_b.png'' = Inr (Decoded ''RGBA'' 800 600)"
    and o3: "Image_open sample_world images_state ''/tmp/job/image_03_c.bmp'' = Inr (Decoded ''RGB'' 100 50)"
    and o4: "Image_open sample_world images_state ''/tmp/job/image_04_d.png''
               = Inl (OtherError ''cannot open /tmp/job/image_04_d.png'')"
    by (simp_all add: Image_open_def images_state_def sample_world_def)
  have s1: "merge_image_step sample_world images_state ''/tmp/job/image_01_a.jpg''
              = Inr (Resized (Decoded ''RGB'' 4000 3000) (2000, 1500))"
    by (simp add: merge_image_step_def o1 img_width_def img_height_def thumbnail_example)
  have s2: "merge_image_step sample_world images_state ''/tmp/job/image_02_b.png''
              = Inr (Convert (Decoded ''RGBA'' 800 600) ''RGB'')"
    by (simp add: merge_image_step_def o2 img_width_def img_height_def)
  have s3: "merge_image_step sample_world images_state ''/tmp/job/image_03_c.bmp''
              = Inr (Decoded ''RGB'' 100 50)"
    by (simp add: merge_image_step_def o3 img_width_def img_height_def)
  have s4: "merge_image_step sample_world images_state ''/tmp/job/image_04_d.png''
              = Inl (OtherError ''cannot open /tmp/job/image_04_d.png'')"
    by (simp add: merge_image_step_def o4)
  have out: "path_join ''/tmp/job'' ''merged_images.pdf'' = ''/tmp/job/merged_images.pdf''"
    by (simp add: path_join_def)
  note three = merge_images_spec [of sample_world images_state
            "[''/tmp/job/image_01_a.jpg'', ''/tmp/job/image_02_b.png'', ''/tmp/job/image_03_c.bmp'']"
            "''/tmp/job''"]
  note one = merge_images_spec [of sample_world images_state "[''/tmp/job/image_04_d.png'']" "''/tmp/job''"]
  have sizes: "Image_open sample_world images_state p = Inr img0 \<and> 0 < img_width img0 \<and> 0 < img_height img0
      \<Longrightarrow> \<exists>img. merge_image_step sample_world images_state p = Inr img
            \<and> (2000 < img_width img0 \<or> 2000 < img_height img0 \<longrightarrow>
                 max (img_width img) (img_height img) = 2000)" for p img0
    using three by blast
  have big: "\<exists>img. merge_image_step sample_world images_state ''/tmp/job/image_01_a.jpg'' = Inr img
         \<and> max (img_width img) (img_height img) = 2000"
    using sizes [of "''/tmp/job/image_01_a.jpg''" "Decoded ''RGB'' 4000 3000"] o1
    by (simp add: img_width_def img_height_def)
  have three': "surviving_images sample_world images_state
        [''/tmp/job/image_01_a.jpg'', ''/tmp/job/image_02_b.png'', ''/tmp/job/image_03_c.bmp''] =
       [Resized (Decoded ''RGB'' 4000 3000) (2000, 1500), Convert (Decoded ''RGBA'' 800 600) ''RGB'',
        Decoded ''RGB'' 100 50]"
    by (simp add: surviving_images_def s1 s2 s3)
  have one': "surviving_images sample_world images_state [''/tmp/job/image_04_d.png''] = []"
    by (simp add: surviving_images_def s4)
  from three one big show ?thesis
    by (simp add: three' one' s4 out)
qed

section \<open>Transparency\<close>

text \<open>
  The two converters to JPEG paste an image of mode RGBA, LA or P onto a white
  background, through its alpha band.
\<close>

lemma jpg_converters_composite_on_white:
  assumes "Image_open w st input_path = Inr img0" and "img_mode img0 \<in> {''RGBA'', ''LA'', ''P''}"
  shows "\<exists>src. (src = img0 \<or> src = Convert img0 ''RGBA'')
           \<and> files (fst (PNGToJPGConverter_convert w st input_path output_dir))
                (path_join output_dir (base_name_of input_path @ ''.jpg''))
              = Some (ImageFile ''JPEG''
                       (Paste (New_image ''RGB'' (img_size img0) (255, 255, 255)) src (Some (Last_band src))))
           \<and> files (fst (WEBPToJPGConverter_convert w st input_path output_dir))
                (path_join output_dir (base_name_of input_path @ ''.jpg''))
              = Some (ImageFile ''JPEG''
                       (Paste (New_image ''RGB'' (img_size img0) (255, 255, 255)) src (Some (Last_band src))))"
proof (cases "img_mode img0 = ''P''")
  case True
  then show ?thesis
    using assms(1)
    by (intro exI [of _ "Convert img0 ''RGBA''"])
       (simp add: PNGToJPGConverter_convert_def WEBPToJPGConverter_convert_def Let_def)
next
  case False
  then show ?thesis
    using assms
    by (intro exI [of _ img0])
       (auto simp: PNGToJPGConverter_convert_def WEBPToJPGConverter_convert_def Let_def)
qed

text \<open>
  The image-to-PDF converter and the loop of the image merge call \<open>convert('RGB')\<close>
  on such an image and nothing else.
\<close>

lemma pdf_converters_only_convert:
  assumes "Image_open w st input_path = Inr img0" and "img_mode img0 \<in> {''RGBA'', ''LA'', ''P''}"
  shows "files (fst (JPGToPDFConverter_convert w st input_path output_dir))
           (path_join output_dir (base_name_of input_path @ ''.pdf''))
         = Some (PDF [ImagePage (Convert img0 ''RGB'')])"
    and "img_width img0 \<le> 2000 \<Longrightarrow> img_height img0 \<le> 2000 \<Longrightarrow>
         merge_image_step w st input_path = Inr (Convert img0 ''RGB'')"
  using assms
  by (auto simp: JPGToPDFConverter_convert_def merge_image_step_def Let_def img_width_def img_height_def)

text \<open>
  C4.  The claim is that every conversion to a format without an alpha channel pastes
  an RGBA, LA or P image onto a white background, the image-to-PDF and image-merge
  paths included.  On an RGBA PNG the image-to-PDF converter and the image merge write
  a page holding \<open>convert('RGB')\<close> of the image, with no background and no paste; the
  PNG-to-JPG converter, on the same file, writes the image pasted onto white.
\<close>

theorem image_to_pdf_drops_alpha:
  "files (fst (JPGToPDFConverter_convert sample_world alpha_state ''/tmp/job/logo.png'' ''/tmp/job''))
     ''/tmp/job/logo.pdf''
     = Some (PDF [ImagePage (Convert (Decoded ''RGBA'' 64 64) ''RGB'')])
   \<and> files (fst (MergeImagesConverter_convert sample_world alpha_state [''/tmp/job/logo.png''] ''/tmp/job''))
     ''/tmp/job/merged_images.pdf''
     = Some (PDF [ImagePage (Convert (Decoded ''RGBA'' 64 64) ''RGB'')])
   \<and> files (fst (PNGToJPGConverter_convert sample_world alpha_state ''/tmp/job/logo.png'' ''/tmp/job''))
     ''/tmp/job/logo.jpg''
     = Some (ImageFile ''JPEG''
              (Paste (New_image ''RGB'' (64, 64) (255, 255, 255)) (Decoded ''RGBA'' 64 64)
                 (Some (Last_band (Decoded ''RGBA'' 64 64)))))"
proof -
  have op: "Image_open sample_world alpha_state ''/tmp/job/logo.png'' = Inr (Decoded ''RGBA'' 64 64)"
    by (simp add: Image_open_def alpha_state_def)
  have base: "base_name_of ''/tmp/job/logo.png'' = ''logo''"
    by (simp add: base_name_of_def splitext_def basename_def rfind_def)
  have out: "path_join ''/tmp/job'' ''logo.pdf'' = ''/tmp/job/logo.pdf''"
            "path_join ''/tmp/job'' ''logo.jpg'' = ''/tmp/job/logo.jpg''"
            "path_join ''/tmp/job'' ''merged_images.pdf'' = ''/tmp/job/merged_images.pdf''"
    by (simp_all add: path_join_def)
  have step: "merge_image_step sample_world alpha_state ''/tmp/job/logo.png''
               = Inr (Convert (Decoded ''RGBA'' 64 64) ''RGB'')"
    by (simp add: merge_image_step_def op img_width_def img_height_def)
  show ?thesis
    by (simp add: JPGToPDFConverter_convert_def PNGToJPGConverter_convert_def
          MergeImagesConverter_convert_def op base out step Let_def)
qed

section \<open>Failures of external tools\<close>

lemma run_tool_eq:
  "subprocess_run w cmd t (files st) = (fs1, r) \<Longrightarrow> run_tool w st cmd t = (st\<lparr>files := fs1\<rparr>, r)"
  by (simp add: run_tool_def)

lemmas tool_converter_defs =
  MP4ToMP3Converter_convert_def MP3ToWAVConverter_convert_def WAVToMP3Converter_convert_def
  OGGToMP3Converter_convert_def MP4ToAVIConverter_convert_def AVIToMP4Converter_convert_def
  MKVToMP4Converter_convert_def MP4ToWEBMConverter_convert_def PPTXToPDFConverter_convert_def
  DOCToPDFConverter_convert_def

lemma tool_call_timeouts:
  assumes "tool_call c input_path output_dir = Some (cmd, t)"
  shows "hd cmd = ''libreoffice'' \<and> t = 60
       \<or> hd cmd = ''ffmpeg'' \<and> take 6 (output_mimetype c) = ''audio/'' \<and> t = 300
       \<or> hd cmd = ''ffmpeg'' \<and> take 6 (output_mimetype c) = ''video/'' \<and> t = 600"
  using assms by (cases c) auto

lemma tool_nonzero_exit:
  assumes "tool_call c input_path output_dir = Some (cmd, t)"
      and "subprocess_run w cmd t (files st) = (fs1, Inr (returncode, stderr))"
      and "returncode \<noteq> 0"
  shows "(hd cmd = ''ffmpeg'' \<longrightarrow>
            snd (convert c w st input_path output_dir) =
              Inl (Exception ((if take 6 (output_mimetype c) = ''audio/''
                               then ''Audio conversion failed: '' else ''Video conversion failed: '') @
                              (if c = MP4ToMP3Converter
                               then ''Audio conversion failed: '' else ''FFmpeg error: '') @ stderr)))
       \<and> (c = PPTXToPDFConverter \<longrightarrow>
            snd (convert c w st input_path output_dir) =
              Inl (Exception ''Presentation conversion failed: LibreOffice conversion failed''))
       \<and> (c = DOCToPDFConverter \<longrightarrow>
            (\<forall>e. Document_open w (st\<lparr>files := fs1\<rparr>) input_path = Inl e \<longrightarrow>
               snd (convert c w st input_path output_dir) =
                 Inl (Exception (''Document conversion failed: '' @ str_exn e))))"
  using assms
  by (cases c) (auto simp: tool_converter_defs run_tool_eq failed_def Let_def)

lemma tool_timeout:
  assumes "tool_call c input_path output_dir = Some (cmd, t)"
      and "subprocess_run w cmd t (files st) = (fs1, Inl (TimeoutExpired m))"
  shows "(c = MP4ToMP3Converter \<longrightarrow>
            snd (convert c w st input_path output_dir) =
              Inl (Exception ''Conversion timed out. File may be too large.''))
       \<and> (hd cmd = ''ffmpeg'' \<and> c \<noteq> MP4ToMP3Converter \<longrightarrow>
            snd (convert c w st input_path output_dir) =
              Inl (Exception ((if take 6 (output_mimetype c) = ''audio/''
                               then ''Audio conversion failed: '' else ''Video conversion failed: '') @ m)))
       \<and> (c = PPTXToPDFConverter \<longrightarrow>
            snd (convert c w st input_path output_dir) =
              Inl (Exception (''Presentation conversion failed: '' @ m)))
       \<and> (c = DOCToPDFConverter \<longrightarrow>
            (\<forall>e. Document_open w (st\<lparr>files := fs1\<rparr>) input_path = Inl e \<longrightarrow>
               snd (convert c w st input_path output_dir) =
                 Inl (Exception (''Document conversion failed: '' @ str_exn e))))"
  using assms
  by (cases c) (auto simp: tool_converter_defs run_tool_eq failed_def Let_def)


text \<open>
  Against C5 as it is stated: the legacy-document converter whose LibreOffice call
  runs into its timeout goes on to read the input with python-docx and, when that
  works, returns the PDF it builds with reportlab, so a timeout can end in success;
  and the presentation converter, on exit code 1, raises a fixed message that does not
  carry the text of stderr.
\<close>

theorem doc_timeout_counterexample:
  "subprocess_run timeout_world
     [''libreoffice'', ''--headless'', ''--convert-to'', ''pdf'', ''--outdir'', ''/tmp/job'',
      ''/tmp/job/letter.doc''] 60 (files doc_state)
     = (files doc_state, Inl (TimeoutExpired ''Command timed out''))
   \<and> snd (DOCToPDFConverter_convert timeout_world doc_state ''/tmp/job/letter.doc'' ''/tmp/job'')
     = Inr ''/tmp/job/letter.pdf''
   \<and> snd (subprocess_run failing_tool_world
          [''libreoffice'', ''--headless'', ''--convert-to'', ''pdf'', ''--outdir'', ''/tmp/job'',
           ''/tmp/job/deck.pptx''] 60 (files doc_state))
     = Inr (1, ''Invalid data found when processing input'')
   \<and> snd (PPTXToPDFConverter_convert failing_tool_world doc_state ''/tmp/job/deck.pptx'' ''/tmp/job'')
     = Inl (Exception ''Presentation conversion failed: LibreOffice conversion failed'')"
proof -
  have base: "base_name_of ''/tmp/job/letter.doc'' = ''letter''"
             "base_name_of ''/tmp/job/deck.pptx'' = ''deck''"
    by (simp_all add: base_name_of_def splitext_def basename_def rfind_def)
  have out: "path_join ''/tmp/job'' ''letter.pdf'' = ''/tmp/job/letter.pdf''"
            "path_join ''/tmp/job'' ''deck.pdf'' = ''/tmp/job/deck.pdf''"
    by (simp_all add: path_join_def)
  have stripped: "strip ''Dear reader'' = ''Dear reader''"
    by (simp add: strip_def isspace_def)
  have story: "paragraph_story ''Dear reader'' = [Paragraph ''Dear reader'', Spacer 1 12]"
    by (simp add: paragraph_story_def stripped)
  have doc: "snd (DOCToPDFConverter_convert timeout_world doc_state ''/tmp/job/letter.doc'' ''/tmp/job'')
     = Inr ''/tmp/job/letter.pdf''"
    by (simp add: DOCToPDFConverter_convert_def run_tool_def timeout_world_def sample_world_def
          doc_state_def base out Document_open_def stripped story path_exists_def Let_def)
  have pptx: "snd (PPTXToPDFConverter_convert failing_tool_world doc_state ''/tmp/job/deck.pptx'' ''/tmp/job'')
     = Inl (Exception ''Presentation conversion failed: LibreOffice conversion failed'')"
    by (simp add: PPTXToPDFConverter_convert_def run_tool_def failing_tool_world_def sample_world_def
          base out failed_def Let_def)
  show ?thesis
    using doc pptx by (simp add: timeout_world_def failing_tool_world_def sample_world_def)
qed

text \<open>
  C5, amended.  Every converter that runs an external tool passes a timeout to
  \<open>subprocess.run\<close>: 60 seconds for LibreOffice, 300 for ffmpeg producing audio, 600
  for ffmpeg producing video.  On a non-zero exit the ffmpeg converters raise an
  exception whose message ends with the text of stderr, the presentation converter
  raises \<open>Presentation conversion failed: LibreOffice conversion failed\<close>, and the
  legacy-document converter falls back on python-docx and raises when the input does
  not open as a document.  When the timeout expires, the MP4-to-MP3 converter raises
  \<open>Conversion timed out. File may be too large.\<close>, the other ffmpeg converters and
  the presentation converter raise an exception carrying the text of the timeout, and
  the legacy-document converter falls back in the same way.
\<close>

theorem external_tool_failures:
  assumes "tool_call c input_path output_dir = Some (cmd, t)"
  shows "(hd cmd = ''libreoffice'' \<and> t = 60
          \<or> hd cmd = ''ffmpeg'' \<and> take 6 (output_mimetype c) = ''audio/'' \<and> t = 300
          \<or> hd cmd = ''ffmpeg'' \<and> take 6 (output_mimetype c) = ''video/'' \<and> t = 600)
       \<and> (\<forall>fs1 returncode stderr.
             subprocess_run w cmd t (files st) = (fs1, Inr (returncode, stderr)) \<and> returncode \<noteq> 0 \<longrightarrow>
               (hd cmd = ''ffmpeg'' \<longrightarrow>
                  snd (convert c w st input_path output_dir) =
                    Inl (Exception ((if take 6 (output_mimetype c) = ''audio/''
                                     then ''Audio conversion failed: '' else ''Video conversion failed: '') @
                                    (if c = MP4ToMP3Converter
                                     then ''Audio conversion failed: '' else ''FFmpeg error: '') @ stderr)))
             \<and> (c = PPTXToPDFConverter \<longrightarrow>
                  snd (convert c w st input_path output_dir) =
                    Inl (Exception ''Presentation conversion failed: LibreOffice conversion failed''))
             \<and> (c = DOCToPDFConverter \<longrightarrow>
                  (\<forall>e. Document_open w (st\<lparr>files := fs1\<rparr>) input_path = Inl e \<longrightarrow>
                     snd (convert c w st input_path output_dir) =
                       Inl (Exception (''Document conversion failed: '' @ str_exn e)))))
       \<and> (\<forall>fs1 m.
             subprocess_run w cmd t (files st) = (fs1, Inl (TimeoutExpired m)) \<longrightarrow>
               (c = MP4ToMP3Converter \<longrightarrow>
                  snd (convert c w st input_path output_dir) =
                    Inl (Exception ''Conversion timed out. File may be too large.''))
             \<and> (hd cmd = ''ffmpeg'' \<and> c \<noteq> MP4ToMP3Converter \<longrightarrow>
                  snd (convert c w st input_path output_dir) =
                    Inl (Exception ((if take 6 (output_mimetype c) = ''audio/''
                                     then ''Audio conversion failed: '' else ''Video conversion failed: '') @ m)))
             \<and> (c = PPTXToPDFConverter \<longrightarrow>
                  snd (convert c w st input_path output_dir) =
                    Inl (Exception (''Presentation conversion failed: '' @ m)))
             \<and> (c = DOCToPDFConverter \<longrightarrow>
                  (\<forall>e. Document_open w (st\<lparr>files := fs1\<rparr>) input_path = Inl e \<longrightarrow>
                     snd (convert c w st input_path output_dir) =
                       Inl (Exception (''Document conversion failed: '' @ str_exn e)))))"
proof (intro conjI allI impI)
  show "hd cmd = ''libreoffice'' \<and> t = 60
          \<or> hd cmd = ''ffmpeg'' \<and> take 6 (output_mimetype c) = ''audio/'' \<and> t = 300
          \<or> hd cmd = ''ffmpeg'' \<and> take 6 (output_mimetype c) = ''video/'' \<and> t = 600"
    using assms by (rule tool_call_timeouts)
next
  fix fs1 returncode stderr
  assume "subprocess_run w cmd t (files st) = (fs1, Inr (returncode, stderr)) \<and> returncode \<noteq> 0"
  then have run: "subprocess_run w cmd t (files st) = (fs1, Inr (returncode, stderr))"
    and nz: "returncode \<noteq> 0" by simp_all
  note r = tool_nonzero_exit [OF assms run nz]
  { assume "hd cmd = ''ffmpeg''"
    with r show "snd (convert c w st input_path output_dir) =
                    Inl (Exception ((if take 6 (output_mimetype c) = ''audio/''
                                     then ''Audio conversion failed: '' else ''Video conversion failed: '') @
                                    (if c = MP4ToMP3Converter
                                     then ''Audio conversion failed: '' else ''FFmpeg error: '') @ stderr))"
      by blast }
  { assume "c = PPTXToPDFConverter"
    with r show "snd (convert c w st input_path output_dir) =
                    Inl (Exception ''Presentation conversion failed: LibreOffice conversion failed'')"
      by blast }
  { fix e assume "c = DOCToPDFConverter" "Document_open w (st\<lparr>files := fs1\<rparr>) input_path = Inl e"
    with r show "snd (convert c w st input_path output_dir) =
                       Inl (Exception (''Document conversion failed: '' @ str_exn e))"
      by blast }
next
  fix fs1 m
  assume run: "subprocess_run w cmd t (files st) = (fs1, Inl (TimeoutExpired m))"
  note r = tool_timeout [OF assms run]
  { assume "c = MP4ToMP3Converter"
    with r show "snd (convert c w st input_path output_dir) =
                    Inl (Exception ''Conversion timed out. File may be too large.'')"
      by blast }
  { assume "hd cmd = ''ffmpeg'' \<and> c \<noteq> MP4ToMP3Converter"
    with r show "snd (convert c w st input_path output_dir) =
                    Inl (Exception ((if take 6 (output_mimetype c) = ''audio/''
                                     then ''Audio conversion failed: '' else ''Video conversion failed: '') @ m))"
      by blast }
  { assume "c = PPTXToPDFConverter"
    with r show "snd (convert c w st input_path output_dir) =
                    Inl (Exception (''Presentation conversion failed: '' @ m))"
      by blast }
  { fix e assume "c = DOCToPDFConverter" "Document_open w (st\<lparr>files := fs1\<rparr>) input_path = Inl e"
    with r show "snd (convert c w st input_path output_dir) =
                       Inl (Exception (''Document conversion failed: '' @ str_exn e))"
      by blast }
qed

text \<open>The amended claim at work on the MP3-to-WAV converter: exit code 1, and a timeout.\<close>

theorem external_tool_failures_witness:
  "snd (convert MP3ToWAVConverter failing_tool_world doc_state ''/tmp/job/song.mp3'' ''/tmp/job'')
     = Inl (Exception ''Audio conversion failed: FFmpeg error: Invalid data found when processing input'')
   \<and> snd (convert MP3ToWAVConverter timeout_world doc_state ''/tmp/job/song.mp3'' ''/tmp/job'')
     = Inl (Exception ''Audio conversion failed: Command timed out'')"
proof -
  have call: "tool_call MP3ToWAVConverter ''/tmp/job/song.mp3'' ''/tmp/job''
               = Some ([''ffmpeg'', ''-i'', ''/tmp/job/song.mp3'', ''-y'', ''/tmp/job/song.wav''], 300)"
    by (simp add: base_name_of_def splitext_def basename_def rfind_def path_join_def)
  have exit1: "subprocess_run failing_tool_world
                 [''ffmpeg'', ''-i'', ''/tmp/job/song.mp3'', ''-y'', ''/tmp/job/song.wav''] 300 (files doc_state)
               = (files doc_state, Inr (1, ''Invalid data found when processing input''))"
    by (simp add: failing_tool_world_def sample_world_def)
  have expired: "subprocess_run timeout_world
                 [''ffmpeg'', ''-i'', ''/tmp/job/song.mp3'', ''-y'', ''/tmp/job/song.wav''] 300 (files doc_state)
               = (files doc_state, Inl (TimeoutExpired ''Command timed out''))"
    by (simp add: timeout_world_def sample_world_def)
  from external_tool_failures [OF call, of failing_tool_world doc_state] exit1
  have a: "snd (convert MP3ToWAVConverter failing_tool_world doc_state ''/tmp/job/song.mp3'' ''/tmp/job'')
     = Inl (Exception ''Audio conversion failed: FFmpeg error: Invalid data found when processing input'')"
    by simp
  from external_tool_failures [OF call, of timeout_world doc_state] expired
  have b: "snd (convert MP3ToWAVConverter timeout_world doc_state ''/tmp/job/song.mp3'' ''/tmp/job'')
     = Inl (Exception ''Audio conversion failed: Command timed out'')"
    by simp
  from a b show ?thesis by simp
qed

section \<open>Exporting the pages of a PDF\<close>

text \<open>Numerals can be read back, so \<open>zero_pad\<close> is injective.\<close>

lemma digit_cases: "d < 10 \<Longrightarrow> d = 0 \<or> d = 1 \<or> d = 2 \<or> d = 3 \<or> d = 4 \<or> d = 5 \<or> d = 6 \<or> d = 7 \<or> d = 8 \<or> d = (9::nat)"
  by arith

lemma digit_val_digit_char: "d < 10 \<Longrightarrow> digit_val (digit_char d) = d"
  by (drule digit_cases) (auto simp: digit_val_def digit_char_def)

lemma digit_char_in: "d < 10 \<Longrightarrow> digit_char d \<in> set ''0123456789''"
  by (drule digit_cases) (auto simp: digit_char_def)

lemma nat_of_digits_snoc: "nat_of_digits (s @ [c]) = 10 * nat_of_digits s + digit_val c"
  by (simp add: nat_of_digits_def)

lemma nat_of_digits_str_nat: "nat_of_digits (str_nat n) = n"
proof (induction n rule: str_nat.induct)
  case (1 n)
  show ?case
  proof (cases "n < 10")
    case True
    then show ?thesis
      by (subst str_nat.simps) (simp add: nat_of_digits_def digit_val_digit_char)
  next
    case False
    then have "nat_of_digits (str_nat (n div 10)) = n div 10" using 1 by simp
    then show ?thesis
      using False
      by (subst str_nat.simps) (simp add: nat_of_digits_snoc digit_val_digit_char)
  qed
qed

lemma nat_of_digits_replicate_zero: "nat_of_digits (replicate k (CHR ''0'')) = 0"
proof (induction k)
  case 0
  show ?case by (simp add: nat_of_digits_def)
next
  case (Suc k)
  have "replicate (Suc k) (CHR ''0'') = replicate k (CHR ''0'') @ [CHR ''0'']"
    by (simp add: replicate_append_same)
  then have "nat_of_digits (replicate (Suc k) (CHR ''0''))
             = 10 * nat_of_digits (replicate k (CHR ''0'')) + digit_val (CHR ''0'')"
    by (simp only: nat_of_digits_snoc)
  then show ?case using Suc by (simp add: digit_val_def)
qed

lemma nat_of_digits_zeros: "nat_of_digits (replicate k (CHR ''0'') @ s) = nat_of_digits s"
proof -
  have "nat_of_digits (replicate k (CHR ''0'') @ s)
        = foldl (\<lambda>a c. 10 * a + digit_val c) (nat_of_digits (replicate k (CHR ''0''))) s"
    by (simp add: nat_of_digits_def)
  also have "nat_of_digits (replicate k (CHR ''0'')) = 0"
    by (rule nat_of_digits_replicate_zero)
  finally show ?thesis by (simp add: nat_of_digits_def)
qed

lemma nat_of_digits_zero_pad: "nat_of_digits (zero_pad w n) = n"
  by (simp add: zero_pad_def nat_of_digits_zeros nat_of_digits_str_nat)

lemma zero_pad_inj: "zero_pad w m = zero_pad w n \<Longrightarrow> m = n"
  by (metis nat_of_digits_zero_pad)

lemma str_nat_digits: "set (str_nat n) \<subseteq> set ''0123456789''"
proof (induction n rule: str_nat.induct)
  case (1 n)
  show ?case
  proof (cases "n < 10")
    case True
    then show ?thesis using digit_char_in [of n] by (subst str_nat.simps) simp
  next
    case False
    then have "set (str_nat (n div 10)) \<subseteq> set ''0123456789''" using 1 by simp
    moreover have "digit_char (n mod 10) \<in> set ''0123456789''" by (rule digit_char_in) simp
    ultimately show ?thesis using False by (subst str_nat.simps) simp
  qed
qed

lemma zero_pad_no_slash: "CHR ''/'' \<notin> set (zero_pad w n)"
proof -
  have "CHR ''/'' \<notin> set (str_nat n)" using str_nat_digits [of n] by auto
  then show ?thesis by (simp add: zero_pad_def)
qed

text \<open>Facts about paths.\<close>

lemma basename_eq: "basename p = rev (takeWhile (\<lambda>c. c \<noteq> CHR ''/'') (rev p))"
proof -
  let ?tw = "takeWhile (\<lambda>c. c \<noteq> CHR ''/'') (rev p)"
  have le: "length ?tw \<le> length p"
    using length_takeWhile_le [of "\<lambda>c. c \<noteq> CHR ''/''" "rev p"] by simp
  have "nat (rfind p (CHR ''/'') + 1) = length p - length ?tw"
    using le by (simp add: rfind_def)
  then have "basename p = drop (length p - length ?tw) p" by (simp add: basename_def)
  also have "\<dots> = rev (take (length ?tw) (rev p))" by (simp add: take_rev)
  also have "take (length ?tw) (rev p) = ?tw" by (rule takeWhile_eq_take [symmetric])
  finally show ?thesis .
qed

lemma basename_no_slash: "CHR ''/'' \<notin> set (basename p)"
  by (auto simp: basename_eq dest: set_takeWhileD)

lemma splitext_fst_subset: "set (fst (splitext s)) \<subseteq> set s"
  by (auto simp: splitext_def Let_def dest: in_set_takeD)

lemma base_name_no_slash: "CHR ''/'' \<notin> set (base_name_of p)"
  using splitext_fst_subset [of "basename p"] basename_no_slash [of p]
  by (auto simp: base_name_of_def)

lemma path_join_append: "b \<noteq> [] \<Longrightarrow> path_join a (b @ c) = path_join a b @ c"
  by (simp add: path_join_def)

lemma path_join_inj:
  assumes "path_join a b = path_join a b'" and "b \<noteq> []" "hd b \<noteq> CHR ''/''" "b' \<noteq> []" "hd b' \<noteq> CHR ''/''"
  shows "b = b'"
  using assms by (simp add: path_join_def split: if_splits)

lemma basename_path_join:
  assumes "CHR ''/'' \<notin> set b" and "b \<noteq> []"
  shows "basename (path_join a b) = b"
proof -
  have hd: "hd b \<noteq> CHR ''/''" using assms by (cases b) auto
  have all: "\<forall>c \<in> set (rev b). c \<noteq> CHR ''/''" using assms(1) by auto
  have tw: "\<And>ys. ys = [] \<or> hd ys = CHR ''/'' \<Longrightarrow>
            takeWhile (\<lambda>c. c \<noteq> CHR ''/'') (rev b @ ys) = rev b"
  proof -
    fix ys :: string
    assume "ys = [] \<or> hd ys = CHR ''/''"
    then have e: "takeWhile (\<lambda>c. c \<noteq> CHR ''/'') ys = []" by (cases ys) auto
    have "takeWhile (\<lambda>c. c \<noteq> CHR ''/'') (rev b @ ys)
          = rev b @ takeWhile (\<lambda>c. c \<noteq> CHR ''/'') ys"
      by (rule takeWhile_append2) (use all in auto)
    then show "takeWhile (\<lambda>c. c \<noteq> CHR ''/'') (rev b @ ys) = rev b"
      using e by simp
  qed
  show ?thesis
  proof (cases "a = [] \<or> last a = CHR ''/''")
    case True
    then have pj: "path_join a b = a @ b" using hd assms(2) by (simp add: path_join_def)
    have "rev a = [] \<or> hd (rev a) = CHR ''/''" using True by (auto simp: hd_rev)
    then show ?thesis unfolding basename_eq pj using tw [of "rev a"] by simp
  next
    case False
    then have pj: "path_join a b = a @ ''/'' @ b" using hd assms(2) by (simp add: path_join_def)
    show ?thesis unfolding basename_eq pj using tw [of "CHR ''/'' # rev a"] by simp
  qed
qed

text \<open>The directory of the page files and the archive beside it.\<close>

lemma pages_dir_shape:
  assumes "CHR ''/'' \<notin> set base"
  shows "path_join output_dir (base @ ''_pages'') \<noteq> []"
    and "last (path_join output_dir (base @ ''_pages'')) \<noteq> CHR ''/''"
    and "path_join output_dir (base @ ''_pages.zip'') = path_join output_dir (base @ ''_pages'') @ ''.zip''"
proof -
  have ne: "base @ ''_pages'' \<noteq> []" by simp
  have hd: "hd (base @ ''_pages'') \<noteq> CHR ''/''" using assms by (cases base) auto
  show "path_join output_dir (base @ ''_pages'') \<noteq> []"
    using hd by (simp add: path_join_def)
  show "last (path_join output_dir (base @ ''_pages'')) \<noteq> CHR ''/''"
    using hd by (simp add: path_join_def)
  have "path_join output_dir ((base @ ''_pages'') @ ''.zip'')
        = path_join output_dir (base @ ''_pages'') @ ''.zip''"
    using ne by (rule path_join_append)
  then show "path_join output_dir (base @ ''_pages.zip'') = path_join output_dir (base @ ''_pages'') @ ''.zip''"
    by simp
qed

lemma page_name_shape:
  assumes "CHR ''/'' \<notin> set base"
  shows "CHR ''/'' \<notin> set (base @ ''_page_'' @ zero_pad 3 n @ ''.png'')"
    and "base @ ''_page_'' @ zero_pad 3 n @ ''.png'' \<noteq> []"
    and "hd (base @ ''_page_'' @ zero_pad 3 n @ ''.png'') \<noteq> CHR ''/''"
proof -
  show a: "CHR ''/'' \<notin> set (base @ ''_page_'' @ zero_pad 3 n @ ''.png'')"
    using assms zero_pad_no_slash [of 3 n] by simp
  show b: "base @ ''_page_'' @ zero_pad 3 n @ ''.png'' \<noteq> []" by simp
  show "hd (base @ ''_page_'' @ zero_pad 3 n @ ''.png'') \<noteq> CHR ''/''"
    using assms by (cases base) auto
qed

lemma page_path_inj:
  assumes "CHR ''/'' \<notin> set base" and "page_path base d k i = page_path base d k' j"
  shows "k + i = k' + j"
proof -
  from path_join_inj [OF assms(2) [unfolded page_path_def]
         page_name_shape(2,3) [OF assms(1)] page_name_shape(2,3) [OF assms(1)]]
  have "base @ ''_page_'' @ zero_pad 3 (k + i + 1) @ ''.png''
        = base @ ''_page_'' @ zero_pad 3 (k' + j + 1) @ ''.png''" .
  then have "zero_pad 3 (k + i + 1) @ ''.png'' = zero_pad 3 (k' + j + 1) @ ''.png''" by simp
  then have "zero_pad 3 (k + i + 1) = zero_pad 3 (k' + j + 1)" by (simp only: append_same_eq)
  then have "k + i + 1 = k' + j + 1" by (rule zero_pad_inj)
  then show ?thesis by simp
qed

lemma page_path_under:
  assumes "CHR ''/'' \<notin> set base" and "d \<noteq> []" "last d \<noteq> CHR ''/''"
  shows "path_under d (page_path base d k i)"
proof -
  have "page_path base d k i = d @ ''/'' @ (base @ ''_page_'' @ zero_pad 3 (k + i + 1) @ ''.png'')"
    using assms page_name_shape(3) [OF assms(1), of "k + i + 1"]
    by (simp add: page_path_def path_join_def)
  then show ?thesis by (simp add: path_under_def)
qed

lemma basename_page_path:
  assumes "CHR ''/'' \<notin> set base"
  shows "basename (page_path base d k i) = base @ ''_page_'' @ zero_pad 3 (k + i + 1) @ ''.png''"
  unfolding page_path_def
  by (rule basename_path_join [OF page_name_shape(1,2) [OF assms]])

text \<open>The loop that saves the pages, and the loop that fills the archive.\<close>

lemma save_pages_Cons:
  "save_pages base d (page # rest) k st acc =
     save_pages base d rest (Suc k)
       (logging_info (write_file st (page_path base d k 0) (PagePNG page))
          (''Converted page '' @ str_nat (Suc k) @ '' to PNG: '' @ page_path base d k 0))
       (acc @ [page_path base d k 0])"
  by (simp add: Let_def page_path_def)

lemma page_path_Suc: "page_path base d k (Suc i) = page_path base d (Suc k) i"
  by (simp add: page_path_def)

lemma save_pages_paths:
  "snd (save_pages base d pages k st acc) = acc @ map (page_path base d k) [0..<length pages]"
proof (induction pages arbitrary: k st acc)
  case Nil
  show ?case by simp
next
  case (Cons page rest)
  have len: "length (page # rest) = Suc (length rest)" by simp
  have "map (page_path base d k) [0..<length (page # rest)]
        = page_path base d k 0 # map (\<lambda>i. page_path base d k (Suc i)) [0..<length rest]"
    unfolding len by (rule map_upt_Suc)
  also have "\<dots> = page_path base d k 0 # map (page_path base d (Suc k)) [0..<length rest]"
    by (simp only: page_path_Suc)
  finally have m: "map (page_path base d k) [0..<length (page # rest)]
        = page_path base d k 0 # map (page_path base d (Suc k)) [0..<length rest]" .
  show ?case
    unfolding save_pages_Cons Cons.IH m by simp
qed

lemma save_pages_other:
  assumes "\<forall>i < length pages. q \<noteq> page_path base d k i"
  shows "files (fst (save_pages base d pages k st acc)) q = files st q"
  using assms
proof (induction pages arbitrary: k st acc)
  case Nil
  show ?case by simp
next
  case (Cons page rest)
  have q0: "q \<noteq> page_path base d k 0"
    using Cons.prems [rule_format, of 0] by simp
  have rest: "\<forall>i < length rest. q \<noteq> page_path base d (Suc k) i"
  proof (intro allI impI)
    fix i assume "i < length rest"
    then have "q \<noteq> page_path base d k (Suc i)" using Cons.prems by simp
    then show "q \<noteq> page_path base d (Suc k) i" by (simp add: page_path_Suc)
  qed
  show ?case
    unfolding save_pages_Cons Cons.IH [OF rest] using q0 by simp
qed

lemma save_pages_written:
  assumes "CHR ''/'' \<notin> set base" and "i < length pages"
  shows "files (fst (save_pages base d pages k st acc)) (page_path base d k i) = Some (PagePNG (pages ! i))"
  using assms(2)
proof (induction pages arbitrary: k st acc i)
  case Nil
  then show ?case by simp
next
  case (Cons page rest)
  show ?case
  proof (cases i)
    case 0
    have later: "\<forall>j < length rest. page_path base d k 0 \<noteq> page_path base d (Suc k) j"
    proof (intro allI impI notI)
      fix j assume "page_path base d k 0 = page_path base d (Suc k) j"
      from page_path_inj [OF assms(1) this] show False by simp
    qed
    show ?thesis
      unfolding save_pages_Cons 0 save_pages_other [OF later] by simp
  next
    case (Suc i')
    then have lt: "i' < length rest" using Cons.prems by simp
    show ?thesis
      unfolding save_pages_Cons Suc page_path_Suc Cons.IH [OF lt] by simp
  qed
qed

lemma zip_write_all_present:
  assumes "\<forall>p \<in> set ps. files st p \<noteq> None"
  shows "zip_write_all st ps acc = (acc @ map (\<lambda>p. (basename p, the (files st p))) ps, None)"
  using assms by (induction ps arbitrary: acc) auto

lemma PDFToPNGConverter_convert_pages:
  fixes w :: world and st :: state and input_path output_dir :: string
  assumes input: "files st input_path = Some (PDF pages)"
  defines "base \<equiv> base_name_of input_path"
  defines "png_dir \<equiv> path_join output_dir (base_name_of input_path @ ''_pages'')"
  defines "zip_path \<equiv> path_join output_dir (base_name_of input_path @ ''_pages.zip'')"
  defines "st' \<equiv> fst (PDFToPNGConverter_convert w st input_path output_dir)"
  shows "snd (PDFToPNGConverter_convert w st input_path output_dir) = Inr zip_path"
    and "files st' zip_path =
           Some (ZIP (map (\<lambda>i. (base @ ''_page_'' @ zero_pad 3 (i + 1) @ ''.png'', PagePNG (pages ! i)))
                          [0..<length pages]))"
    and "path_under png_dir p \<Longrightarrow> files st' p = None"
    and "\<not> path_under png_dir p \<Longrightarrow> p \<noteq> zip_path \<Longrightarrow> files st' p = files st p"
proof -
  have ns: "CHR ''/'' \<notin> set base" unfolding base_def by (rule base_name_no_slash)
  have dir_ne: "png_dir \<noteq> []" and dir_last: "last png_dir \<noteq> CHR ''/''"
    and zip_eq: "zip_path = png_dir @ ''.zip''"
    using pages_dir_shape [OF ns, of output_dir] by (simp_all add: png_dir_def zip_path_def base_def)
  obtain st1 png_files where sp: "save_pages base png_dir pages 0 st [] = (st1, png_files)"
    by (cases "save_pages base png_dir pages 0 st []")
  have paths: "png_files = map (page_path base png_dir 0) [0..<length pages]"
    using save_pages_paths [of base png_dir pages 0 st "[]"] sp by simp
  have written: "\<And>i. i < length pages \<Longrightarrow>
      files st1 (page_path base png_dir 0 i) = Some (PagePNG (pages ! i))"
    using save_pages_written [OF ns, of _ pages png_dir 0 st "[]"] sp by simp
  have other: "\<And>q. \<forall>i < length pages. q \<noteq> page_path base png_dir 0 i \<Longrightarrow> files st1 q = files st q"
    using save_pages_other [of pages _ base png_dir 0 st "[]"] sp by simp
  have present: "\<forall>q \<in> set png_files. files st1 q \<noteq> None"
    using written by (auto simp: paths)
  have "map (\<lambda>q. (basename q, the (files st1 q))) png_files
        = map (\<lambda>i. (basename (page_path base png_dir 0 i), the (files st1 (page_path base png_dir 0 i))))
              [0..<length pages]"
    by (simp add: paths comp_def)
  also have "\<dots> = map (\<lambda>i. (base @ ''_page_'' @ zero_pad 3 (i + 1) @ ''.png'', PagePNG (pages ! i)))
                       [0..<length pages]"
    by (rule map_cong) (simp_all add: basename_page_path [OF ns] written)
  finally have entries: "map (\<lambda>q. (basename q, the (files st1 q))) png_files
        = map (\<lambda>i. (base @ ''_page_'' @ zero_pad 3 (i + 1) @ ''.png'', PagePNG (pages ! i)))
              [0..<length pages]" .
  have zw: "zip_write_all st1 png_files []
            = (map (\<lambda>i. (base @ ''_page_'' @ zero_pad 3 (i + 1) @ ''.png'', PagePNG (pages ! i)))
                   [0..<length pages], None)"
    using zip_write_all_present [OF present, of "[]"] entries by simp
  have op: "fitz_open w st input_path = Inr pages" using input by (simp add: fitz_open_def)
  have conv: "PDFToPNGConverter_convert w st input_path output_dir =
     (logging_info
        (logging_info
           (rmtree (write_file st1 zip_path
                      (ZIP (map (\<lambda>i. (base @ ''_page_'' @ zero_pad 3 (i + 1) @ ''.png'', PagePNG (pages ! i)))
                                [0..<length pages])))
                   png_dir)
           (''Successfully converted PDF to PNG files (ZIP): '' @ zip_path))
        (''Total pages converted: '' @ str_nat (length png_files)),
      Inr zip_path)"
    unfolding PDFToPNGConverter_convert_def op Let_def
    by (simp add: sp [unfolded base_def png_dir_def] zw [unfolded base_def]
          zip_path_def png_dir_def base_def)
  have zip_out: "\<not> path_under png_dir zip_path"
    using dir_ne dir_last by (simp add: path_under_def zip_eq)
  show "snd (PDFToPNGConverter_convert w st input_path output_dir) = Inr zip_path"
    by (simp add: conv)
  show "files st' zip_path =
           Some (ZIP (map (\<lambda>i. (base @ ''_page_'' @ zero_pad 3 (i + 1) @ ''.png'', PagePNG (pages ! i)))
                          [0..<length pages]))"
    using zip_out by (simp add: st'_def conv)
  show "path_under png_dir p \<Longrightarrow> files st' p = None"
    by (simp add: st'_def conv)
  show "\<not> path_under png_dir p \<Longrightarrow> p \<noteq> zip_path \<Longrightarrow> files st' p = files st p"
  proof -
    assume nu: "\<not> path_under png_dir p" and nz: "p \<noteq> zip_path"
    have "\<forall>i < length pages. p \<noteq> page_path base png_dir 0 i"
      using nu page_path_under [OF ns dir_ne dir_last] by auto
    then have "files st1 p = files st p" by (rule other)
    then show "files st' p = files st p" using nu nz by (simp add: st'_def conv)
  qed
qed


text \<open>
  C6.  For an input that holds a PDF of N pages, the PDF-to-PNG conversion returns
  the path of \<open><base>_pages.zip\<close> in the output directory; that archive holds
  exactly N entries, the entry for page \<open>i\<close> (counted from 1) being the PNG of that
  page under the name \<open><base>_page_<i, three digits>.png\<close>; nothing is left in or
  below the directory \<open><base>_pages\<close> where the page images were written; and every
  other file is as it was before.
\<close>

theorem pdf_to_png_spec:
  assumes "files st input_path = Some (PDF pages)"
  shows "snd (PDFToPNGConverter_convert w st input_path output_dir)
           = Inr (path_join output_dir (base_name_of input_path @ ''_pages.zip''))
       \<and> files (fst (PDFToPNGConverter_convert w st input_path output_dir))
             (path_join output_dir (base_name_of input_path @ ''_pages.zip''))
           = Some (ZIP (map (\<lambda>i. (base_name_of input_path @ ''_page_'' @ zero_pad 3 (i + 1) @ ''.png'',
                                    PagePNG (pages ! i)))
                            [0..<length pages]))
       \<and> (\<forall>p. path_under (path_join output_dir (base_name_of input_path @ ''_pages'')) p \<longrightarrow>
              files (fst (PDFToPNGConverter_convert w st input_path output_dir)) p = None)
       \<and> (\<forall>p. \<not> path_under (path_join output_dir (base_name_of input_path @ ''_pages'')) p
              \<and> p \<noteq> path_join output_dir (base_name_of input_path @ ''_pages.zip'') \<longrightarrow>
              files (fst (PDFToPNGConverter_convert w st input_path output_dir)) p = files st p)"
proof (intro conjI allI impI)
  show "snd (PDFToPNGConverter_convert w st input_path output_dir)
           = Inr (path_join output_dir (base_name_of input_path @ ''_pages.zip''))"
    by (rule PDFToPNGConverter_convert_pages(1) [OF assms])
  show "files (fst (PDFToPNGConverter_convert w st input_path output_dir))
             (path_join output_dir (base_name_of input_path @ ''_pages.zip''))
           = Some (ZIP (map (\<lambda>i. (base_name_of input_path @ ''_page_'' @ zero_pad 3 (i + 1) @ ''.png'',
                                    PagePNG (pages ! i)))
                            [0..<length pages]))"
    by (rule PDFToPNGConverter_convert_pages(2) [OF assms])
next
  fix p
  assume "path_under (path_join output_dir (base_name_of input_path @ ''_pages'')) p"
  then show "files (fst (PDFToPNGConverter_convert w st input_path output_dir)) p = None"
    by (rule PDFToPNGConverter_convert_pages(3) [OF assms])
next
  fix p
  assume a: "\<not> path_under (path_join output_dir (base_name_of input_path @ ''_pages'')) p
              \<and> p \<noteq> path_join output_dir (base_name_of input_path @ ''_pages.zip'')"
  show "files (fst (PDFToPNGConverter_convert w st input_path output_dir)) p = files st p"
    by (rule PDFToPNGConverter_convert_pages(4) [OF assms a [THEN conjunct1] a [THEN conjunct2]])
qed

text \<open>The result at work on a report of three pages.\<close>

theorem pdf_to_png_spec_witness:
  "snd (PDFToPNGConverter_convert sample_world report_state ''/tmp/job/report.pdf'' ''/tmp/job'')
     = Inr ''/tmp/job/report_pages.zip''
   \<and> files (fst (PDFToPNGConverter_convert sample_world report_state ''/tmp/job/report.pdf'' ''/tmp/job''))
        ''/tmp/job/report_pages.zip''
     = Some (ZIP [(''report_page_001.png'', PagePNG (Page ''r1'')),
                  (''report_page_002.png'', PagePNG (Page ''r2'')),
                  (''report_page_003.png'', PagePNG (Page ''r3''))])
   \<and> files (fst (PDFToPNGConverter_convert sample_world report_state ''/tmp/job/report.pdf'' ''/tmp/job''))
        ''/tmp/job/report_pages/report_page_001.png'' = None
   \<and> files (fst (PDFToPNGConverter_convert sample_world report_state ''/tmp/job/report.pdf'' ''/tmp/job''))
        ''/tmp/job/report.pdf'' = Some (PDF [Page ''r1'', Page ''r2'', Page ''r3''])"
proof -
  have input: "files report_state ''/tmp/job/report.pdf'' = Some (PDF [Page ''r1'', Page ''r2'', Page ''r3''])"
    by (simp add: report_state_def)
  have base: "base_name_of ''/tmp/job/report.pdf'' = ''report''"
    by (simp add: base_name_of_def splitext_def basename_def rfind_def)
  have out: "path_join ''/tmp/job'' ''report_pages.zip'' = ''/tmp/job/report_pages.zip''"
            "path_join ''/tmp/job'' ''report_pages'' = ''/tmp/job/report_pages''"
    by (simp_all add: path_join_def)
  have idx: "[0..<length [Page ''r1'', Page ''r2'', Page ''r3'']] = [0, 1, 2]"
    by (simp add: upt_rec)
  have pad: "zero_pad 3 (Suc 0) = ''001''" "zero_pad 3 (Suc (Suc 0)) = ''002''"
            "zero_pad 3 (Suc (Suc (Suc 0))) = ''003''"
    by (simp_all add: zero_pad_def str_nat.simps digit_char_def numeral_2_eq_2 numeral_3_eq_3)
  have inside: "path_under ''/tmp/job/report_pages'' ''/tmp/job/report_pages/report_page_001.png''"
    by (simp add: path_under_def)
  have outside: "\<not> path_under ''/tmp/job/report_pages'' ''/tmp/job/report.pdf''
                 \<and> ''/tmp/job/report.pdf'' \<noteq> ''/tmp/job/report_pages.zip''"
    by (simp add: path_under_def)
  note spec = pdf_to_png_spec [OF input, of sample_world "''/tmp/job''"]
  from spec have r1: "snd (PDFToPNGConverter_convert sample_world report_state ''/tmp/job/report.pdf'' ''/tmp/job'')
     = Inr ''/tmp/job/report_pages.zip''"
    by (simp add: base out)
  from spec have r2: "files (fst (PDFToPNGConverter_convert sample_world report_state ''/tmp/job/report.pdf'' ''/tmp/job''))
        ''/tmp/job/report_pages.zip''
     = Some (ZIP [(''report_page_001.png'', PagePNG (Page ''r1'')),
                  (''report_page_002.png'', PagePNG (Page ''r2'')),
                  (''report_page_003.png'', PagePNG (Page ''r3''))])"
    by (simp add: base out idx pad)
  from spec inside have r3: "files (fst (PDFToPNGConverter_convert sample_world report_state ''/tmp/job/report.pdf'' ''/tmp/job''))
        ''/tmp/job/report_pages/report_page_001.png'' = None"
    by (simp add: base out)
  from spec outside input have r4: "files (fst (PDFToPNGConverter_convert sample_world report_state ''/tmp/job/report.pdf'' ''/tmp/job''))
        ''/tmp/job/report.pdf'' = Some (PDF [Page ''r1'', Page ''r2'', Page ''r3''])"
    by (simp add: base out)
  from r1 r2 r3 r4 show ?thesis by simp
qed

section \<open>Names of the outputs\<close>

text \<open>What each converter returns when it returns.\<close>

lemma PNGToJPGConverter_returns:
  "snd (PNGToJPGConverter_convert w st input_path output_dir) = Inr p \<Longrightarrow>
   p = path_join output_dir (base_name_of input_path @ ''.jpg'')"
  by (auto simp: PNGToJPGConverter_convert_def failed_def Let_def
        split: sum.splits option.splits prod.splits if_splits exn.splits)

lemma MP4ToMP3Converter_returns:
  "snd (MP4ToMP3Converter_convert w st input_path output_dir) = Inr p \<Longrightarrow>
   p = path_join output_dir (base_name_of input_path @ ''.mp3'')"
  by (auto simp: MP4ToMP3Converter_convert_def failed_def Let_def
        split: sum.splits option.splits prod.splits if_splits exn.splits)

lemma DOCXToPDFConverter_returns:
  "snd (DOCXToPDFConverter_convert w st input_path output_dir) = Inr p \<Longrightarrow>
   p = path_join output_dir (base_name_of input_path @ ''.pdf'')"
  by (auto simp: DOCXToPDFConverter_convert_def failed_def Let_def
        split: sum.splits option.splits prod.splits if_splits exn.splits)

lemma DOCToPDFConverter_returns:
  "snd (DOCToPDFConverter_convert w st input_path output_dir) = Inr p \<Longrightarrow>
   p = path_join output_dir (base_name_of input_path @ ''.pdf'')"
  by (auto simp: DOCToPDFConverter_convert_def failed_def Let_def
        split: sum.splits option.splits prod.splits if_splits exn.splits)

lemma EPUBToPDFConverter_returns:
  "snd (EPUBToPDFConverter_convert w st input_path output_dir) = Inr p \<Longrightarrow>
   p = path_join output_dir (base_name_of input_path @ ''.pdf'')"
  by (auto simp: EPUBToPDFConverter_convert_def failed_def Let_def
        split: sum.splits option.splits prod.splits if_splits exn.splits)

lemma JPGToPDFConverter_returns:
  "snd (JPGToPDFConverter_convert w st input_path output_dir) = Inr p \<Longrightarrow>
   p = path_join output_dir (base_name_of input_path @ ''.pdf'')"
  by (auto simp: JPGToPDFConverter_convert_def failed_def Let_def
        split: sum.splits option.splits prod.splits if_splits exn.splits)

lemma PDFToDOCXConverter_returns:
  "snd (PDFToDOCXConverter_convert w st input_path output_dir) = Inr p \<Longrightarrow>
   p = path_join output_dir (base_name_of input_path @ ''.docx'')"
  by (auto simp: PDFToDOCXConverter_convert_def failed_def Let_def
        split: sum.splits option.splits prod.splits if_splits exn.splits)

lemma XLSXToPDFConverter_returns:
  "snd (XLSXToPDFConverter_convert w st input_path output_dir) = Inr p \<Longrightarrow>
   p = path_join output_dir (base_name_of input_path @ ''.pdf'')"
  by (auto simp: XLSXToPDFConverter_convert_def failed_def Let_def
        split: sum.splits option.splits prod.splits if_splits exn.splits)

lemma PPTXToPDFConverter_returns:
  "snd (PPTXToPDFConverter_convert w st input_path output_dir) = Inr p \<Longrightarrow>
   p = path_join output_dir (base_name_of input_path @ ''.pdf'')"
  by (auto simp: PPTXToPDFConverter_convert_def failed_def Let_def
        split: sum.splits option.splits prod.splits if_splits exn.splits)

lemma PDFToTXTConverter_returns:
  "snd (PDFToTXTConverter_convert w st input_path output_dir) = Inr p \<Longrightarrow>
   p = path_join output_dir (base_name_of input_path @ ''.txt'')"
  by (auto simp: PDFToTXTConverter_convert_def failed_def Let_def
        split: sum.splits option.splits prod.splits if_splits exn.splits)

lemma XLSXToCSVConverter_returns:
  "snd (XLSXToCSVConverter_convert w st input_path output_dir) = Inr p \<Longrightarrow>
   p = path_join output_dir (base_name_of input_path @ ''.csv'')"
  by (auto simp: XLSXToCSVConverter_convert_def failed_def Let_def
        split: sum.splits option.splits prod.splits if_splits exn.splits)

lemma CSVToXLSXConverter_returns:
  "snd (CSVToXLSXConverter_convert w st input_path output_dir) = Inr p \<Longrightarrow>
   p = path_join output_dir (base_name_of input_path @ ''.xlsx'')"
  by (auto simp: CSVToXLSXConverter_convert_def failed_def Let_def
        split: sum.splits option.splits prod.splits if_splits exn.splits)

lemma CSVToPDFConverter_returns:
  "snd (CSVToPDFConverter_convert w st input_path output_dir) = Inr p \<Longrightarrow>
   p = path_join output_dir (base_name_of input_path @ ''.pdf'')"
  by (auto simp: CSVToPDFConverter_convert_def failed_def Let_def
        split: sum.splits option.splits prod.splits if_splits exn.splits)

lemma HTMLToPDFConverter_returns:
  "snd (HTMLToPDFConverter_convert w st input_path output_dir) = Inr p \<Longrightarrow>
   p = path_join output_dir (base_name_of input_path @ ''.pdf'')"
  by (auto simp: HTMLToPDFConverter_convert_def failed_def Let_def
        split: sum.splits option.splits prod.splits if_splits exn.splits)

lemma PDFToHTMLConverter_returns:
  "snd (PDFToHTMLConverter_convert w st input_path output_dir) = Inr p \<Longrightarrow>
   p = path_join output_dir (base_name_of input_path @ ''.html'')"
  by (auto simp: PDFToHTMLConverter_convert_def failed_def Let_def
        split: sum.splits option.splits prod.splits if_splits exn.splits)

lemma MP3ToWAVConverter_returns:
  "snd (MP3ToWAVConverter_convert w st input_path output_dir) = Inr p \<Longrightarrow>
   p = path_join output_dir (base_name_of input_path @ ''.wav'')"
  by (auto simp: MP3ToWAVConverter_convert_def failed_def Let_def
        split: sum.splits option.splits prod.splits if_splits exn.splits)

lemma WAVToMP3Converter_returns:
  "snd (WAVToMP3Converter_convert w st input_path output_dir) = Inr p \<Longrightarrow>
   p = path_join output_dir (base_name_of input_path @ ''.mp3'')"
  by (auto simp: WAVToMP3Converter_convert_def failed_def Let_def
        split: sum.splits option.splits prod.splits if_splits exn.splits)

lemma MP4ToAVIConverter_returns:
  "snd (MP4ToAVIConverter_convert w st input_path output_dir) = Inr p \<Longrightarrow>
   p = path_join output_dir (base_name_of input_path @ ''.avi'')"
  by (auto simp: MP4ToAVIConverter_convert_def failed_def Let_def
        split: sum.splits option.splits prod.splits if_splits exn.splits)

lemma AVIToMP4Converter_returns:
  "snd (AVIToMP4Converter_convert w st input_path output_dir) = Inr p \<Longrightarrow>
   p = path_join output_dir (base_name_of input_path @ ''.mp4'')"
  by (auto simp: AVIToMP4Converter_convert_def failed_def Let_def
        split: sum.splits option.splits prod.splits if_splits exn.splits)

lemma WEBPToJPGConverter_returns:
  "snd (WEBPToJPGConverter_convert w st input_path output_dir) = Inr p \<Longrightarrow>
   p = path_join output_dir (base_name_of input_path @ ''.jpg'')"
  by (auto simp: WEBPToJPGConverter_convert_def failed_def Let_def
        split: sum.splits option.splits prod.splits if_splits exn.splits)

lemma BMPToPNGConverter_returns:
  "snd (BMPToPNGConverter_convert w st input_path output_dir) = Inr p \<Longrightarrow>
   p = path_join output_dir (base_name_of input_path @ ''.png'')"
  by (auto simp: BMPToPNGConverter_convert_def failed_def Let_def
        split: sum.splits option.splits prod.splits if_splits exn.splits)

lemma JPGToWEBPConverter_returns:
  "snd (JPGToWEBPConverter_convert w st input_path output_dir) = Inr p \<Longrightarrow>
   p = path_join output_dir (base_name_of input_path @ ''.webp'')"
  by (auto simp: JPGToWEBPConverter_convert_def failed_def Let_def
        split: sum.splits option.splits prod.splits if_splits exn.splits)

lemma JPGToPNGConverter_returns:
  "snd (JPGToPNGConverter_convert w st input_path output_dir) = Inr p \<Longrightarrow>
   p = path_join output_dir (base_name_of input_path @ ''.png'')"
  by (auto simp: JPGToPNGConverter_convert_def failed_def Let_def
        split: sum.splits option.splits prod.splits if_splits exn.splits)

lemma MKVToMP4Converter_returns:
  "snd (MKVToMP4Converter_convert w st input_path output_dir) = Inr p \<Longrightarrow>
   p = path_join output_dir (base_name_of input_path @ ''.mp4'')"
  by (auto simp: MKVToMP4Converter_convert_def failed_def Let_def
        split: sum.splits option.splits prod.splits if_splits exn.splits)

lemma MP4ToWEBMConverter_returns:
  "snd (MP4ToWEBMConverter_convert w st input_path output_dir) = Inr p \<Longrightarrow>
   p = path_join output_dir (base_name_of input_path @ ''.webm'')"
  by (auto simp: MP4ToWEBMConverter_convert_def failed_def Let_def
        split: sum.splits option.splits prod.splits if_splits exn.splits)

lemma OGGToMP3Converter_returns:
  "snd (OGGToMP3Converter_convert w st input_path output_dir) = Inr p \<Longrightarrow>
   p = path_join output_dir (base_name_of input_path @ ''.mp3'')"
  by (auto simp: OGGToMP3Converter_convert_def failed_def Let_def
        split: sum.splits option.splits prod.splits if_splits exn.splits)

lemma TXTToPDFConverter_returns:
  "snd (TXTToPDFConverter_convert w st input_path output_dir) = Inr p \<Longrightarrow>
   p = path_join output_dir (base_name_of input_path @ ''.pdf'')"
  by (auto simp: TXTToPDFConverter_convert_def failed_def Let_def
        split: sum.splits option.splits prod.splits if_splits exn.splits)

lemma CompressPDFConverter_returns:
  "snd (CompressPDFConverter_convert w st input_path output_dir) = Inr p \<Longrightarrow>
   p = path_join output_dir (base_name_of input_path @ ''_compressed.pdf'')"
  by (auto simp: CompressPDFConverter_convert_def failed_def Let_def
        split: sum.splits option.splits prod.splits if_splits exn.splits)

lemma PDFToPNGConverter_returns:
  "snd (PDFToPNGConverter_convert w st input_path output_dir) = Inr p \<Longrightarrow>
   p = path_join output_dir (base_name_of input_path @ ''_pages.zip'')"
  by (auto simp: PDFToPNGConverter_convert_def failed_def Let_def
        split: sum.splits option.splits prod.splits if_splits exn.splits)

lemma MergePDFsConverter_returns:
  "snd (MergePDFsConverter_convert w st input_paths output_dir) = Inr p \<Longrightarrow>
   p = path_join output_dir ''merged_document.pdf''"
  by (auto simp: MergePDFsConverter_convert_def failed_def Let_def split: prod.splits if_splits)

lemma MergeImagesConverter_returns:
  "snd (MergeImagesConverter_convert w st input_paths output_dir) = Inr p \<Longrightarrow>
   p = path_join output_dir ''merged_images.pdf''"
  by (auto simp: MergeImagesConverter_convert_def failed_def Let_def split: prod.splits if_splits)

text \<open>
  Against C7 as it is stated: \<open>compress_pdf\<close> is a single-input conversion and no
  merge or raster export, and it names its output \<open>report_compressed.pdf\<close>, not
  \<open>report.pdf\<close>.
\<close>

theorem compress_pdf_counterexample:
  "(''compress_pdf'', CompressPDFConverter) \<in> set converters_items
   \<and> snd (convert CompressPDFConverter sample_world report_state ''/tmp/job/report.pdf'' ''/tmp/job'')
       = Inr ''/tmp/job/report_compressed.pdf''
   \<and> ''/tmp/job/report_compressed.pdf''
       \<noteq> path_join ''/tmp/job'' (base_name_of ''/tmp/job/report.pdf'' @ ''.pdf'')"
proof -
  have base: "base_name_of ''/tmp/job/report.pdf'' = ''report''"
    by (simp add: base_name_of_def splitext_def basename_def rfind_def)
  have out: "path_join ''/tmp/job'' ''report_compressed.pdf'' = ''/tmp/job/report_compressed.pdf''"
            "path_join ''/tmp/job'' ''report.pdf'' = ''/tmp/job/report.pdf''"
    by (simp_all add: path_join_def)
  show ?thesis
    by (simp add: converters_items_def CompressPDFConverter_convert_def fitz_open_def report_state_def
          base out Let_def)
qed

text \<open>
  C7, amended.  A conversion that returns, returns the path, in the output
  directory, of: the base name of the input followed by a dot and the target extension
  (the part of the conversion type after its last underscore) for every registered
  type but four; the base name followed by \<open>_compressed.pdf\<close> for \<open>compress_pdf\<close>; the
  base name followed by \<open>_pages.zip\<close> for \<open>pdf_to_png\<close>; and the fixed names
  \<open>merged_document.pdf\<close> and \<open>merged_images.pdf\<close> for the two merges, whatever the
  list of inputs.
\<close>

theorem output_names:
  assumes reg: "(ct, c) \<in> set converters_items"
      and ok: "snd (convert c w st input_path output_dir) = Inr output_path"
  shows "(ct \<notin> {''compress_pdf'', ''pdf_to_png'', ''merge_pdfs'', ''merge_images''} \<longrightarrow>
            output_path = path_join output_dir
                            (base_name_of input_path @ ''.'' @ after_last (CHR ''_'') ct))
       \<and> (ct = ''compress_pdf'' \<longrightarrow>
            output_path = path_join output_dir (base_name_of input_path @ ''_compressed.pdf''))
       \<and> (ct = ''pdf_to_png'' \<longrightarrow>
            output_path = path_join output_dir (base_name_of input_path @ ''_pages.zip''))
       \<and> (ct = ''merge_pdfs'' \<longrightarrow> output_path = path_join output_dir ''merged_document.pdf'')
       \<and> (ct = ''merge_images'' \<longrightarrow> output_path = path_join output_dir ''merged_images.pdf'')
       \<and> (\<forall>input_paths p.
             snd (MergePDFsConverter_convert w st input_paths output_dir) = Inr p \<longrightarrow>
             p = path_join output_dir ''merged_document.pdf'')
       \<and> (\<forall>input_paths p.
             snd (MergeImagesConverter_convert w st input_paths output_dir) = Inr p \<longrightarrow>
             p = path_join output_dir ''merged_images.pdf'')"
proof -
  have merges:
    "\<forall>input_paths p.
             snd (MergePDFsConverter_convert w st input_paths output_dir) = Inr p \<longrightarrow>
             p = path_join output_dir ''merged_document.pdf''"
    "\<forall>input_paths p.
             snd (MergeImagesConverter_convert w st input_paths output_dir) = Inr p \<longrightarrow>
             p = path_join output_dir ''merged_images.pdf''"
    by (intro allI impI, erule MergePDFsConverter_returns)
       (intro allI impI, erule MergeImagesConverter_returns)
  have single:
    "(ct \<notin> {''compress_pdf'', ''pdf_to_png'', ''merge_pdfs'', ''merge_images''} \<longrightarrow>
            output_path = path_join output_dir
                            (base_name_of input_path @ ''.'' @ after_last (CHR ''_'') ct))
       \<and> (ct = ''compress_pdf'' \<longrightarrow>
            output_path = path_join output_dir (base_name_of input_path @ ''_compressed.pdf''))
       \<and> (ct = ''pdf_to_png'' \<longrightarrow>
            output_path = path_join output_dir (base_name_of input_path @ ''_pages.zip''))
       \<and> (ct = ''merge_pdfs'' \<longrightarrow> output_path = path_join output_dir ''merged_document.pdf'')
       \<and> (ct = ''merge_images'' \<longrightarrow> output_path = path_join output_dir ''merged_images.pdf'')"
    using reg ok unfolding converters_items_def
    apply (simp only: list.set insert_iff empty_iff prod.inject)
    apply (elim disjE conjE FalseE)
    subgoal by (simp add: after_last_def, erule PDFToDOCXConverter_returns)
    subgoal by (simp add: after_last_def, erule DOCXToPDFConverter_returns)
    subgoal by (simp add: after_last_def, erule DOCToPDFConverter_returns)
    subgoal by (simp add: after_last_def, erule PPTXToPDFConverter_returns)
    subgoal by (simp add: after_last_def, erule PDFToTXTConverter_returns)
    subgoal by (simp add: after_last_def, erule TXTToPDFConverter_returns)
    subgoal by (simp add: after_last_def, erule XLSXToCSVConverter_returns)
    subgoal by (simp add: after_last_def, erule CSVToXLSXConverter_returns)
    subgoal by (simp add: after_last_def, erule XLSXToPDFConverter_returns)
    subgoal by (simp add: after_last_def, erule CSVToPDFConverter_returns)
    subgoal by (simp add: after_last_def, erule HTMLToPDFConverter_returns)
    subgoal by (simp add: after_last_def, erule EPUBToPDFConverter_returns)
    subgoal by (simp add: after_last_def, erule PDFToHTMLConverter_returns)
    subgoal by (simp add: after_last_def, erule JPGToPNGConverter_returns)
    subgoal by (simp add: after_last_def, erule PNGToJPGConverter_returns)
    subgoal by (simp add: after_last_def, erule WEBPToJPGConverter_returns)
    subgoal by (simp add: after_last_def, erule JPGToWEBPConverter_returns)
    subgoal by (simp add: after_last_def, erule JPGToPDFConverter_returns)
    subgoal by (simp add: after_last_def, erule PDFToPNGConverter_returns)
    subgoal by (simp add: after_last_def, erule BMPToPNGConverter_returns)
    subgoal by (simp add: after_last_def, erule MP3ToWAVConverter_returns)
    subgoal by (simp add: after_last_def, erule WAVToMP3Converter_returns)
    subgoal by (simp add: after_last_def, erule MP4ToMP3Converter_returns)
    subgoal by (simp add: after_last_def, erule OGGToMP3Converter_returns)
    subgoal by (simp add: after_last_def, erule MP4ToAVIConverter_returns)
    subgoal by (simp add: after_last_def, erule AVIToMP4Converter_returns)
    subgoal by (simp add: after_last_def, erule MKVToMP4Converter_returns)
    subgoal by (simp add: after_last_def, erule MP4ToWEBMConverter_returns)
    subgoal by (simp add: after_last_def, erule CompressPDFConverter_returns)
    subgoal by (simp add: after_last_def, erule MergePDFsConverter_returns)
    subgoal by (simp add: after_last_def, erule MergeImagesConverter_returns)
    done
  show ?thesis
    apply (intro conjI)
    apply (rule single [THEN conjunct1])
    apply (rule single [THEN conjunct2, THEN conjunct1])
    apply (rule single [THEN conjunct2, THEN conjunct2, THEN conjunct1])
    apply (rule single [THEN conjunct2, THEN conjunct2, THEN conjunct2, THEN conjunct1])
    apply (rule single [THEN conjunct2, THEN conjunct2, THEN conjunct2, THEN conjunct2])
    apply (rule merges(1))
    apply (rule merges(2))
    done
qed

text \<open>The amended claim at work on \<open>png_to_jpg\<close>.\<close>

theorem output_names_witness:
  "snd (convert PNGToJPGConverter sample_world alpha_state ''/tmp/job/logo.png'' ''/tmp/job'')
     = Inr ''/tmp/job/logo.jpg''
   \<and> ''/tmp/job/logo.jpg''
     = path_join ''/tmp/job'' (base_name_of ''/tmp/job/logo.png'' @ ''.'' @ after_last (CHR ''_'') ''png_to_jpg'')"
proof -
  have reg: "(''png_to_jpg'', PNGToJPGConverter) \<in> set converters_items"
    by (simp add: converters_items_def)
  have base: "base_name_of ''/tmp/job/logo.png'' = ''logo''"
    by (simp add: base_name_of_def splitext_def basename_def rfind_def)
  have out: "path_join ''/tmp/job'' ''logo.jpg'' = ''/tmp/job/logo.jpg''"
    by (simp add: path_join_def)
  have ok: "snd (convert PNGToJPGConverter sample_world alpha_state ''/tmp/job/logo.png'' ''/tmp/job'')
     = Inr ''/tmp/job/logo.jpg''"
    by (simp add: PNGToJPGConverter_convert_def Image_open_def alpha_state_def base out Let_def)
  from output_names [OF reg ok] ok show ?thesis by simp
qed

section \<open>Empty text and documents\<close>

lemma strip_blank: "(\<forall>c \<in> set s. isspace c) \<Longrightarrow> strip s = []"
  by (auto simp: strip_def dropWhile_eq_Nil_conv dest: set_dropWhileD)

lemma strip_empty_iff: "strip s = [] \<longleftrightarrow> (\<forall>c \<in> set s. isspace c)"
proof
  assume "strip s = []"
  then have "dropWhile isspace (rev (dropWhile isspace s)) = []"
    by (simp add: strip_def)
  then have all: "\<forall>c \<in> set (dropWhile isspace s). isspace c"
    by (simp add: dropWhile_eq_Nil_conv)
  show "\<forall>c \<in> set s. isspace c"
  proof (cases "dropWhile isspace s")
    case Nil
    then show ?thesis by (simp add: dropWhile_eq_Nil_conv)
  next
    case (Cons x xs)
    then have "\<not> isspace x" using hd_dropWhile [of isspace s] by simp
    moreover have "isspace x" using all Cons by simp
    ultimately show ?thesis by simp
  qed
qed (rule strip_blank)

lemma set_join_with: "set (join_with sep xs) \<subseteq> set sep \<union> \<Union> (set ` set xs)"
  by (induction sep xs rule: join_with.induct) auto

lemma isspace_newline: "isspace (CHR 0x0A)"
  by (simp add: isspace_def)

lemma join_blank:
  assumes "\<forall>p \<in> set paragraphs. \<forall>c \<in> set p. isspace c"
  shows "\<forall>c \<in> set (join_with [CHR 0x0A] paragraphs). isspace c"
  using assms set_join_with [of "[CHR 0x0A]" paragraphs] isspace_newline by auto

text \<open>
  C9.  A text file that holds only whitespace makes the text-to-PDF conversion raise
  \<open>Text conversion failed: Text file appears to be empty\<close>, and a DOCX whose
  paragraphs hold only whitespace makes the DOCX-to-PDF conversion raise
  \<open>Document conversion failed: Document appears to be empty\<close>; in both cases the
  only effect is the error record in the log, so no output file is written.
\<close>

theorem empty_content_rejected:
  "(files st input_path = Some (Text content) \<and> (\<forall>c \<in> set content. isspace c) \<longrightarrow>
      TXTToPDFConverter_convert w st input_path output_dir
        = (logging_error st ''TXT to PDF conversion failed: Text file appears to be empty'',
           Inl (Exception ''Text conversion failed: Text file appears to be empty''))
      \<and> files (fst (TXTToPDFConverter_convert w st input_path output_dir)) = files st)
 \<and> (files st input_path = Some (DOCX paragraphs)
      \<and> (\<forall>p \<in> set paragraphs. \<forall>c \<in> set p. isspace c) \<longrightarrow>
      DOCXToPDFConverter_convert w st input_path output_dir
        = (logging_error st ''DOCX to PDF conversion failed: Document appears to be empty'',
           Inl (Exception ''Document conversion failed: Document appears to be empty''))
      \<and> files (fst (DOCXToPDFConverter_convert w st input_path output_dir)) = files st)"
proof (intro conjI impI)
  assume a: "files st input_path = Some (Text content) \<and> (\<forall>c \<in> set content. isspace c)"
  then have s: "strip content = []" by (simp add: strip_blank)
  from a s show txt_eq: "TXTToPDFConverter_convert w st input_path output_dir
        = (logging_error st ''TXT to PDF conversion failed: Text file appears to be empty'',
           Inl (Exception ''Text conversion failed: Text file appears to be empty''))"
    by (simp add: TXTToPDFConverter_convert_def read_text_def failed_def)
  show "files (fst (TXTToPDFConverter_convert w st input_path output_dir)) = files st"
    by (simp add: txt_eq)
next
  assume a: "files st input_path = Some (DOCX paragraphs)
      \<and> (\<forall>p \<in> set paragraphs. \<forall>c \<in> set p. isspace c)"
  then have "\<forall>c \<in> set (join_with [CHR 0x0A] paragraphs). isspace c"
    by (intro join_blank) simp
  then have s: "strip (join_with [CHR 0x0A] paragraphs) = []"
    by (rule strip_blank)
  from a s show docx_eq: "DOCXToPDFConverter_convert w st input_path output_dir
        = (logging_error st ''DOCX to PDF conversion failed: Document appears to be empty'',
           Inl (Exception ''Document conversion failed: Document appears to be empty''))"
    by (simp add: DOCXToPDFConverter_convert_def Document_open_def failed_def)
  show "files (fst (DOCXToPDFConverter_convert w st input_path output_dir)) = files st"
    by (simp add: docx_eq)
qed

text \<open>
  The result at work on a text file and a DOCX whose blanks include the no-break
  space and the next-line control.
\<close>

theorem empty_content_rejected_witness:
  "snd (TXTToPDFConverter_convert sample_world blank_text_state ''/tmp/job/notes.txt'' ''/tmp/job'')
     = Inl (Exception ''Text conversion failed: Text file appears to be empty'')
   \<and> files (fst (TXTToPDFConverter_convert sample_world blank_text_state ''/tmp/job/notes.txt'' ''/tmp/job''))
     = files blank_text_state
   \<and> snd (DOCXToPDFConverter_convert sample_world blank_text_state ''/tmp/job/letter.docx'' ''/tmp/job'')
     = Inl (Exception ''Document conversion failed: Document appears to be empty'')
   \<and> files (fst (DOCXToPDFConverter_convert sample_world blank_text_state ''/tmp/job/letter.docx'' ''/tmp/job''))
     = files blank_text_state"
proof -
  have txt_in: "files blank_text_state ''/tmp/job/notes.txt'' = Some (Text [CHR 0x20, CHR 0xA0, CHR 0x0A, CHR 0x85, CHR 0x09])
             \<and> (\<forall>c \<in> set [CHR 0x20, CHR 0xA0, CHR 0x0A, CHR 0x85, CHR 0x09]. isspace c)"
    by (simp add: blank_text_state_def isspace_def)
  have docx_in: "files blank_text_state ''/tmp/job/letter.docx'' = Some (DOCX [[], [CHR 0x20, CHR 0xA0], [CHR 0x09]])
             \<and> (\<forall>p \<in> set [[], [CHR 0x20, CHR 0xA0], [CHR 0x09]]. \<forall>c \<in> set p. isspace c)"
    by (simp add: blank_text_state_def isspace_def)
  from empty_content_rejected [of blank_text_state "''/tmp/job/notes.txt''" "[CHR 0x20, CHR 0xA0, CHR 0x0A, CHR 0x85, CHR 0x09]"
         sample_world "''/tmp/job''" "[[], [CHR 0x20, CHR 0xA0], [CHR 0x09]]"]
       empty_content_rejected [of blank_text_state "''/tmp/job/letter.docx''" "[]"
         sample_world "''/tmp/job''" "[[], [CHR 0x20, CHR 0xA0], [CHR 0x09]]"]
       txt_in docx_in
  show ?thesis by simp
qed

text \<open>A text file with a word in it, for contrast, is converted.\<close>

lemma text_converted_example:
  "snd (TXTToPDFConverter_convert sample_world blank_text_state ''/tmp/job/hello.txt'' ''/tmp/job'')
     = Inr ''/tmp/job/hello.pdf''
   \<and> files (fst (TXTToPDFConverter_convert sample_world blank_text_state ''/tmp/job/hello.txt'' ''/tmp/job''))
        ''/tmp/job/hello.pdf'' = Some (TypesetPDF [Preformatted ''hello''])"
proof -
  have base: "base_name_of ''/tmp/job/hello.txt'' = ''hello''"
    by (simp add: base_name_of_def splitext_def basename_def rfind_def)
  have out: "path_join ''/tmp/job'' ''hello.pdf'' = ''/tmp/job/hello.pdf''"
    by (simp add: path_join_def)
  have s: "strip ''hello'' = ''hello''"
    by (simp add: strip_def isspace_def)
  show ?thesis
    by (simp add: TXTToPDFConverter_convert_def read_text_def blank_text_state_def sample_world_def
          base out s path_exists_def Let_def)
qed

section \<open>Merging a single input\<close>

lemma validate_pdfs_kept:
  "validate_pdfs xs acc = Inr r \<Longrightarrow> r = acc @ filter (\<lambda>f. filename f \<noteq> []) xs"
proof (induction xs arbitrary: acc)
  case Nil
  then show ?case by simp
next
  case (Cons x xs)
  show ?case
  proof (cases "filename x = []")
    case True
    then show ?thesis using Cons.IH [of acc] Cons.prems by simp
  next
    case False
    then show ?thesis using Cons.IH [of "acc @ [x]"] Cons.prems by (simp split: if_splits)
  qed
qed

lemma validate_images_kept:
  "validate_images xs acc = Inr r \<Longrightarrow> r = acc @ filter (\<lambda>f. filename f \<noteq> []) xs"
proof (induction xs arbitrary: acc)
  case Nil
  then show ?case by simp
next
  case (Cons x xs)
  show ?case
  proof (cases "filename x = []")
    case True
    then show ?thesis using Cons.IH [of acc] Cons.prems by simp
  next
    case False
    then show ?thesis
      using Cons.IH [of "acc @ [x]"] Cons.prems by (simp add: Let_def split: if_splits)
  qed
qed

lemma handle_pdf_merge_too_few:
  assumes "length (filter (\<lambda>f. filename f \<noteq> []) (files_list req)) < 2"
  shows "snd (handle_pdf_merge w req st) = Redirect_index
       \<and> invoked (fst (handle_pdf_merge w req st)) = invoked st
       \<and> files (fst (handle_pdf_merge w req st)) = files st"
proof (cases "validate_pdfs (files_list req) []")
  case (Inl bad)
  then show ?thesis by (simp add: handle_pdf_merge_def Let_def)
next
  case (Inr pdf_files)
  then have "length pdf_files < 2" using validate_pdfs_kept [OF Inr] assms by simp
  then show ?thesis using Inr by (simp add: handle_pdf_merge_def Let_def)
qed

lemma handle_image_merge_too_few:
  assumes "length (filter (\<lambda>f. filename f \<noteq> []) (files_list req)) < 2"
  shows "snd (handle_image_merge w req st) = Redirect_index
       \<and> invoked (fst (handle_image_merge w req st)) = invoked st
       \<and> files (fst (handle_image_merge w req st)) = files st"
proof (cases "validate_images (files_list req) []")
  case (Inl bad)
  then show ?thesis by (simp add: handle_image_merge_def Let_def)
next
  case (Inr image_files)
  then have "length image_files < 2" using validate_images_kept [OF Inr] assms by simp
  then show ?thesis using Inr by (simp add: handle_image_merge_def Let_def)
qed

text \<open>
  C10.  Both merge converters accept a list of one input.  Given one path that holds
  a PDF with at least one page, the PDF merge returns \<open>merged_document.pdf\<close> holding
  those pages; given one path that holds an image of positive width and height, the
  image merge returns \<open>merged_images.pdf\<close> holding the one image that comes out of
  the loop.  The web layer, for its part, answers a merge request with fewer than two
  named uploads by the redirect, without calling a converter.
\<close>

theorem merge_accepts_singleton:
  "(files st p = Some (PDF pages) \<and> pages \<noteq> [] \<longrightarrow>
      snd (MergePDFsConverter_convert w st [p] output_dir)
        = Inr (path_join output_dir ''merged_document.pdf'')
      \<and> files (fst (MergePDFsConverter_convert w st [p] output_dir))
           (path_join output_dir ''merged_document.pdf'') = Some (PDF pages))
 \<and> (files st p = Some (ImageFile fmt img0) \<and> 0 < img_width img0 \<and> 0 < img_height img0 \<longrightarrow>
      (\<exists>img. merge_image_step w st p = Inr img
         \<and> snd (MergeImagesConverter_convert w st [p] output_dir)
             = Inr (path_join output_dir ''merged_images.pdf'')
         \<and> files (fst (MergeImagesConverter_convert w st [p] output_dir))
             (path_join output_dir ''merged_images.pdf'') = Some (PDF [ImagePage img])))
 \<and> (length (filter (\<lambda>f. filename f \<noteq> []) (files_list req)) < 2 \<longrightarrow>
      snd (handle_pdf_merge w req st') = Redirect_index
      \<and> invoked (fst (handle_pdf_merge w req st')) = invoked st'
      \<and> snd (handle_image_merge w req st') = Redirect_index
      \<and> invoked (fst (handle_image_merge w req st')) = invoked st')"
proof (intro conjI impI)
  assume a: "files st p = Some (PDF pages) \<and> pages \<noteq> []"
  then have op: "fitz_open w st p = Inr pages" by (simp add: fitz_open_def)
  show "snd (MergePDFsConverter_convert w st [p] output_dir)
        = Inr (path_join output_dir ''merged_document.pdf'')"
    using a op by (simp add: MergePDFsConverter_convert_def Let_def)
  show "files (fst (MergePDFsConverter_convert w st [p] output_dir))
           (path_join output_dir ''merged_document.pdf'') = Some (PDF pages)"
    using a op by (simp add: MergePDFsConverter_convert_def Let_def)
next
  assume a: "files st p = Some (ImageFile fmt img0) \<and> 0 < img_width img0 \<and> 0 < img_height img0"
  then have op: "Image_open w st p = Inr img0" by (simp add: Image_open_def)
  have sz: "img_size img0 = (img_width img0, img_height img0)"
    by (simp add: img_width_def img_height_def)
  have pos: "0 < img_width img0" "0 < img_height img0" using a by simp_all
  from merge_image_step_sizes [OF op sz pos]
  obtain img where img: "merge_image_step w st p = Inr img" by blast
  show "\<exists>img. merge_image_step w st p = Inr img
         \<and> snd (MergeImagesConverter_convert w st [p] output_dir)
             = Inr (path_join output_dir ''merged_images.pdf'')
         \<and> files (fst (MergeImagesConverter_convert w st [p] output_dir))
             (path_join output_dir ''merged_images.pdf'') = Some (PDF [ImagePage img])"
    using img by (simp add: MergeImagesConverter_convert_def Let_def)
next
  assume a: "length (filter (\<lambda>f. filename f \<noteq> []) (files_list req)) < 2"
  show "snd (handle_pdf_merge w req st') = Redirect_index"
       "invoked (fst (handle_pdf_merge w req st')) = invoked st'"
    using handle_pdf_merge_too_few [OF a] by simp_all
  show "snd (handle_image_merge w req st') = Redirect_index"
       "invoked (fst (handle_image_merge w req st')) = invoked st'"
    using handle_image_merge_too_few [OF a] by simp_all
qed

text \<open>
  The result at work: one PDF of two pages, one image of 800 by 600, and a merge
  request that names a single upload.
\<close>

theorem merge_accepts_singleton_witness:
  "snd (MergePDFsConverter_convert sample_world merge_state [''/tmp/job/input_03_c.pdf''] ''/tmp/job'')
     = Inr ''/tmp/job/merged_document.pdf''
   \<and> files (fst (MergePDFsConverter_convert sample_world merge_state [''/tmp/job/input_03_c.pdf''] ''/tmp/job''))
        ''/tmp/job/merged_document.pdf'' = Some (PDF [Page ''c1'', Page ''c2''])
   \<and> snd (MergeImagesConverter_convert sample_world images_state [''/tmp/job/image_02_b.png''] ''/tmp/job'')
     = Inr ''/tmp/job/merged_images.pdf''
   \<and> files (fst (MergeImagesConverter_convert sample_world images_state [''/tmp/job/image_02_b.png''] ''/tmp/job''))
        ''/tmp/job/merged_images.pdf'' = Some (PDF [ImagePage (Convert (Decoded ''RGBA'' 800 600) ''RGB'')])
   \<and> snd (handle_pdf_merge sample_world single_upload_request empty_state) = Redirect_index
   \<and> invoked (fst (handle_pdf_merge sample_world single_upload_request empty_state)) = []"
proof -
  have pdf: "files merge_state ''/tmp/job/input_03_c.pdf'' = Some (PDF [Page ''c1'', Page ''c2''])
             \<and> [Page ''c1'', Page ''c2''] \<noteq> []"
    by (simp add: merge_state_def)
  have img: "files images_state ''/tmp/job/image_02_b.png'' = Some (ImageFile ''PNG'' (Decoded ''RGBA'' 800 600))
             \<and> 0 < img_width (Decoded ''RGBA'' 800 600) \<and> 0 < img_height (Decoded ''RGBA'' 800 600)"
    by (simp add: images_state_def img_width_def img_height_def)
  have step: "merge_image_step sample_world images_state ''/tmp/job/image_02_b.png''
              = Inr (Convert (Decoded ''RGBA'' 800 600) ''RGB'')"
    by (simp add: merge_image_step_def Image_open_def images_state_def img_width_def img_height_def)
  have few: "length (filter (\<lambda>f. filename f \<noteq> []) (files_list single_upload_request)) < 2"
    by (simp add: single_upload_request_def)
  have out: "path_join ''/tmp/job'' ''merged_document.pdf'' = ''/tmp/job/merged_document.pdf''"
            "path_join ''/tmp/job'' ''merged_images.pdf'' = ''/tmp/job/merged_images.pdf''"
    by (simp_all add: path_join_def)
  from merge_accepts_singleton [of merge_state "''/tmp/job/input_03_c.pdf''" "[Page ''c1'', Page ''c2'']"
         sample_world "''/tmp/job''" "''PNG''" "Decoded ''RGBA'' 800 600" single_upload_request empty_state]
       pdf
  have part1: "snd (MergePDFsConverter_convert sample_world merge_state [''/tmp/job/input_03_c.pdf''] ''/tmp/job'')
     = Inr ''/tmp/job/merged_document.pdf''
   \<and> files (fst (MergePDFsConverter_convert sample_world merge_state [''/tmp/job/input_03_c.pdf''] ''/tmp/job''))
        ''/tmp/job/merged_document.pdf'' = Some (PDF [Page ''c1'', Page ''c2''])"
    by (simp add: out)
  from merge_accepts_singleton [of images_state "''/tmp/job/image_02_b.png''" "[]"
         sample_world "''/tmp/job''" "''PNG''" "Decoded ''RGBA'' 800 600" single_upload_request empty_state]
       img few step
  have part2: "snd (MergeImagesConverter_convert sample_world images_state [''/tmp/job/image_02_b.png''] ''/tmp/job'')
     = Inr ''/tmp/job/merged_images.pdf''
   \<and> files (fst (MergeImagesConverter_convert sample_world images_state [''/tmp/job/image_02_b.png''] ''/tmp/job''))
        ''/tmp/job/merged_images.pdf'' = Some (PDF [ImagePage (Convert (Decoded ''RGBA'' 800 600) ''RGB'')])
   \<and> snd (handle_pdf_merge sample_world single_upload_request empty_state) = Redirect_index
   \<and> invoked (fst (handle_pdf_merge sample_world single_upload_request empty_state)) = []"
    by (simp add: out empty_state_def)
  from part1 part2 show ?thesis by simp
qed

text \<open>Two PDFs uploaded through the web layer, for contrast, are merged and sent back.\<close>

lemma merge_request_example:
  "snd (convert_file sample_world two_pdfs_request empty_state)
     = Send_file ''/tmp/job/merged_document.pdf'' (Some (PDF [Page ''a1'', Page ''b1'', Page ''b2'']))
         ''merged_2_pdfs.pdf'' ''application/pdf''
   \<and> invoked (fst (convert_file sample_world two_pdfs_request empty_state))
     = [(MergePDFsConverter, [''/tmp/job/input_01_a.pdf'', ''/tmp/job/input_02_b.PDF''], ''/tmp/job'')]"
proof -
  have v: "validate_pdfs (files_list two_pdfs_request) [] = Inr (files_list two_pdfs_request)"
    by (simp add: two_pdfs_request_def endswith_def lower_def lower_char_def)
  have z: "zero_pad 2 (Suc 0) = ''01''" "zero_pad 2 (Suc (Suc 0)) = ''02''" "zero_pad 2 2 = ''02''"
          "str_nat 2 = ''2''" "str_nat (Suc 0) = ''1''" "str_nat (Suc (Suc 0)) = ''2''"
    by (simp_all add: zero_pad_def str_nat.simps digit_char_def numeral_2_eq_2)
  have out: "path_join ''/tmp/job'' ''merged_document.pdf'' = ''/tmp/job/merged_document.pdf''"
            "path_join ''/tmp/job'' ''input_01_a.pdf'' = ''/tmp/job/input_01_a.pdf''"
            "path_join ''/tmp/job'' ''input_02_b.PDF'' = ''/tmp/job/input_02_b.PDF''"
    by (simp_all add: path_join_def)
  show ?thesis
    using v
    by (simp add: convert_file_def handle_pdf_merge_def two_pdfs_request_def empty_state_def
          sample_world_def z out MergePDFsConverter_convert_def fitz_open_def path_exists_def Let_def
          basename_def rfind_def)
qed

end
